theory Spec2Isabelle
  imports Main
begin

section \<open>Strings and values of the JavaScript runtime\<close>

text \<open>
  A JavaScript string is a sequence of UTF-16 code units; it is modelled as the list of
  the code units' values. ASCII text of the source is written as an Isabelle string and
  mapped by \<open>ascii\<close>; other text (Chinese labels, emoji) is written out as code units.
  Numbers are modelled as integers: the claims verified here never depend on a fractional
  value.
\<close>

type_synonym jsstring = "nat list"

definition ascii :: "string \<Rightarrow> jsstring" where
  "ascii s = map of_char s"

text \<open>\<open>String.prototype.startsWith\<close>, \<open>endsWith\<close> and \<open>includes\<close>.\<close>

fun startsWith :: "'a list \<Rightarrow> 'a list \<Rightarrow> bool" where
  "startsWith s [] = True"
| "startsWith [] (p # ps) = False"
| "startsWith (c # cs) (p # ps) = (c = p \<and> startsWith cs ps)"

definition endsWith :: "'a list \<Rightarrow> 'a list \<Rightarrow> bool" where
  "endsWith s p = startsWith (rev s) (rev p)"

fun str_includes :: "'a list \<Rightarrow> 'a list \<Rightarrow> bool" where
  "str_includes [] k = startsWith [] k"
| "str_includes (c # cs) k = (startsWith (c # cs) k \<or> str_includes cs k)"

text \<open>
  \<open>indexOf\<close> and \<open>lastIndexOf\<close> for a one-character search string, with the
  result \<open>-1\<close> of the source when the character does not occur.
\<close>

fun indexOfFrom :: "'a list \<Rightarrow> 'a \<Rightarrow> int \<Rightarrow> int" where
  "indexOfFrom [] ch i = -1"
| "indexOfFrom (c # cs) ch i = (if c = ch then i else indexOfFrom cs ch (i + 1))"

definition indexOf :: "'a list \<Rightarrow> 'a \<Rightarrow> int" where
  "indexOf s ch = indexOfFrom s ch 0"

fun lastIndexOfFrom :: "'a list \<Rightarrow> 'a \<Rightarrow> int \<Rightarrow> int \<Rightarrow> int" where
  "lastIndexOfFrom [] ch i found = found"
| "lastIndexOfFrom (c # cs) ch i found =
     lastIndexOfFrom cs ch (i + 1) (if c = ch then i else found)"

definition lastIndexOf :: "'a list \<Rightarrow> 'a \<Rightarrow> int" where
  "lastIndexOf s ch = lastIndexOfFrom s ch 0 (-1)"

text \<open>
  \<open>slice\<close> (strings and arrays): a negative index counts from the end, and both
  indices are clamped to the length. \<open>substring\<close> clamps negative indices to zero and
  swaps its arguments when they are out of order.
\<close>

definition relativeIndex :: "int \<Rightarrow> nat \<Rightarrow> nat" where
  "relativeIndex i len = (if i < 0 then nat (max (int len + i) 0) else min (nat i) len)"

definition slice :: "'a list \<Rightarrow> int \<Rightarrow> int \<Rightarrow> 'a list" where
  "slice xs start end =
     (let len = length xs; k = relativeIndex start len; final = relativeIndex end len
      in take (final - k) (drop k xs))"

definition sliceFrom :: "'a list \<Rightarrow> int \<Rightarrow> 'a list" where
  "sliceFrom xs start = drop (relativeIndex start (length xs)) xs"

definition substring :: "'a list \<Rightarrow> int \<Rightarrow> int \<Rightarrow> 'a list" where
  "substring s start end =
     (let len = length s;
          finalStart = min (nat (max start 0)) len;
          finalEnd = min (nat (max end 0)) len;
          from = min finalStart finalEnd;
          to = max finalStart finalEnd
      in take (to - from) (drop from s))"

text \<open>
  \<open>String.prototype.trim\<close> removes the WhiteSpace and LineTerminator code points of
  ECMAScript from both ends.
\<close>

definition isWhiteSpace :: "nat \<Rightarrow> bool" where
  "isWhiteSpace c =
     (c \<in> {0x0009, 0x000A, 0x000B, 0x000C, 0x000D, 0x0020, 0x00A0, 0x1680,
            0x2028, 0x2029, 0x202F, 0x205F, 0x3000, 0xFEFF}
      \<or> (0x2000 \<le> c \<and> c \<le> 0x200A))"

definition trim :: "jsstring \<Rightarrow> jsstring" where
  "trim s = rev (dropWhile isWhiteSpace (rev (dropWhile isWhiteSpace s)))"

text \<open>\<open>Array.prototype.join\<close> on strings.\<close>

fun joinWith :: "'a list \<Rightarrow> 'a list list \<Rightarrow> 'a list" where
  "joinWith sep [] = []"
| "joinWith sep [x] = x"
| "joinWith sep (x # y # ys) = x @ sep @ joinWith sep (y # ys)"

text \<open>Decimal text of an integer, as \<open>Number.prototype.toString\<close> prints it.\<close>

function showNat :: "nat \<Rightarrow> jsstring" where
  "showNat n = (if n < 10 then [48 + n] else showNat (n div 10) @ [48 + n mod 10])"
  by pat_completeness auto
termination
  by (relation "measure id") auto

declare showNat.simps [simp del]

definition showInt :: "int \<Rightarrow> jsstring" where
  "showInt i = (if i < 0 then 45 # showNat (nat (- i)) else showNat (nat i))"

text \<open>
  \<open>toLowerCase\<close> on the Basic Latin letters; every other code unit is left as it is,
  which is what the built-in does for digits, punctuation and Chinese ideographs. The
  functions below take the lower-casing function as a parameter, and this one is used to
  evaluate them on concrete ASCII and Chinese inputs.
\<close>

definition asciiToLowerCase :: "jsstring \<Rightarrow> jsstring" where
  "asciiToLowerCase s = map (\<lambda>c. if 65 \<le> c \<and> c \<le> 90 then c + 32 else c) s"

text \<open>
  Values as \<open>JSON.parse\<close> returns them, with \<open>undefined\<close> for an absent property.
  An object is the list of its own properties.
\<close>

datatype jsval =
    JUndefined
  | JNull
  | JBool bool
  | JNum int
  | JStr jsstring
  | JArr "jsval list"
  | JObj "(jsstring \<times> jsval) list"

datatype js_error = Error jsstring | SyntaxError | TypeError | URIError

fun truthy :: "jsval \<Rightarrow> bool" where
  "truthy JUndefined = False"
| "truthy JNull = False"
| "truthy (JBool b) = b"
| "truthy (JNum n) = (n \<noteq> 0)"
| "truthy (JStr s) = (s \<noteq> [])"
| "truthy (JArr xs) = True"
| "truthy (JObj kvs) = True"

text \<open>
  Sequencing of computations that may throw, and the list of results of a list of
  computations, or the first error among them.
\<close>

definition bindE :: "'e + 'a \<Rightarrow> ('a \<Rightarrow> 'e + 'b) \<Rightarrow> 'e + 'b" where
  "bindE m f = (case m of Inl e \<Rightarrow> Inl e | Inr v \<Rightarrow> f v)"

fun collect :: "('e + 'a) list \<Rightarrow> 'e + 'a list" where
  "collect [] = Inr []"
| "collect (Inl e # rs) = Inl e"
| "collect (Inr v # rs) = (case collect rs of Inl e \<Rightarrow> Inl e | Inr vs \<Rightarrow> Inr (v # vs))"

text \<open>
  Conversion to a string, as a template literal and string concatenation do it. An array
  is the comma-separated conversion of its elements, with nothing for \<open>null\<close> and
  \<open>undefined\<close>. An object is \<open>[object Object]\<close>, unless it has a property of its own
  named \<open>toString\<close>: parsed JSON holds no function, so the conversion then throws
  TypeError.
\<close>

fun toStr :: "jsval \<Rightarrow> js_error + jsstring" where
  "toStr JUndefined = Inr (ascii ''undefined'')"
| "toStr JNull = Inr (ascii ''null'')"
| "toStr (JBool b) = Inr (if b then ascii ''true'' else ascii ''false'')"
| "toStr (JNum n) = Inr (showInt n)"
| "toStr (JStr s) = Inr s"
| "toStr (JArr xs) =
     (case collect (map (\<lambda>x. if x = JUndefined \<or> x = JNull then Inr [] else toStr x) xs) of
        Inl e \<Rightarrow> Inl e
      | Inr parts \<Rightarrow> Inr (joinWith (ascii '','') parts))"
| "toStr (JObj kvs) =
     (if ascii ''toString'' \<in> fst ` set kvs then Inl TypeError
      else Inr (ascii ''[object Object]''))"

section \<open>Scene classifier, instant tier (\<open>IntentAgent.quickPredict\<close>)\<close>

datatype SceneType =
  ROMANTIC | FAMILY | ADVENTURE | BUSINESS | FOODIE | CULTURE | RELAXATION | SOLO

text \<open>
  \<open>SCENE_KEYWORDS\<close> is a record keyed by the scene type. The Chinese keywords are given
  by their code units, in the order of the source; \<open>solo\<close> occurs twice in the last list,
  as it does there.
\<close>

fun SCENE_KEYWORDS :: "SceneType \<Rightarrow> jsstring list" where
  "SCENE_KEYWORDS ROMANTIC =
   [[0x60C5, 0x4FA3], [0x871C, 0x6708], [0x7EAA, 0x5FF5, 0x65E5], [0x6C42, 0x5A5A],
     [0x6D6A, 0x6F2B], [0x4E8C, 0x4EBA, 0x4E16, 0x754C], [0x60C5, 0x4EBA, 0x8282],
     ascii ''honeymoon'', ascii ''anniversary'', ascii ''romantic'', ascii ''couple'',
     ascii ''proposal'']"
| "SCENE_KEYWORDS FAMILY =
   [[0x4EB2, 0x5B50], [0x5BB6, 0x5EAD], [0x5C0F, 0x5B69], [0x5B69, 0x5B50],
     [0x513F, 0x7AE5], [0x5E26, 0x5A03], [0x5168, 0x5BB6], [0x8001, 0x4EBA],
     ascii ''family'', ascii ''kids'', ascii ''children'', ascii ''parents'',
     ascii ''baby'', ascii ''toddler'']"
| "SCENE_KEYWORDS ADVENTURE =
   [[0x63A2, 0x9669], [0x5F92, 0x6B65], [0x767B, 0x5C71], [0x9732, 0x8425],
     [0x6237, 0x5916], [0x6781, 0x9650], [0x8D8A, 0x91CE], [0x6500, 0x5CA9],
     ascii ''adventure'', ascii ''hiking'', ascii ''climbing'', ascii ''camping'',
     ascii ''outdoor'', ascii ''extreme'']"
| "SCENE_KEYWORDS BUSINESS =
   [[0x5546, 0x52A1], [0x51FA, 0x5DEE], [0x4F1A, 0x8BAE], [0x8003, 0x5BDF],
     [0x56E2, 0x5EFA], [0x5BA2, 0x6237], [0x5C55, 0x89C8], ascii ''business'',
     ascii ''work'', ascii ''meeting'', ascii ''conference'', ascii ''corporate'']"
| "SCENE_KEYWORDS FOODIE =
   [[0x7F8E, 0x98DF], [0x5403, 0x8D27], [0x9910, 0x5385], [0x5C0F, 0x5403],
     [0x7F8E, 0x98DF, 0x4E4B, 0x65C5], [0x54C1, 0x9274], [0x6599, 0x7406],
     ascii ''food'', ascii ''foodie'', ascii ''cuisine'', ascii ''culinary'',
     ascii ''restaurant'', ascii ''gastronomy'']"
| "SCENE_KEYWORDS CULTURE =
   [[0x6587, 0x5316], [0x5386, 0x53F2], [0x535A, 0x7269, 0x9986], [0x53E4, 0x8FF9],
     [0x827A, 0x672F], [0x5EFA, 0x7B51], [0x4EBA, 0x6587], ascii ''culture'',
     ascii ''history'', ascii ''museum'', ascii ''heritage'', ascii ''art'',
     ascii ''architecture'']"
| "SCENE_KEYWORDS RELAXATION =
   [[0x5EA6, 0x5047], [0x4F11, 0x95F2], [0x653E, 0x677E], [0x6D77, 0x6EE9],
     [0x6D77, 0x5C9B], [0x6E29, 0x6CC9], [0x5EA6, 0x5047, 0x6751], [0x7597, 0x517B],
     ascii ''relax'', ascii ''vacation'', ascii ''beach'', ascii ''resort'',
     ascii ''spa'', ascii ''island'', ascii ''leisure'']"
| "SCENE_KEYWORDS SOLO =
   [[0x72EC, 0x884C], [0x72EC, 0x81EA], [0x4E00, 0x4E2A, 0x4EBA], ascii ''solo'',
     [0x72EC, 0x81EA, 0x65C5, 0x884C], [0x7A77, 0x6E38], [0x80CC, 0x5305, 0x5BA2],
     ascii ''solo'', ascii ''alone'', ascii ''backpack'', ascii ''independent'']"

text \<open>The order in which \<open>Object.entries\<close> enumerates both records: insertion order.\<close>

definition sceneEntries :: "SceneType list" where
  "sceneEntries = [ROMANTIC, FAMILY, ADVENTURE, BUSINESS, FOODIE, CULTURE, RELAXATION, SOLO]"

text \<open>
  The first loop of \<open>quickPredict\<close>: the score of a scene is the number of entries of its
  keyword list that occur in the lower-cased input.
\<close>

definition sceneScore :: "(jsstring \<Rightarrow> jsstring) \<Rightarrow> jsstring \<Rightarrow> SceneType \<Rightarrow> nat" where
  "sceneScore toLowerCase lowerInput scene =
     length (filter (\<lambda>keyword. str_includes lowerInput (toLowerCase keyword))
               (SCENE_KEYWORDS scene))"

text \<open>
  The second loop: \<open>maxScore\<close> and \<open>predictedScene\<close> are the two loop variables, updated
  when a score is strictly greater than the maximum seen so far.
\<close>

fun pickMax :: "nat \<Rightarrow> SceneType \<Rightarrow> (SceneType \<Rightarrow> nat) \<Rightarrow> SceneType list \<Rightarrow> SceneType" where
  "pickMax maxScore predictedScene scores [] = predictedScene"
| "pickMax maxScore predictedScene scores (scene # rest) =
     (if scores scene > maxScore then pickMax (scores scene) scene scores rest
      else pickMax maxScore predictedScene scores rest)"

definition quickPredict :: "(jsstring \<Rightarrow> jsstring) \<Rightarrow> jsstring \<Rightarrow> SceneType" where
  "quickPredict toLowerCase input =
     (let lowerInput = toLowerCase input;
          scores = sceneScore toLowerCase lowerInput
      in pickMax 0 RELAXATION scores sceneEntries)"

text \<open>
  The rule as the specification words it: the first category, in table order, with at
  least one keyword hit, and \<open>relaxation\<close> when there is none.
\<close>

definition firstHitScene :: "(jsstring \<Rightarrow> jsstring) \<Rightarrow> jsstring \<Rightarrow> SceneType" where
  "firstHitScene toLowerCase input =
     (case filter (\<lambda>scene. sceneScore toLowerCase (toLowerCase input) scene > 0) sceneEntries of
        [] \<Rightarrow> RELAXATION
      | scene # _ \<Rightarrow> scene)"

text \<open>
  The rule the code implements: the first category, in table order, whose score is the
  highest one, provided that score is positive, and \<open>relaxation\<close> otherwise.
\<close>

definition highestScore :: "(SceneType \<Rightarrow> nat) \<Rightarrow> SceneType list \<Rightarrow> nat" where
  "highestScore scores scenes = foldr (\<lambda>scene m. max (scores scene) m) scenes 0"

definition highestScoreScene :: "(SceneType \<Rightarrow> nat) \<Rightarrow> SceneType" where
  "highestScoreScene scores =
     (case filter (\<lambda>scene. scores scene > 0 \<and> scores scene = highestScore scores sceneEntries)
             sceneEntries of
        [] \<Rightarrow> RELAXATION
      | scene # _ \<Rightarrow> scene)"

section \<open>Response parser (\<open>parseAIJsonResponse\<close>)\<close>

text \<open>
  \<open>JSON.parse\<close> is the runtime's: it is a parameter of the model, \<open>None\<close> standing for
  the SyntaxError it throws. The two fence-stripping steps and the two \<open>trim\<close> calls of the
  source are \<open>cleanFences\<close>.
\<close>

definition cleanFences :: "jsstring \<Rightarrow> jsstring" where
  "cleanFences text =
     (let cleaned = trim text;
          cleaned = (if startsWith cleaned (ascii ''```json'') then sliceFrom cleaned 7
                     else if startsWith cleaned (ascii ''```'') then sliceFrom cleaned 3
                     else cleaned);
          cleaned = (if endsWith cleaned (ascii ''```'') then slice cleaned 0 (-3) else cleaned)
      in trim cleaned)"

definition parseAIJsonResponse :: "(jsstring \<Rightarrow> jsval option) \<Rightarrow> jsstring \<Rightarrow> js_error + jsval" where
  "parseAIJsonResponse json_parse text =
     (let cleaned = cleanFences text;
          firstBrace = indexOf cleaned 0x7B;
          lastBrace = lastIndexOf cleaned 0x7D
      in if firstBrace = -1 \<or> lastBrace = -1 \<or> firstBrace \<ge> lastBrace
         then Inl (Error (ascii ''No valid JSON object found in response''))
         else (case json_parse (substring cleaned firstBrace (lastBrace + 1)) of
                 None \<Rightarrow> Inl SyntaxError
               | Some v \<Rightarrow> Inr v))"

text \<open>
  The algorithm as the specification words it. \<open>stripPrefix\<close> removes a prefix when it is
  there; a leading fence is \<open>```json\<close> or \<open>```\<close>, a trailing fence is \<open>```\<close>; the slice
  runs from the first opening brace to the last closing brace, and does not exist when
  no closing brace follows the first opening brace.
\<close>

fun stripPrefix :: "'a list \<Rightarrow> 'a list \<Rightarrow> 'a list option" where
  "stripPrefix [] s = Some s"
| "stripPrefix (p # ps) [] = None"
| "stripPrefix (p # ps) (c # cs) = (if p = c then stripPrefix ps cs else None)"

definition stripLeadingFence :: "jsstring \<Rightarrow> jsstring" where
  "stripLeadingFence t =
     (case stripPrefix (ascii ''```json'') t of
        Some rest \<Rightarrow> rest
      | None \<Rightarrow> (case stripPrefix (ascii ''```'') t of Some rest \<Rightarrow> rest | None \<Rightarrow> t))"

definition stripTrailingFence :: "jsstring \<Rightarrow> jsstring" where
  "stripTrailingFence t =
     (case stripPrefix (rev (ascii ''```'')) (rev t) of Some rest \<Rightarrow> rev rest | None \<Rightarrow> t)"

definition braceSlice :: "jsstring \<Rightarrow> jsstring option" where
  "braceSlice t =
     (let fromFirst = dropWhile (\<lambda>c. c \<noteq> 0x7B) t;
          body = rev (dropWhile (\<lambda>c. c \<noteq> 0x7D) (rev fromFirst))
      in if body = [] then None else Some body)"

definition parseResponseSpec :: "(jsstring \<Rightarrow> jsval option) \<Rightarrow> jsstring \<Rightarrow> js_error + jsval" where
  "parseResponseSpec json_parse text =
     (case braceSlice (trim (stripTrailingFence (stripLeadingFence (trim text)))) of
        None \<Rightarrow> Inl (Error (ascii ''No valid JSON object found in response''))
      | Some body \<Rightarrow> (case json_parse body of None \<Rightarrow> Inl SyntaxError | Some v \<Rightarrow> Inr v))"

section \<open>Data model and collaborators\<close>

text \<open>
  The interfaces of \<open>types.ts\<close> that the verified functions read. A day skeleton and a
  day plan share their first four fields. The fields of an activity hold whatever the
  language model's JSON held (\<open>parseActivities\<close> copies them unchecked), so they are
  values, not strings. Of \<open>TripSkeleton\<close> the fields the verified functions read are
  kept.
\<close>

record DayHeader =
  day :: int
  title :: jsstring
  theme :: jsstring
  city :: jsstring

record DayPlanSkeleton = DayHeader +
  visualKeyword :: jsstring

record LocationData =
  loc_name :: jsval
  loc_lat :: jsval
  loc_lng :: jsval
  loc_address :: jsval

record Activity =
  act_time :: jsval
  act_title :: jsval
  act_description :: jsval
  act_location :: LocationData
  act_tips :: jsval

record DayPlan = DayHeader +
  activities :: "Activity list"

record TripSkeleton =
  destination :: jsstring
  duration :: int
  vibe :: jsstring
  palette :: jsstring
  summary :: jsstring
  days :: "DayPlanSkeleton list"

record DayGenerationResult =
  dayNumber :: int
  skeleton :: DayPlanSkeleton
  dayPlan :: DayPlan
  html :: jsstring
  generatedAt :: int

text \<open>
  The external collaborators. A prompt is identified by the template that builds it and
  the values interpolated into it; its wording is not modelled. Each collaborator is a
  function that returns a value or throws; \<open>latency\<close> is what the clock measures for a
  day. \<open>apiKey\<close> is \<open>GLM_CONFIG.apiKey\<close>, empty when no key is configured. The
  built-ins \<open>JSON.parse\<close>, \<open>toLowerCase\<close> and the file reader are collaborators too.
\<close>

datatype media_type = Image | Video

datatype prompt =
    ActivityPrompt int jsstring jsstring jsstring jsstring
  | RegeneratePrompt int jsstring jsstring
  | VisualIdentityPrompt jsstring
  | ItineraryStructurePrompt jsstring jsstring jsstring jsstring
  | SceneAnalysisPrompt jsstring jsstring SceneType
  | MediaAnalysisPrompt jsstring jsstring media_type

datatype orientation = Landscape | Portrait | Square

record ImageFetchOptions =
  keyword :: jsstring
  count :: int
  img_orientation :: orientation

record AmapLocation =
  poi_name :: jsval
  poi_lat :: int
  poi_lng :: int
  poi_address :: jsval
  poi_city :: jsval

text \<open>
  The request of the user: the prompt, and media items that are links or uploaded files. A
  file carries its content when it has been read already.
\<close>

record TripDetails =
  details_prompt :: jsstring

record SocialLink =
  link_id :: jsstring
  url :: jsstring

record UploadedFile =
  file_id :: jsstring
  file_name :: jsstring
  mimeType :: jsstring
  file_type :: media_type
  base64 :: "jsstring option"

datatype MediaItem = Link SocialLink | File UploadedFile

record Collaborators =
  apiKey :: jsstring
  JSON_parse :: "jsstring \<Rightarrow> jsval option"
  toLowerCase :: "jsstring \<Rightarrow> jsstring"
  readAsDataURL :: "UploadedFile \<Rightarrow> js_error + jsstring"
  generateContent :: "prompt \<Rightarrow> js_error + jsstring"
  searchPlace :: "jsval \<Rightarrow> jsval \<Rightarrow> js_error + AmapLocation option"
  fetchImages :: "ImageFetchOptions \<Rightarrow> js_error + jsstring list"
  latency :: "int \<Rightarrow> int"

text \<open>
  \<open>getGlmClient\<close> throws when no key is configured; the client it returns otherwise
  carries nothing the model reads.
\<close>

definition apiKeyMissing :: jsstring where
  "apiKeyMissing =
     ascii ''GLM API Key '' @ [0x672A, 0x914D, 0x7F6E, 0x3002] @ ascii ''\<newline>'' @
     ascii ''\<newline>'' @
     [0x8BF7, 0x6309, 0x4EE5, 0x4E0B, 0x6B65, 0x9AA4, 0x914D, 0x7F6E, 0xFF1A] @
     ascii ''\<newline>'' @
     ascii ''1. '' @ [0x590D, 0x5236] @ ascii '' .env.example '' @ [0x4E3A] @
     ascii '' .env.local\<newline>'' @
     ascii ''2. '' @ [0x8BBE, 0x7F6E] @ ascii '' ANTHROPIC_AUTH_TOKEN '' @
     [0x4E3A, 0x4F60, 0x7684] @ ascii '' GLM API '' @ [0x5BC6, 0x94A5] @ ascii ''\<newline>'' @
     ascii ''3. '' @ [0x83B7, 0x53D6] @ ascii '' API '' @ [0x5BC6, 0x94A5] @
     ascii '': https://open.bigmodel.cn/\<newline>'' @
     ascii ''\<newline>'' @
     [0x26A0, 0xFE0F] @ ascii '' '' @
     [0x5B89, 0x5168, 0x63D0, 0x793A, 0xFF1A, 0x6B64, 0x5E94, 0x7528, 0x4F7F, 0x7528, 0x524D, 0x7AEF, 0x67B6, 0x6784, 0xFF0C] @
     ascii ''API '' @
     [0x5BC6, 0x94A5, 0x4F1A, 0x5728, 0x6D4F, 0x89C8, 0x5668, 0x4E2D, 0x4F7F, 0x7528, 0x3002, 0x8BF7, 0x786E, 0x4FDD, 0x4F7F, 0x7528, 0x6709, 0x914D, 0x989D, 0x9650, 0x5236, 0x7684, 0x5BC6, 0x94A5, 0x3002]"

definition getGlmClient :: "Collaborators \<Rightarrow> js_error + unit" where
  "getGlmClient env = (if apiKey env = [] then Inl (Error apiKeyMissing) else Inr ())"

text \<open>
  Property read and the operator \<open>||\<close> on values. \<open>getProp\<close> is applied to values that
  are neither \<open>undefined\<close> nor \<open>null\<close> and to the property names of the source, none of
  which is an index or a property of a prototype.
\<close>

fun getProp :: "jsval \<Rightarrow> jsstring \<Rightarrow> jsval" where
  "getProp (JObj kvs) k = (case map_of kvs k of Some v \<Rightarrow> v | None \<Rightarrow> JUndefined)"
| "getProp (JArr xs) k = (if k = ascii ''length'' then JNum (int (length xs)) else JUndefined)"
| "getProp (JStr s) k = (if k = ascii ''length'' then JNum (int (length s)) else JUndefined)"
| "getProp v k = JUndefined"

definition orElse :: "jsval \<Rightarrow> jsval \<Rightarrow> jsval" where
  "orElse a b = (if truthy a then a else b)"

definition nullish :: "jsval \<Rightarrow> bool" where
  "nullish v = (v = JUndefined \<or> v = JNull)"

text \<open>
  \<open>encodeURIComponent\<close>: the unreserved characters are kept, every other code point is
  written as the percent-encoded bytes of its UTF-8 form, and a surrogate without its
  partner throws URIError.
\<close>

definition uriUnreserved :: "nat \<Rightarrow> bool" where
  "uriUnreserved c =
     ((65 \<le> c \<and> c \<le> 90) \<or> (97 \<le> c \<and> c \<le> 122) \<or> (48 \<le> c \<and> c \<le> 57)
      \<or> c \<in> {45, 95, 46, 33, 126, 42, 39, 40, 41})"

definition hexDigit :: "nat \<Rightarrow> nat" where
  "hexDigit d = (if d < 10 then 48 + d else 55 + d)"

definition percentByte :: "nat \<Rightarrow> jsstring" where
  "percentByte b = [37, hexDigit (b div 16), hexDigit (b mod 16)]"

definition utf8Bytes :: "nat \<Rightarrow> nat list" where
  "utf8Bytes cp =
     (if cp < 0x80 then [cp]
      else if cp < 0x800 then [0xC0 + cp div 64, 0x80 + cp mod 64]
      else if cp < 0x10000 then [0xE0 + cp div 4096, 0x80 + (cp div 64) mod 64, 0x80 + cp mod 64]
      else [0xF0 + cp div 262144, 0x80 + (cp div 4096) mod 64, 0x80 + (cp div 64) mod 64,
            0x80 + cp mod 64])"

definition percentEncode :: "nat \<Rightarrow> jsstring" where
  "percentEncode cp = concat (map percentByte (utf8Bytes cp))"

fun encodeURIComponent :: "jsstring \<Rightarrow> js_error + jsstring" where
  "encodeURIComponent [] = Inr []"
| "encodeURIComponent [c] =
     (if uriUnreserved c then Inr [c]
      else if 0xD800 \<le> c \<and> c \<le> 0xDFFF then Inl URIError
      else Inr (percentEncode c))"
| "encodeURIComponent (c # d # ds) =
     (if uriUnreserved c then
        (case encodeURIComponent (d # ds) of Inl e \<Rightarrow> Inl e | Inr r \<Rightarrow> Inr (c # r))
      else if 0xDC00 \<le> c \<and> c \<le> 0xDFFF then Inl URIError
      else if 0xD800 \<le> c \<and> c \<le> 0xDBFF then
        (if 0xDC00 \<le> d \<and> d \<le> 0xDFFF then
           (case encodeURIComponent ds of
              Inl e \<Rightarrow> Inl e
            | Inr r \<Rightarrow> Inr (percentEncode ((c - 0xD800) * 0x400 + (d - 0xDC00) + 0x10000) @ r))
         else Inl URIError)
      else (case encodeURIComponent (d # ds) of
              Inl e \<Rightarrow> Inl e
            | Inr r \<Rightarrow> Inr (percentEncode c @ r)))"

section \<open>Day worker (\<open>DayAgent\<close>) and parallel day orchestrator\<close>

text \<open>
  The two regular expressions of \<open>parseActivities\<close>. The first finds the first
  \<open>```json\<close>, skips one line feed if there is one, and captures lazily up to the next
  \<open>```\<close>, leaving a line feed just before it out of the capture; it yields the whole match
  and the capture. A later \<open>```json\<close> is itself a closing fence for the first one, so no
  other start position can match when the first one does not. The second expression
  matches from the first opening bracket to the last closing bracket.
\<close>

fun closeFence :: "jsstring \<Rightarrow> (jsstring \<times> jsstring) option" where
  "closeFence [] = None"
| "closeFence (c # cs) =
     (if startsWith (c # cs) (10 # ascii ''```'') then Some ([], 10 # ascii ''```'')
      else if startsWith (c # cs) (ascii ''```'') then Some ([], ascii ''```'')
      else (case closeFence cs of
              None \<Rightarrow> None
            | Some (captured, closing) \<Rightarrow> Some (c # captured, closing)))"

fun dropToFirst :: "'a list \<Rightarrow> 'a list \<Rightarrow> 'a list option" where
  "dropToFirst pat [] = stripPrefix pat []"
| "dropToFirst pat (c # cs) =
     (case stripPrefix pat (c # cs) of
        Some rest \<Rightarrow> Some rest
      | None \<Rightarrow> dropToFirst pat cs)"

definition matchJsonFence :: "jsstring \<Rightarrow> (jsstring \<times> jsstring) option" where
  "matchJsonFence response =
     (case dropToFirst (ascii ''```json'') response of
        None \<Rightarrow> None
      | Some afterOpen \<Rightarrow>
          (let lineFeed = (if startsWith afterOpen [10] then [10] else []);
               body = drop (length lineFeed) afterOpen
           in case closeFence body of
                None \<Rightarrow> None
              | Some (captured, closing) \<Rightarrow>
                  Some (ascii ''```json'' @ lineFeed @ captured @ closing, captured)))"

definition matchBracketArray :: "jsstring \<Rightarrow> jsstring option" where
  "matchBracketArray response =
     (let fromFirst = dropWhile (\<lambda>c. c \<noteq> 0x5B) response;
          body = rev (dropWhile (\<lambda>c. c \<noteq> 0x5D) (rev fromFirst))
      in if body = [] then None else Some body)"

text \<open>
  \<open>jsonMatch[1] || jsonMatch[0]\<close>: the capture of the first expression when it is not
  empty, and the whole match otherwise; \<open>None\<close> when neither expression matches.
\<close>

definition extractJsonText :: "jsstring \<Rightarrow> jsstring option" where
  "extractJsonText response =
     (case matchJsonFence response of
        Some (whole, captured) \<Rightarrow> Some (if captured \<noteq> [] then captured else whole)
      | None \<Rightarrow> matchBracketArray response)"

definition getDefaultActivities :: "DayPlanSkeleton \<Rightarrow> Activity list" where
  "getDefaultActivities daySkeleton =
     [\<lparr> act_time = JStr (ascii ''09:00''),
        act_title = JStr ([0x63A2, 0x7D22] @ city daySkeleton),
        act_description = JStr [0x5F00, 0x59CB, 0x4E00, 0x5929, 0x7684, 0x7CBE, 0x5F69, 0x65C5, 0x7A0B],
        act_location = \<lparr> loc_name = JStr (city daySkeleton), loc_lat = JUndefined,
                         loc_lng = JUndefined, loc_address = JUndefined \<rparr>,
        act_tips = JUndefined \<rparr>,
      \<lparr> act_time = JStr (ascii ''12:00''),
        act_title = JStr [0x5348, 0x9910, 0x65F6, 0x95F4],
        act_description = JStr [0x54C1, 0x5C1D, 0x5F53, 0x5730, 0x7279, 0x8272, 0x7F8E, 0x98DF],
        act_location = \<lparr> loc_name = JStr [0x5F53, 0x5730, 0x9910, 0x5385], loc_lat = JUndefined,
                         loc_lng = JUndefined, loc_address = JUndefined \<rparr>,
        act_tips = JUndefined \<rparr>,
      \<lparr> act_time = JStr (ascii ''14:00''),
        act_title = JStr [0x6587, 0x5316, 0x4F53, 0x9A8C],
        act_description = JStr [0x6DF1, 0x5165, 0x4E86, 0x89E3, 0x5F53, 0x5730, 0x6587, 0x5316],
        act_location = \<lparr> loc_name = JStr [0x6587, 0x5316, 0x666F, 0x70B9], loc_lat = JUndefined,
                         loc_lng = JUndefined, loc_address = JUndefined \<rparr>,
        act_tips = JUndefined \<rparr>,
      \<lparr> act_time = JStr (ascii ''18:00''),
        act_title = JStr [0x665A, 0x9910, 0x4E0E, 0x4F11, 0x95F2],
        act_description = JStr [0x4EAB, 0x53D7, 0x8F7B, 0x677E, 0x7684, 0x665A, 0x9910, 0x65F6, 0x5149],
        act_location = \<lparr> loc_name = JStr [0x7F8E, 0x98DF, 0x8857, 0x533A], loc_lat = JUndefined,
                         loc_lng = JUndefined, loc_address = JUndefined \<rparr>,
        act_tips = JUndefined \<rparr>]"

text \<open>
  The body of the \<open>try\<close> block of \<open>parseActivities\<close>, \<open>None\<close> when it throws: no
  expression matches, \<open>JSON.parse\<close> throws, the parsed value has no \<open>map\<close> method (it is
  not an array), or an element is \<open>null\<close>, of which no property can be read.
\<close>

definition toActivity :: "jsval \<Rightarrow> Activity" where
  "toActivity act =
     \<lparr> act_time = orElse (getProp act (ascii ''time'')) (JStr (ascii ''09:00'')),
       act_title = orElse (getProp act (ascii ''title'')) (JStr [0x6D3B, 0x52A8]),
       act_description = orElse (getProp act (ascii ''description'')) (JStr []),
       act_location = \<lparr> loc_name = orElse (getProp act (ascii ''location'')) (JStr []),
                        loc_lat = JUndefined, loc_lng = JUndefined, loc_address = JUndefined \<rparr>,
       act_tips = JUndefined \<rparr>"

definition tryParseActivities :: "(jsstring \<Rightarrow> jsval option) \<Rightarrow> jsstring \<Rightarrow> Activity list option" where
  "tryParseActivities json_parse response =
     (case extractJsonText response of
        None \<Rightarrow> None
      | Some jsonText \<Rightarrow>
          (case json_parse jsonText of
             Some (JArr acts) \<Rightarrow> (if JNull \<in> set acts then None else Some (map toActivity acts))
           | _ \<Rightarrow> None))"

definition parseActivities ::
  "(jsstring \<Rightarrow> jsval option) \<Rightarrow> DayPlanSkeleton \<Rightarrow> jsstring \<Rightarrow> Activity list" where
  "parseActivities json_parse daySkeleton response =
     (case tryParseActivities json_parse response of
        Some acts \<Rightarrow> acts
      | None \<Rightarrow> getDefaultActivities daySkeleton)"

definition buildActivityPrompt :: "TripSkeleton \<Rightarrow> DayPlanSkeleton \<Rightarrow> prompt" where
  "buildActivityPrompt trip daySkeleton =
     ActivityPrompt (day daySkeleton) (destination trip) (city daySkeleton)
       (theme daySkeleton) (vibe trip)"

definition generateActivities :: "Collaborators \<Rightarrow> TripSkeleton \<Rightarrow> DayPlanSkeleton \<Rightarrow> js_error + Activity list" where
  "generateActivities env trip daySkeleton =
     (case generateContent env (buildActivityPrompt trip daySkeleton) of
        Inl e \<Rightarrow> Inl e
      | Inr text \<Rightarrow> Inr (parseActivities (JSON_parse env) daySkeleton text))"

text \<open>
  \<open>enrichWithPOI\<close> for one activity: a lookup that throws or finds nothing leaves the
  activity as it is.
\<close>

definition enrichActivity :: "Collaborators \<Rightarrow> DayPlanSkeleton \<Rightarrow> Activity \<Rightarrow> Activity" where
  "enrichActivity env daySkeleton activity =
     (if truthy (loc_name (act_location activity)) then
        (case searchPlace env (loc_name (act_location activity)) (JStr (city daySkeleton)) of
           Inr (Some poi) \<Rightarrow>
             (case (if truthy (poi_address poi) then Inr (poi_address poi)
                    else bindE (toStr (poi_city poi)) (\<lambda>s. Inr (JStr s))) of
                Inr addr \<Rightarrow>
                  activity \<lparr> act_location :=
                    (act_location activity)
                      \<lparr> loc_name := poi_name poi,
                        loc_lat := JNum (poi_lat poi),
                        loc_lng := JNum (poi_lng poi),
                        loc_address := addr \<rparr> \<rparr>
              | Inl e \<Rightarrow> activity)
         | _ \<Rightarrow> activity)
      else activity)"

definition enrichWithPOI :: "Collaborators \<Rightarrow> DayPlanSkeleton \<Rightarrow> Activity list \<Rightarrow> Activity list" where
  "enrichWithPOI env daySkeleton acts = map (enrichActivity env daySkeleton) acts"

definition fetchDayImages :: "Collaborators \<Rightarrow> DayPlanSkeleton \<Rightarrow> jsstring list" where
  "fetchDayImages env daySkeleton =
     (case fetchImages env \<lparr> keyword = visualKeyword daySkeleton, count = 3,
                              img_orientation = Landscape \<rparr> of
        Inl e \<Rightarrow> []
      | Inr images \<Rightarrow> images)"

definition generateMapUrl :: "jsval \<Rightarrow> jsval \<Rightarrow> jsstring \<Rightarrow> js_error + jsstring" where
  \<open>generateMapUrl latitude longitude cityName =
     bindE (toStr longitude) (\<lambda>lngStr.
     bindE (toStr latitude) (\<lambda>latStr.
     bindE (encodeURIComponent cityName) (\<lambda>name.
     Inr (
        ascii ''https://uri.amap.com/marker?position='' @ lngStr @ ascii '','' @ latStr @
        ascii ''&name='' @ name))))\<close>

definition generateActivityHtml :: "TripSkeleton \<Rightarrow> DayPlanSkeleton \<Rightarrow> Activity \<Rightarrow> js_error + jsstring" where
  \<open>generateActivityHtml trip daySkeleton activity =
     bindE (if truthy (loc_lat (act_location activity)) \<and> truthy (loc_lng (act_location activity))
            then generateMapUrl (loc_lat (act_location activity)) (loc_lng (act_location activity))
                   (city daySkeleton)
            else Inr (ascii ''#'')) (\<lambda>mapUrl.
     bindE (toStr (act_time activity)) (\<lambda>timeStr.
     bindE (toStr (act_title activity)) (\<lambda>titleStr.
     bindE (toStr (act_description activity)) (\<lambda>descriptionStr.
     bindE (if truthy (loc_name (act_location activity))
            then bindE (toStr (loc_name (act_location activity))) (\<lambda>nameStr. Inr (
          ascii ''\<newline>'' @
          ascii ''              <a href="'' @ mapUrl @
          ascii ''" target="_blank" class="inline-flex items-center mt-2 text-sm text-blue-600 hover:text-blue-800">\<newline>'' @
          ascii ''                <svg class="w-4 h-4 mr-1" fill="none" stroke="currentColor" viewBox="0 0 24 24">\<newline>'' @
          ascii ''                  <path strokeLinecap="round" strokeLinejoin="round" strokeWidth={2} d="M17.657 16.657L13.414 20.9a1.998 1.998 0 01-2.827 0l-4.244-4.243a8 8 0 1111.314 0z" />\<newline>'' @
          ascii ''                  <path strokeLinecap="round" strokeLinejoin="round" strokeWidth={2} d="M15 11a3 3 0 11-6 0 3 3 0 016 0z" />\<newline>'' @
          ascii ''                </svg>\<newline>'' @
          ascii ''                '' @ nameStr @ ascii ''\<newline>'' @
          ascii ''              </a>\<newline>'' @
          ascii ''            ''))
            else Inr []) (\<lambda>locationHtml.
     bindE (if truthy (act_tips activity)
            then bindE (toStr (act_tips activity)) (\<lambda>tipsStr. Inr (
          ascii ''\<newline>'' @
          ascii ''              <div class="mt-2 p-2 bg-yellow-50 rounded-lg">\<newline>'' @
          ascii ''                <p class="text-xs text-yellow-800">'' @ [0xD83D, 0xDCA1] @
          ascii '' '' @ tipsStr @ ascii ''</p>\<newline>'' @
          ascii ''              </div>\<newline>'' @
          ascii ''            ''))
            else Inr []) (\<lambda>tipsHtml.
     Inr (
          ascii ''\<newline>'' @
          ascii ''      <div class="activity-item bg-'' @ palette trip @
          ascii ''-50 rounded-xl p-4 hover:shadow-md transition-shadow">\<newline>'' @
          ascii ''        <div class="flex items-start space-x-3">\<newline>'' @
          ascii ''          <!-- '' @ [0x65F6, 0x95F4] @ ascii '' -->\<newline>'' @
          ascii ''          <div class="flex-shrink-0 w-16 text-center">\<newline>'' @
          ascii ''            <span class="inline-block bg-'' @ palette trip @
          ascii ''-500 text-white px-3 py-1 rounded-full text-sm font-medium">\<newline>'' @
          ascii ''              '' @ timeStr @ ascii ''\<newline>'' @
          ascii ''            </span>\<newline>'' @
          ascii ''          </div>\<newline>'' @
          ascii ''\<newline>'' @
          ascii ''          <!-- '' @ [0x5185, 0x5BB9] @ ascii '' -->\<newline>'' @
          ascii ''          <div class="flex-1">\<newline>'' @
          ascii ''            <h3 class="font-bold text-lg text-slate-800">'' @ titleStr @
          ascii ''</h3>\<newline>'' @
          ascii ''            <p class="text-slate-600 text-sm mt-1">'' @ descriptionStr @
          ascii ''</p>\<newline>'' @
          ascii ''\<newline>'' @
          ascii ''            '' @ locationHtml @ ascii ''\<newline>'' @
          ascii ''\<newline>'' @
          ascii ''            '' @ tipsHtml @ ascii ''\<newline>'' @
          ascii ''          </div>\<newline>'' @
          ascii ''        </div>\<newline>'' @
          ascii ''      </div>\<newline>'' @
          ascii ''    '')))))))\<close>

text \<open>
  \<open>generateHTML\<close>. The map link uses the coordinates of the first activity, or zero
  where a coordinate is missing or falsy.
\<close>

definition firstCoordinate :: "(LocationData \<Rightarrow> jsval) \<Rightarrow> Activity list \<Rightarrow> jsval" where
  "firstCoordinate coord acts =
     (case acts of [] \<Rightarrow> JNum 0 | a # _ \<Rightarrow> orElse (coord (act_location a)) (JNum 0))"

definition generateHTML ::
  "TripSkeleton \<Rightarrow> DayPlanSkeleton \<Rightarrow> DayPlan \<Rightarrow> jsstring list \<Rightarrow> js_error + jsstring" where
  \<open>generateHTML trip daySkeleton plan images =
     bindE (collect (map (generateActivityHtml trip daySkeleton) (activities plan)))
       (\<lambda>activityHtmls.
     (let activitiesHtml = joinWith [10] activityHtmls;
          imagesHtml = joinWith [10] (map (\<lambda>img.
       ascii ''<img src="'' @ img @ ascii ''" alt="'' @ theme plan @
       ascii ''" class="w-full h-32 object-cover rounded-lg" />'') images)
      in bindE (generateMapUrl (firstCoordinate loc_lat (activities plan))
                  (firstCoordinate loc_lng (activities plan)) (city plan)) (\<lambda>mapUrl.
         Inr (
          ascii ''\<newline>'' @
          ascii ''      <section class="day-section mb-8" data-day="'' @ showInt (day plan) @
          ascii ''">\<newline>'' @
          ascii ''        <div class="bg-white rounded-2xl shadow-lg overflow-hidden">\<newline>'' @
          ascii ''          <!-- '' @ [0x5929, 0x6570, 0x6807, 0x9898] @
          ascii '' -->\<newline>'' @
          ascii ''          <div class="bg-'' @ palette trip @
          ascii ''-500 text-white p-6">\<newline>'' @
          ascii ''            <h2 class="text-2xl font-bold">Day '' @ showInt (day plan) @
          ascii '': '' @ title plan @ ascii ''</h2>\<newline>'' @
          ascii ''            <p class="text-'' @ palette trip @ ascii ''-100 mt-1">'' @
          theme plan @ ascii ''</p>\<newline>'' @
          ascii ''          </div>\<newline>'' @
          ascii ''\<newline>'' @
          ascii ''          <div class="grid lg:grid-cols-2 gap-6 p-6">\<newline>'' @
          ascii ''            <!-- '' @
          [0x5DE6, 0x4FA7, 0xFF1A, 0x89C6, 0x89C9, 0x5185, 0x5BB9] @ ascii '' -->\<newline>'' @
          ascii ''            <div class="space-y-4">\<newline>'' @
          ascii ''              <!-- '' @ [0x56FE, 0x7247, 0x7F51, 0x683C] @
          ascii '' -->\<newline>'' @
          ascii ''              <div class="grid grid-cols-2 gap-3">\<newline>'' @
          ascii ''                '' @ imagesHtml @ ascii ''\<newline>'' @
          ascii ''              </div>\<newline>'' @
          ascii ''\<newline>'' @
          ascii ''              <!-- '' @ [0x5730, 0x56FE, 0x5361, 0x7247] @
          ascii '' -->\<newline>'' @
          ascii ''              <a href="'' @ mapUrl @
          ascii ''" target="_blank" class="block bg-blue-50 hover:bg-blue-100 rounded-xl p-4 transition-colors">\<newline>'' @
          ascii ''                <div class="flex items-center space-x-3">\<newline>'' @
          ascii ''                  <svg class="w-6 h-6 text-blue-600" fill="none" stroke="currentColor" viewBox="0 0 24 24">\<newline>'' @
          ascii ''                    <path strokeLinecap="round" strokeLinejoin="round" strokeWidth={2} d="M9 20l-5.447-2.724A1 1 0 013 16.382V5.618a1 1 0 011.447-.894L9 7m0 13l6-3m-6 3V7m6 10l4.553 2.276A1 1 0 0021 18.382V7.618a1 1 0 00-.553-.894L15 4m0 13V4m0 0L9 7" />\<newline>'' @
          ascii ''                  </svg>\<newline>'' @
          ascii ''                  <div>\<newline>'' @
          ascii ''                    <p class="font-medium text-blue-900">'' @
          [0x5728, 0x9AD8, 0x5FB7, 0x5730, 0x56FE, 0x4E2D, 0x67E5, 0x770B] @
          ascii ''</p>\<newline>'' @
          ascii ''                    <p class="text-sm text-blue-600">'' @
          [0x4E00, 0x952E, 0x5BFC, 0x822A, 0x81F3, 0x7B2C, 0x4E00, 0x5929, 0x8D77, 0x70B9] @
          ascii ''</p>\<newline>'' @
          ascii ''                  </div>\<newline>'' @
          ascii ''                </div>\<newline>'' @
          ascii ''              </a>\<newline>'' @
          ascii ''\<newline>'' @
          ascii ''              <!-- '' @ [0x4FEE, 0x6539, 0x6309, 0x94AE] @
          ascii '' -->\<newline>'' @
          ascii ''              <button onclick="window.parent.postMessage({type:'modify_day', day:'' @
          showInt (day plan) @
          ascii ''}, '*')" class="w-full bg-slate-100 hover:bg-slate-200 text-slate-700 rounded-xl p-4 transition-colors">\<newline>'' @
          ascii ''                <span class="font-medium">'' @
          [0x6211, 0x60F3, 0x4FEE, 0x6539] @ ascii '' Day '' @ showInt (day plan) @
          ascii ''</span>\<newline>'' @
          ascii ''              </button>\<newline>'' @
          ascii ''            </div>\<newline>'' @
          ascii ''\<newline>'' @
          ascii ''            <!-- '' @
          [0x53F3, 0x4FA7, 0xFF1A, 0x6D3B, 0x52A8, 0x8BE6, 0x60C5] @ ascii '' -->\<newline>'' @
          ascii ''            <div class="space-y-4">\<newline>'' @
          ascii ''              '' @ activitiesHtml @ ascii ''\<newline>'' @
          ascii ''            </div>\<newline>'' @
          ascii ''          </div>\<newline>'' @
          ascii ''        </div>\<newline>'' @
          ascii ''      </section>\<newline>'' @
          ascii ''    ''))))\<close>

text \<open>
  \<open>DayAgent.generate\<close>: its \<open>catch\<close> logs the error and throws it again, so an error of
  any step that has no fallback of its own is the result.
\<close>

definition generate :: "Collaborators \<Rightarrow> TripSkeleton \<Rightarrow> DayPlanSkeleton \<Rightarrow> js_error + DayGenerationResult" where
  "generate env trip daySkeleton =
     bindE (generateActivities env trip daySkeleton) (\<lambda>acts.
     (let enrichedActivities = enrichWithPOI env daySkeleton acts;
          images = fetchDayImages env daySkeleton;
          plan = \<lparr> day = day daySkeleton, title = title daySkeleton, theme = theme daySkeleton,
                   city = city daySkeleton, activities = enrichedActivities \<rparr>
      in bindE (generateHTML trip daySkeleton plan images) (\<lambda>markup.
         Inr \<lparr> dayNumber = day daySkeleton, skeleton = daySkeleton, dayPlan = plan,
               html = markup, generatedAt = latency env (day daySkeleton) \<rparr>)))"

text \<open>
  \<open>new DayAgent(skeleton, trip)\<close> followed by \<open>generate()\<close>: the constructor
  calls \<open>getGlmClient\<close>, which throws without a configured key.
\<close>

definition runDayAgent :: "Collaborators \<Rightarrow> TripSkeleton \<Rightarrow> DayPlanSkeleton \<Rightarrow> js_error + DayGenerationResult" where
  "runDayAgent env trip daySkeleton =
     bindE (getGlmClient env) (\<lambda>client. generate env trip daySkeleton)"

text \<open>
  \<open>generateDaysParallel\<close>. \<open>Promise.all\<close> fulfils with the results in the order of the
  batch when every worker fulfils and rejects when one rejects; among several rejecting
  workers the model takes the first of the batch. The loop is the source's \<open>for\<close> loop
  on \<open>i\<close>, which does not end when \<open>concurrency\<close> is not positive and the list is not
  empty. The final \<open>sort\<close> is stable.
\<close>

partial_function (option) batchLoop ::
  "Collaborators \<Rightarrow> TripSkeleton \<Rightarrow> DayPlanSkeleton list \<Rightarrow> int \<Rightarrow> int \<Rightarrow>
     DayGenerationResult list \<Rightarrow> (js_error + DayGenerationResult list) option"
where
  "batchLoop env trip daySkeletons concurrency i results =
     (if i < int (length daySkeletons) then
        (case collect (map (runDayAgent env trip)
                        (slice daySkeletons i (i + concurrency))) of
           Inl e \<Rightarrow> Some (Inl e)
         | Inr batchResults \<Rightarrow>
             batchLoop env trip daySkeletons concurrency (i + concurrency)
               (results @ batchResults))
      else Some (Inr results))"

definition generateDaysParallel ::
  "Collaborators \<Rightarrow> DayPlanSkeleton list \<Rightarrow> TripSkeleton \<Rightarrow> int \<Rightarrow>
     (js_error + DayGenerationResult list) option"
where
  "generateDaysParallel env daySkeletons trip concurrency =
     (case batchLoop env trip daySkeletons concurrency 0 [] of
        None \<Rightarrow> None
      | Some (Inl e) \<Rightarrow> Some (Inl e)
      | Some (Inr results) \<Rightarrow> Some (Inr (sort_key dayNumber results)))"

section \<open>Version ledger (\<open>FeedbackAgent.createVersionHistory\<close>, \<open>handleRestoreVersion\<close>)\<close>

datatype ChangeType = Global | Local

record VersionChange =
  change_type :: ChangeType
  change_day :: "int option"
  change_description :: jsstring
  change_timestamp :: int

text \<open>
  A snapshot. \<open>handleRestoreVersion\<close> tests \<open>version.skeleton\<close> before it uses it, so
  the field is optional in the model.
\<close>

record VersionHistory =
  version_id :: jsstring
  version :: int
  version_timestamp :: int
  author :: jsstring
  changes :: "VersionChange list"
  version_skeleton :: "TripSkeleton option"
  version_summary :: jsstring

definition generateVersionSummary :: "VersionChange list \<Rightarrow> jsstring" where
  "generateVersionSummary cs =
     (let globalChanges = length (filter (\<lambda>c. change_type c = Global) cs);
          localChanges = length (filter (\<lambda>c. change_type c = Local) cs);
          parts = (if globalChanges > 0
                   then [showInt (int globalChanges) @ [0x9879, 0x5168, 0x5C40, 0x4FEE, 0x6539]]
                   else [])
                  @ (if localChanges > 0
                     then [showInt (int localChanges) @ [0x5929, 0x8C03, 0x6574]]
                     else []);
          joined = joinWith [0xFF0C] parts
      in if joined = [] then [0x884C, 0x7A0B, 0x66F4, 0x65B0] else joined)"

text \<open>\<open>now\<close> is what \<open>Date.now()\<close> returns.\<close>

definition createVersionHistory ::
  "int \<Rightarrow> TripSkeleton \<Rightarrow> VersionChange list \<Rightarrow> jsstring \<Rightarrow> VersionHistory option \<Rightarrow> VersionHistory"
where
  "createVersionHistory now sk cs who previousVersion =
     (let v = (case previousVersion of Some p \<Rightarrow> version p + 1 | None \<Rightarrow> 1)
      in \<lparr> version_id = ascii ''v'' @ showInt v @ ascii ''_'' @ showInt now,
           version = v,
           version_timestamp = now,
           author = who,
           changes = cs,
           version_skeleton = Some sk,
           version_summary = generateVersionSummary cs \<rparr>)"

text \<open>
  The state of the \<open>App\<close> component that the handlers below read or write. What the
  component shows with \<open>alert\<close> is logged in \<open>alerts\<close>: that the day's markup could not
  be located, or that the modification failed with an error.
\<close>

datatype alert = CannotLocateDay | ModificationFailed js_error

datatype role = User | Assistant

record ChatMessage =
  msg_id :: jsstring
  msg_role :: role
  msg_content :: jsstring
  msg_timestamp :: int

record AppState =
  tripSkeleton :: "TripSkeleton option"
  generatedHtml :: "jsstring option"
  modifyingDay :: "int option"
  modifyInput :: jsstring
  isRegenerating :: bool
  chatMessages :: "ChatMessage list"
  versionHistory :: "VersionHistory list"
  showVersionHistory :: bool
  alerts :: "alert list"
  showDaySelector :: bool
  showDayConfirmation :: bool
  suggestedDayForConfirmation :: "int option"

text \<open>
  \<open>addChatMessage\<close>: \<open>now\<close> is \<open>Date.now()\<close> and \<open>rnd\<close> the text of \<open>Math.random()\<close>.
\<close>

definition addChatMessage :: "int \<Rightarrow> jsstring \<Rightarrow> role \<Rightarrow> jsstring \<Rightarrow> AppState \<Rightarrow> AppState" where
  "addChatMessage now rnd r content st =
     st \<lparr> chatMessages := chatMessages st @
            [\<lparr> msg_id = showInt now @ rnd, msg_role = r, msg_content = content,
               msg_timestamp = now \<rparr>] \<rparr>"

definition handleRestoreVersion :: "int \<Rightarrow> jsstring \<Rightarrow> VersionHistory \<Rightarrow> AppState \<Rightarrow> AppState" where
  "handleRestoreVersion now rnd v st =
     (case version_skeleton v of
        None \<Rightarrow> st
      | Some sk \<Rightarrow>
          (addChatMessage now rnd Assistant
             ([0x5DF2, 0x56DE, 0x6EDA, 0x5230, 0x7248, 0x672C, 0x0020] @ showInt (version v)
                @ ascii '' ('' @ version_summary v @ ascii '')'')
             (st \<lparr> tripSkeleton := Some sk \<rparr>))
            \<lparr> showVersionHistory := False \<rparr>)"

section \<open>Single-day regeneration (\<open>regenerateDayPlan\<close>, \<open>submitModification\<close>)\<close>

text \<open>
  \<open>renderDayToHtml\<close> reads the day's data as the language model's JSON gave it. Reading
  a property of \<open>undefined\<close> or \<open>null\<close> throws TypeError, as does calling \<open>map\<close> on a
  value that is not an array.
\<close>

definition propOf :: "jsval \<Rightarrow> jsstring \<Rightarrow> js_error + jsval" where
  "propOf v k = (if nullish v then Inl TypeError else Inr (getProp v k))"

definition firstElement :: "jsval \<Rightarrow> js_error + jsval" where
  "firstElement v =
     (if nullish v then Inl TypeError
      else (case v of
              JArr (x # xs) \<Rightarrow> Inr x
            | JStr (c # cs) \<Rightarrow> Inr (JStr [c])
            | JObj kvs \<Rightarrow> Inr (getProp v (ascii ''0''))
            | _ \<Rightarrow> Inr JUndefined))"

definition padStart :: "nat \<Rightarrow> nat \<Rightarrow> jsstring \<Rightarrow> jsstring" where
  "padStart n c s = replicate (n - length s) c @ s"

definition amapSearchLink :: "jsstring \<Rightarrow> js_error + jsstring" where
  \<open>amapSearchLink query =
     bindE (encodeURIComponent query) (\<lambda>q. Inr (ascii ''https://www.amap.com/search?query='' @ q))\<close>

definition renderMapLink :: "jsval \<Rightarrow> jsval \<Rightarrow> js_error + jsstring" where
  "renderMapLink dayData mainActivity =
     bindE (if truthy mainActivity then
              bindE (propOf mainActivity (ascii ''location'')) (\<lambda>loc.
              bindE (propOf loc (ascii ''lat'')) (\<lambda>latitude.
              if truthy latitude then
                bindE (propOf loc (ascii ''lng'')) (\<lambda>longitude. Inr (truthy longitude))
              else Inr False))
            else Inr False) (\<lambda>located.
     if located then
       bindE (propOf mainActivity (ascii ''location'')) (\<lambda>loc.
       bindE (toStr (getProp loc (ascii ''name''))) amapSearchLink)
     else
       bindE (toStr (getProp dayData (ascii ''city''))) (\<lambda>cityStr.
       bindE (toStr (getProp dayData (ascii ''title''))) (\<lambda>titleStr.
       amapSearchLink (cityStr @ ascii '' '' @ titleStr))))"

fun renderStockImages :: "jsstring \<Rightarrow> nat \<Rightarrow> jsstring list \<Rightarrow> jsstring" where
  \<open>renderStockImages paletteName idx [] = []\<close>
| \<open>renderStockImages paletteName idx (img # imgs) =
     (
          ascii ''\<newline>'' @
          ascii ''                     <div class="relative bg-'' @ paletteName @
          ascii ''-50 '' @ (if idx = 0 then ascii ''col-span-2 row-span-2'' else []) @
          ascii '' overflow-hidden group/img">\<newline>'' @
          ascii ''                       <img\<newline>'' @
          ascii ''                         src="'' @ img @ ascii ''"\<newline>'' @
          ascii ''                         alt="Day Visual"\<newline>'' @
          ascii ''                         class="w-full h-full object-cover transition-transform duration-700 group-hover/img:scale-105"\<newline>'' @
          ascii ''                         loading="lazy"\<newline>'' @
          ascii ''                         decoding="async"\<newline>'' @
          ascii ''                         onerror="this.style.opacity='0';this.nextElementSibling?.remove();"\<newline>'' @
          ascii ''                       />\<newline>'' @
          ascii ''                       <div class="absolute inset-0 bg-'' @ paletteName @
          ascii ''-100/50 animate-pulse pointer-events-none" style="animation-duration: 1.5s;"></div>\<newline>'' @
          ascii ''                     </div>\<newline>'' @
          ascii ''                     '')
     @ renderStockImages paletteName (idx + 1) imgs\<close>

definition renderActivity :: "jsstring \<Rightarrow> jsval \<Rightarrow> js_error + jsstring" where
  \<open>renderActivity paletteName act =
     bindE (propOf act (ascii ''time'')) (\<lambda>timeVal.
     bindE (toStr timeVal) (\<lambda>timeStr.
     bindE (toStr (getProp act (ascii ''title''))) (\<lambda>titleStr.
     bindE (toStr (getProp act (ascii ''description''))) (\<lambda>descriptionStr.
     bindE (propOf (getProp act (ascii ''location'')) (ascii ''name'')) (\<lambda>nameVal.
     bindE (toStr nameVal) (\<lambda>nameStr.
     bindE (encodeURIComponent nameStr) (\<lambda>nameUri.
     bindE (if truthy (getProp act (ascii ''tips''))
            then bindE (toStr (getProp act (ascii ''tips''))) (\<lambda>tipsStr. Inr (
          ascii ''<div class="mt-3 text-xs text-'' @ paletteName @ ascii ''-500 italic bg-'' @
          paletteName @ ascii ''-50/50 p-2 rounded border-l-2 border-'' @ paletteName @
          ascii ''-300">'' @ tipsStr @ ascii ''</div>''))
            else Inr []) (\<lambda>tipsHtml.
     Inr (
          ascii ''\<newline>'' @
          ascii ''                    <div class="relative pl-12 md:pl-0 md:group-even:flex-row-reverse group/item">\<newline>'' @
          ascii ''                       <div class="md:flex items-center justify-between w-full">\<newline>'' @
          ascii ''                          <div class="absolute left-6 md:left-0 md:relative w-3 h-3 rounded-full border-2 border-white bg-'' @
          paletteName @
          ascii ''-400 z-10 -translate-x-1.5 md:mx-auto shadow-sm"></div>\<newline>'' @
          ascii ''\<newline>'' @
          ascii ''                          <div class="md:w-[45%] mb-2 md:mb-0 md:text-right md:pr-8">\<newline>'' @
          ascii ''                             <span class="inline-block px-3 py-1 rounded-full bg-'' @
          paletteName @ ascii ''-50 text-'' @ paletteName @
          ascii ''-600 text-xs font-bold mb-2">'' @ timeStr @ ascii ''</span>\<newline>'' @
          ascii ''                             <h3 class="text-xl font-bold text-'' @
          paletteName @ ascii ''-900">'' @ titleStr @ ascii ''</h3>\<newline>'' @
          ascii ''                          </div>\<newline>'' @
          ascii ''\<newline>'' @
          ascii ''                          <div class="md:w-[45%] md:pl-8">\<newline>'' @
          ascii ''                             <p class="text-'' @ paletteName @
          ascii ''-700 text-sm leading-relaxed mb-3">'' @ descriptionStr @
          ascii ''</p>\<newline>'' @
          ascii ''                             <div class="flex flex-wrap gap-2">\<newline>'' @
          ascii ''                                <a href="https://www.amap.com/search?query='' @
          nameUri @
          ascii ''" target="_blank" class="inline-flex items-center gap-1 text-[10px] text-'' @
          paletteName @ ascii ''-500 bg-white border border-'' @ paletteName @
          ascii ''-100 px-2 py-1 rounded hover:bg-'' @ paletteName @
          ascii ''-50 transition-colors">\<newline>'' @
          ascii ''                                   <svg width="10" height="10" viewBox="0 0 24 24" fill="none" stroke="currentColor" stroke-width="2"><path d="M21 10c0 7-9 13-9 13s-9-6-9-13a9 9 0 0 1 18 0z"/><circle cx="12" cy="10" r="3"/></svg>\<newline>'' @
          ascii ''                                   '' @ nameStr @ ascii ''\<newline>'' @
          ascii ''                                </a>\<newline>'' @
          ascii ''                             </div>\<newline>'' @
          ascii ''                             '' @ tipsHtml @ ascii ''\<newline>'' @
          ascii ''                          </div>\<newline>'' @
          ascii ''                       </div>\<newline>'' @
          ascii ''                    </div>\<newline>'' @
          ascii ''                  '')))))))))\<close>

definition renderDayToHtml :: "jsval \<Rightarrow> jsstring \<Rightarrow> jsstring list \<Rightarrow> js_error + jsstring" where
  \<open>renderDayToHtml dayData paletteName stockImages =
     bindE (propOf dayData (ascii ''activities'')) (\<lambda>acts.
     bindE (firstElement acts) (\<lambda>mainActivity.
     bindE (renderMapLink dayData mainActivity) (\<lambda>mapLink.
     bindE (toStr (getProp dayData (ascii ''day''))) (\<lambda>dayStr.
     bindE (propOf (getProp dayData (ascii ''day'')) (ascii ''toString'')) (\<lambda>dayToString.
     bindE (toStr (getProp dayData (ascii ''title''))) (\<lambda>titleStr.
     bindE (toStr (getProp dayData (ascii ''theme''))) (\<lambda>themeStr.
     (let imagesHtml = renderStockImages paletteName 0 (slice stockImages 0 3) in
     bindE (if truthy mainActivity
            then bindE (propOf mainActivity (ascii ''location'')) (\<lambda>loc.
                 bindE (propOf loc (ascii ''name'')) toStr)
            else toStr (getProp dayData (ascii ''city''))) (\<lambda>placeStr.
     bindE (case acts of
              JArr xs \<Rightarrow> bindE (collect (map (renderActivity paletteName) xs))
                           (\<lambda>parts. Inr (concat parts))
            | _ \<Rightarrow> Inl TypeError) (\<lambda>activitiesHtml.
     Inr (
          ascii ''\<newline>'' @
          ascii ''    <section id="day-'' @ dayStr @
          ascii ''" class="mb-32 break-inside-avoid relative group transition-all duration-500">\<newline>'' @
          ascii ''       <!-- 1. Header -->\<newline>'' @
          ascii ''       <div class="flex items-end gap-6 mb-10 relative px-2">\<newline>'' @
          ascii ''          <div class="text-9xl font-black text-'' @ paletteName @
          ascii ''-100 absolute -top-12 -left-6 z-0 opacity-40 select-none font-heading">'' @
          padStart 2 48 dayStr @ ascii ''</div>\<newline>'' @
          ascii ''          <div class="relative z-10 pl-6 border-l-4 border-'' @ paletteName @
          ascii ''-400">\<newline>'' @
          ascii ''             <h2 class="text-4xl md:text-5xl font-bold text-'' @
          paletteName @ ascii ''-900 leading-none font-heading tracking-tight">'' @ titleStr @
          ascii ''</h2>\<newline>'' @
          ascii ''             <p class="text-'' @ paletteName @
          ascii ''-600 font-serif text-xl mt-3 italic flex items-center gap-2">\<newline>'' @
          ascii ''                <span class="w-8 h-px bg-'' @ paletteName @
          ascii ''-400"></span>\<newline>'' @
          ascii ''                '' @ themeStr @ ascii ''\<newline>'' @
          ascii ''             </p>\<newline>'' @
          ascii ''          </div>\<newline>'' @
          ascii ''       </div>\<newline>'' @
          ascii ''\<newline>'' @
          ascii ''       <div class="grid grid-cols-1 lg:grid-cols-12 gap-12">\<newline>'' @
          ascii ''           <!-- 2. LEFT: Visuals -->\<newline>'' @
          ascii ''           <div class="lg:col-span-5 flex flex-col gap-6 sticky top-8 self-start">\<newline>'' @
          ascii ''               <div class="grid grid-cols-2 gap-2 w-full rounded-2xl overflow-hidden shadow-xl bg-'' @
          paletteName @
          ascii ''-100 aspect-[4/5] group-hover:shadow-2xl transition-shadow duration-500">\<newline>'' @
          ascii ''                   '' @ imagesHtml @ ascii ''\<newline>'' @
          ascii ''               </div>\<newline>'' @
          ascii ''\<newline>'' @
          ascii ''               <!-- Map Card (Gaode) -->\<newline>'' @
          ascii ''               <a href="'' @ mapLink @
          ascii ''" target="_blank" class="flex items-center p-5 bg-white/80 backdrop-blur rounded-xl border border-'' @
          paletteName @ ascii ''-100 shadow-sm hover:shadow-md hover:border-'' @ paletteName @
          ascii ''-300 transition-all group/map no-underline cursor-pointer">\<newline>'' @
          ascii ''                  <div class="bg-'' @ paletteName @
          ascii ''-50 p-3 rounded-full text-'' @ paletteName @
          ascii ''-600 mr-4 group-hover/map:bg-'' @ paletteName @
          ascii ''-100 transition-colors">\<newline>'' @
          ascii ''                     <!-- Gaode Icon Style -->\<newline>'' @
          ascii ''                     <svg xmlns="http://www.w3.org/2000/svg" width="24" height="24" viewBox="0 0 24 24" fill="none" stroke="currentColor" stroke-width="2" stroke-linecap="round" stroke-linejoin="round"><polygon points="3 11 22 2 13 21 11 13 3 11"/></svg>\<newline>'' @
          ascii ''                  </div>\<newline>'' @
          ascii ''                  <div class="flex-1">\<newline>'' @
          ascii ''                      <span class="block font-bold text-'' @ paletteName @
          ascii ''-900 text-sm">'' @ [0x9AD8, 0x5FB7, 0x5730, 0x56FE, 0x5BFC, 0x822A] @
          ascii ''</span>\<newline>'' @
          ascii ''                      <span class="text-xs text-'' @ paletteName @
          ascii ''-500 truncate max-w-[200px]">'' @ placeStr @ ascii '' '' @
          [0x53CA, 0x5468, 0x8FB9] @ ascii ''</span>\<newline>'' @
          ascii ''                  </div>\<newline>'' @
          ascii ''                  <div class="text-'' @ paletteName @
          ascii ''-400 group-hover/map:translate-x-1 transition-transform">\<newline>'' @
          ascii ''                    <svg xmlns="http://www.w3.org/2000/svg" width="20" height="20" viewBox="0 0 24 24" fill="none" stroke="currentColor" stroke-width="2" stroke-linecap="round" stroke-linejoin="round"><path d="M5 12h14"/><path d="m12 5 7 7-7 7"/></svg>\<newline>'' @
          ascii ''                  </div>\<newline>'' @
          ascii ''               </a>\<newline>'' @
          ascii ''           </div>\<newline>'' @
          ascii ''\<newline>'' @
          ascii ''           <!-- 3. RIGHT: Content -->\<newline>'' @
          ascii ''           <div class="lg:col-span-7 pt-4 flex flex-col">\<newline>'' @
          ascii ''               <div class="relative space-y-12 before:absolute before:inset-0 before:ml-6 before:-translate-x-px md:before:mx-auto md:before:translate-x-0 before:h-full before:w-0.5 before:bg-gradient-to-b before:from-'' @
          paletteName @ ascii ''-200 before:via-'' @ paletteName @
          ascii ''-100 before:to-transparent flex-1">\<newline>'' @
          ascii ''                  '' @ activitiesHtml @ ascii ''\<newline>'' @
          ascii ''               </div>\<newline>'' @
          ascii ''\<newline>'' @
          ascii ''               <!-- MODIFY BUTTON AREA -->\<newline>'' @
          ascii ''               <div class="mt-8 border-t border-'' @ paletteName @
          ascii ''-100 pt-6 flex justify-end print:hidden">\<newline>'' @
          ascii ''                  <button onclick="window.parent.postMessage({type: 'MODIFY_DAY', day: '' @
          dayStr @
          ascii ''}, window.location.origin)" class="flex items-center gap-2 px-5 py-2.5 rounded-full bg-white/80 border border-'' @
          paletteName @ ascii ''-200 text-'' @ paletteName @ ascii ''-600 hover:bg-'' @
          paletteName @ ascii ''-50 hover:border-'' @ paletteName @
          ascii ''-300 shadow-sm transition-all text-sm font-medium backdrop-blur-sm group/btn">\<newline>'' @
          ascii ''                    <svg xmlns="http://www.w3.org/2000/svg" width="16" height="16" viewBox="0 0 24 24" fill="none" stroke="currentColor" stroke-width="2" stroke-linecap="round" stroke-linejoin="round" class="group-hover/btn:scale-110 transition-transform"><path d="M12 20h9"/><path d="M16.5 3.5a2.12 2.12 0 0 1 3 3L7 19l-4 1 1-4Z"/></svg>\<newline>'' @
          ascii ''                    <span>'' @ [0x6211, 0x60F3, 0x4FEE, 0x6539] @
          ascii '' Day '' @ dayStr @ ascii ''</span>\<newline>'' @
          ascii ''                  </button>\<newline>'' @
          ascii ''               </div>\<newline>'' @
          ascii ''           </div>\<newline>'' @
          ascii ''       </div>\<newline>'' @
          ascii ''    </section>\<newline>'' @
          ascii ''  '')))))))))))\<close>

text \<open>
  The loop of \<open>regenerateDayPlan\<close> over \<open>dayData.activities\<close>. It writes the place
  found into the activity's location; \<open>JSON.parse\<close> builds a tree without sharing, so the
  write is an update of that one object. The loop returns the place lookups it issued with
  its result.
\<close>

datatype net_call =
    ImageCall ImageFetchOptions
  | GlmCall prompt
  | PlaceCall jsval jsval

fun setProp :: "(jsstring \<times> jsval) list \<Rightarrow> jsstring \<Rightarrow> jsval \<Rightarrow> (jsstring \<times> jsval) list" where
  "setProp [] k v = [(k, v)]"
| "setProp ((k', v') # kvs) k v = (if k' = k then (k, v) # kvs else (k', v') # setProp kvs k v)"

definition withPlace :: "jsval \<Rightarrow> AmapLocation \<Rightarrow> jsval" where
  "withPlace activity poi =
     (case activity of
        JObj kvs \<Rightarrow>
          (case getProp activity (ascii ''location'') of
             JObj loc \<Rightarrow>
               JObj (setProp kvs (ascii ''location'')
                 (JObj (setProp (setProp (setProp loc (ascii ''lat'') (JNum (poi_lat poi)))
                                   (ascii ''lng'') (JNum (poi_lng poi)))
                          (ascii ''address'') (poi_address poi))))
           | _ \<Rightarrow> activity)
      | _ \<Rightarrow> activity)"

fun enrichLoop ::
  "Collaborators \<Rightarrow> jsval \<Rightarrow> jsval list \<Rightarrow> net_call list \<times> (js_error + jsval list)" where
  "enrichLoop env cityArg [] = ([], Inr [])"
| "enrichLoop env cityArg (activity # rest) =
     (if nullish activity then ([], Inl TypeError)
      else
        (let loc = getProp activity (ascii ''location'');
             placeName = (if nullish loc then JUndefined else getProp loc (ascii ''name''))
         in if truthy placeName then
              (case searchPlace env placeName cityArg of
                 Inl e \<Rightarrow> ([PlaceCall placeName cityArg], Inl e)
               | Inr amapResult \<Rightarrow>
                   (let activity' = (case amapResult of
                                       Some poi \<Rightarrow> withPlace activity poi
                                     | None \<Rightarrow> activity)
                    in case enrichLoop env cityArg rest of
                         (calls, Inl e) \<Rightarrow> (PlaceCall placeName cityArg # calls, Inl e)
                       | (calls, Inr rest') \<Rightarrow>
                           (PlaceCall placeName cityArg # calls, Inr (activity' # rest'))))
            else
              (case enrichLoop env cityArg rest of
                 (calls, Inl e) \<Rightarrow> (calls, Inl e)
               | (calls, Inr rest') \<Rightarrow> (calls, Inr (activity # rest')))))"

definition enrichDayData ::
  "Collaborators \<Rightarrow> TripSkeleton \<Rightarrow> jsval \<Rightarrow> net_call list \<times> (js_error + jsval)" where
  "enrichDayData env sk dayData =
     (case getProp dayData (ascii ''activities'') of
        JArr acts \<Rightarrow>
          (case enrichLoop env (orElse (getProp dayData (ascii ''city'')) (JStr (destination sk))) acts of
             (calls, Inl e) \<Rightarrow> (calls, Inl e)
           | (calls, Inr acts') \<Rightarrow>
               (calls, Inr (case dayData of
                              JObj kvs \<Rightarrow> JObj (setProp kvs (ascii ''activities'') (JArr acts'))
                            | _ \<Rightarrow> dayData)))
      | JStr s \<Rightarrow> ([], Inr dayData)
      | _ \<Rightarrow> ([], Inl TypeError))"

text \<open>
  \<open>regenerateDayPlan\<close>, with the collaborator calls it issued. The client is obtained
  first and the day is looked up next, before any call.
\<close>

definition regenerateDayPlan ::
  "Collaborators \<Rightarrow> TripSkeleton \<Rightarrow> int \<Rightarrow> jsstring \<Rightarrow> net_call list \<times> (js_error + jsstring)" where
  "regenerateDayPlan env sk dayIndex modificationPrompt =
     (case getGlmClient env of
        Inl e \<Rightarrow> ([], Inl e)
      | Inr ai \<Rightarrow>
     (case find (\<lambda>d. day d = dayIndex) (days sk) of
        None \<Rightarrow> ([], Inl (Error (ascii ''Day not found'')))
      | Some daySkeleton \<Rightarrow>
     (let imageOptions = \<lparr> keyword = visualKeyword daySkeleton @ ascii '' '' @ modificationPrompt,
                            count = 3, img_orientation = Portrait \<rparr>;
          request = RegeneratePrompt dayIndex (theme daySkeleton) modificationPrompt
      in case fetchImages env imageOptions of
           Inl e \<Rightarrow> ([ImageCall imageOptions], Inl e)
         | Inr stockImages \<Rightarrow>
     (case generateContent env request of
        Inl e \<Rightarrow> ([ImageCall imageOptions, GlmCall request], Inl e)
      | Inr text \<Rightarrow>
     (case parseAIJsonResponse (JSON_parse env) text of
        Inl e \<Rightarrow> ([ImageCall imageOptions, GlmCall request], Inl e)
      | Inr dayData \<Rightarrow>
     (case enrichDayData env sk dayData of
        (calls, Inl e) \<Rightarrow> ([ImageCall imageOptions, GlmCall request] @ calls, Inl e)
      | (calls, Inr dayData') \<Rightarrow>
          ([ImageCall imageOptions, GlmCall request] @ calls,
           renderDayToHtml dayData' (palette sk) stockImages)))))))"

text \<open>
  The regular expression of \<open>submitModification\<close>, built with the flag \<open>i\<close>: the text
  \<open><section id="day-N"\<close>, then lazily any characters up to the next \<open></section>\<close>. Under
  the flag a code unit matches a letter of the pattern when both have the same upper-case
  form, and a code unit outside ASCII never matches an ASCII one. The match starts at the
  first occurrence of the opening text: the closing text has to follow the opening text,
  so when none follows the first occurrence none follows a later one.
\<close>

definition asciiUpper :: "nat \<Rightarrow> nat" where
  "asciiUpper c = (if 97 \<le> c \<and> c \<le> 122 then c - 32 else c)"

definition sameIgnoringCase :: "nat \<Rightarrow> nat \<Rightarrow> bool" where
  "sameIgnoringCase p c = (asciiUpper p = asciiUpper c)"

fun matchPrefix :: "jsstring \<Rightarrow> jsstring \<Rightarrow> (jsstring \<times> jsstring) option" where
  "matchPrefix [] s = Some ([], s)"
| "matchPrefix (p # ps) [] = None"
| "matchPrefix (p # ps) (c # cs) =
     (if sameIgnoringCase p c then
        (case matchPrefix ps cs of None \<Rightarrow> None | Some (m, rest) \<Rightarrow> Some (c # m, rest))
      else None)"

fun findFirst :: "jsstring \<Rightarrow> jsstring \<Rightarrow> (jsstring \<times> jsstring \<times> jsstring) option" where
  "findFirst pat [] = (case matchPrefix pat [] of None \<Rightarrow> None | Some (m, rest) \<Rightarrow> Some ([], m, rest))"
| "findFirst pat (c # cs) =
     (case matchPrefix pat (c # cs) of
        Some (m, rest) \<Rightarrow> Some ([], m, rest)
      | None \<Rightarrow> (case findFirst pat cs of
                   None \<Rightarrow> None
                 | Some (before, m, rest) \<Rightarrow> Some (c # before, m, rest)))"

definition daySectionOpening :: "int \<Rightarrow> jsstring" where
  \<open>daySectionOpening d = ascii ''<section id="day-'' @ showInt d @ ascii ''"''\<close>

definition matchDaySection :: "int \<Rightarrow> jsstring \<Rightarrow> (jsstring \<times> jsstring \<times> jsstring) option" where
  "matchDaySection d document =
     (case findFirst (daySectionOpening d) document of
        None \<Rightarrow> None
      | Some (before, opening, rest) \<Rightarrow>
          (case findFirst (ascii ''</section>'') rest of
             None \<Rightarrow> None
           | Some (body, closing, after) \<Rightarrow> Some (before, opening @ body @ closing, after)))"

text \<open>
  \<open>String.prototype.replace\<close> with a replacement string expands \<open>$$\<close>, \<open>$&\<close>,
  \<open>$`\<close> and \<open>$'\<close> in it; the expression has no capture group, so every other \<open>$\<close>
  stands for itself.
\<close>

fun expandReplacement :: "jsstring \<Rightarrow> jsstring \<Rightarrow> jsstring \<Rightarrow> jsstring \<Rightarrow> jsstring" where
  "expandReplacement matched before after [] = []"
| "expandReplacement matched before after [c] = [c]"
| "expandReplacement matched before after (c # d # rest) =
     (if c = 0x24 \<and> d = 0x24 then 0x24 # expandReplacement matched before after rest
      else if c = 0x24 \<and> d = 0x26 then matched @ expandReplacement matched before after rest
      else if c = 0x24 \<and> d = 0x60 then before @ expandReplacement matched before after rest
      else if c = 0x24 \<and> d = 0x27 then after @ expandReplacement matched before after rest
      else c # expandReplacement matched before after (d # rest))"

text \<open>\<open>submitModification\<close> on the state of the component.\<close>

definition submitModification :: "Collaborators \<Rightarrow> AppState \<Rightarrow> AppState" where
  "submitModification env st =
     (case (tripSkeleton st, modifyingDay st, generatedHtml st) of
        (Some sk, Some d, Some document) \<Rightarrow>
          (if trim (modifyInput st) = [] \<or> document = [] then st
           else (case snd (regenerateDayPlan env sk d (modifyInput st)) of
                   Inr newDayHtml \<Rightarrow>
                     (case matchDaySection d document of
                        Some (before, matched, after) \<Rightarrow>
                          st \<lparr> generatedHtml :=
                                 Some (before @ expandReplacement matched before after newDayHtml
                                         @ after),
                               modifyingDay := None,
                               isRegenerating := False \<rparr>
                      | None \<Rightarrow>
                          st \<lparr> isRegenerating := False, alerts := alerts st @ [CannotLocateDay] \<rparr>)
                 | Inl e \<Rightarrow>
                     st \<lparr> isRegenerating := False,
                          alerts := alerts st @ [ModificationFailed e] \<rparr>))
      | _ \<Rightarrow> st)"

text \<open>
  A text is free of an \<open>id\<close> attribute when \<open>id=\<close> occurs nowhere in it, in upper or
  lower case, and \<open>=\<close> is neither its first nor its second code unit. The second condition
  makes the property closed under concatenation, so that it can be checked fragment by
  fragment on a rendered template.
\<close>

definition idFree :: "jsstring \<Rightarrow> bool" where
  "idFree s = (findFirst (ascii ''id='') s = None \<and> 61 \<notin> set (take 2 s))"

section \<open>Scene classifier, confirmation tier, and media analysis\<close>

text \<open>
  \<open>IntentAgent.analyzeScene\<close> for a fresh agent with a client, as the pipeline creates
  it: the cache is empty. The confidence is a fraction, which the model does not compute
  with: it keeps the value the language model reported, or which of the two defaults of the
  source (0.7 and 0.6) applies.
\<close>

datatype confidence = Reported jsval | Default70 | Default60

record SceneAnalysis =
  sceneType :: jsval
  sceneConfidence :: confidence
  quickSummary :: jsval
  recommendedTemplate :: jsstring
  keyHighlights :: jsval
  detectedKeywords :: jsval

fun sceneName :: "SceneType \<Rightarrow> jsstring" where
  "sceneName ROMANTIC = ascii ''romantic''"
| "sceneName FAMILY = ascii ''family''"
| "sceneName ADVENTURE = ascii ''adventure''"
| "sceneName BUSINESS = ascii ''business''"
| "sceneName FOODIE = ascii ''foodie''"
| "sceneName CULTURE = ascii ''culture''"
| "sceneName RELAXATION = ascii ''relaxation''"
| "sceneName SOLO = ascii ''solo''"

fun getDefaultSummary :: "SceneType \<Rightarrow> jsstring" where
  "getDefaultSummary ROMANTIC = [0x6D6A, 0x6F2B, 0x4E4B, 0x65C5, 0xFF0C, 0x4E0E, 0x7231, 0x4EBA, 0x5171, 0x5EA6, 0x7F8E, 0x597D, 0x65F6, 0x5149]"
| "getDefaultSummary FAMILY = [0x6E29, 0x99A8, 0x5BB6, 0x5EAD, 0x6E38, 0xFF0C, 0x521B, 0x9020, 0x7F8E, 0x597D, 0x56DE, 0x5FC6]"
| "getDefaultSummary ADVENTURE = [0x52C7, 0x6562, 0x63A2, 0x9669, 0xFF0C, 0x6311, 0x6218, 0x81EA, 0x6211, 0x6781, 0x9650]"
| "getDefaultSummary BUSINESS = [0x9AD8, 0x6548, 0x5546, 0x52A1, 0x51FA, 0x884C, 0xFF0C, 0x5DE5, 0x4F5C, 0x4E0E, 0x4F53, 0x9A8C, 0x517C, 0x987E]"
| "getDefaultSummary FOODIE = [0x820C, 0x5C16, 0x4E0A, 0x7684, 0x65C5, 0x7A0B, 0xFF0C, 0x54C1, 0x5473, 0x5730, 0x9053, 0x7F8E, 0x98DF]"
| "getDefaultSummary CULTURE = [0x6DF1, 0x5EA6, 0x6587, 0x5316, 0x4E4B, 0x65C5, 0xFF0C, 0x611F, 0x53D7, 0x5386, 0x53F2, 0x5E95, 0x8574]"
| "getDefaultSummary RELAXATION = [0x653E, 0x677E, 0x8EAB, 0x5FC3, 0xFF0C, 0x4EAB, 0x53D7, 0x60A0, 0x95F2, 0x65F6, 0x5149]"
| "getDefaultSummary SOLO = [0x72EC, 0x81EA, 0x51FA, 0x53D1, 0xFF0C, 0x9047, 0x89C1, 0x672A, 0x77E5, 0x7684, 0x81EA, 0x5DF1]"

fun getDefaultHighlights :: "SceneType \<Rightarrow> jsstring list" where
  "getDefaultHighlights ROMANTIC = [[0x6D6A, 0x6F2B, 0x9910, 0x5385],
       [0x65E5, 0x843D, 0x89C2, 0x666F],
       [0x53CC, 0x4EBA, 0x6D3B, 0x52A8]]"
| "getDefaultHighlights FAMILY = [[0x4EB2, 0x5B50, 0x53CB, 0x597D],
       [0x8001, 0x5C11, 0x7686, 0x5B9C],
       [0x8F7B, 0x677E, 0x8212, 0x9002]]"
| "getDefaultHighlights ADVENTURE = [[0x523A, 0x6FC0, 0x4F53, 0x9A8C],
       [0x81EA, 0x7136, 0x98CE, 0x5149],
       [0x6311, 0x6218, 0x81EA, 0x6211]]"
| "getDefaultHighlights BUSINESS = [[0x9AD8, 0x6548, 0x884C, 0x7A0B],
       [0x4EA4, 0x901A, 0x4FBF, 0x5229],
       [0x54C1, 0x8D28, 0x4F4F, 0x5BBF]]"
| "getDefaultHighlights FOODIE = [[0x5730, 0x9053, 0x7F8E, 0x98DF],
       [0x7279, 0x8272, 0x9910, 0x5385],
       [0x7F8E, 0x98DF, 0x63A2, 0x7D22]]"
| "getDefaultHighlights CULTURE = [[0x5386, 0x53F2, 0x53E4, 0x8FF9],
       [0x6587, 0x5316, 0x4F53, 0x9A8C],
       [0x827A, 0x672F, 0x718F, 0x9676]]"
| "getDefaultHighlights RELAXATION = [[0x60A0, 0x95F2, 0x8282, 0x594F],
       [0x8212, 0x9002, 0x73AF, 0x5883],
       [0x653E, 0x677E, 0x4F53, 0x9A8C]]"
| "getDefaultHighlights SOLO = [[0x81EA, 0x7531, 0x63A2, 0x7D22],
       [0x6DF1, 0x5EA6, 0x4F53, 0x9A8C],
       [0x72EC, 0x7ACB, 0x5192, 0x9669]]"

definition getTemplateName :: "jsstring \<Rightarrow> jsstring" where
  "getTemplateName sceneStr = sceneStr @ ascii ''_template''"

definition getFallbackAnalysis :: "SceneType \<Rightarrow> SceneAnalysis" where
  "getFallbackAnalysis scene =
     \<lparr> sceneType = JStr (sceneName scene),
       sceneConfidence = Default60,
       quickSummary = JStr (getDefaultSummary scene),
       recommendedTemplate = getTemplateName (sceneName scene),
       keyHighlights = JArr (map JStr (getDefaultHighlights scene)),
       detectedKeywords = JArr [] \<rparr>"

text \<open>
  The body of the \<open>try\<close> block of \<open>parseAnalysisResponse\<close>, \<open>None\<close> when it throws. Its
  second regular expression matches from the first opening brace to the last closing
  brace.
\<close>

definition extractJsonObjectText :: "jsstring \<Rightarrow> jsstring option" where
  "extractJsonObjectText response =
     (case matchJsonFence response of
        Some (whole, captured) \<Rightarrow> Some (if captured \<noteq> [] then captured else whole)
      | None \<Rightarrow> braceSlice response)"

definition tryParseAnalysis :: "(jsstring \<Rightarrow> jsval option) \<Rightarrow> jsstring \<Rightarrow> SceneType \<Rightarrow> SceneAnalysis option" where
  "tryParseAnalysis json_parse response fallbackScene =
     (case extractJsonObjectText response of
        None \<Rightarrow> None
      | Some jsonText \<Rightarrow>
          (case json_parse jsonText of
             None \<Rightarrow> None
           | Some parsed \<Rightarrow>
               if nullish parsed then None
               else
                 (let scene = orElse (getProp parsed (ascii ''sceneType'')) (JStr (sceneName fallbackScene))
                  in case toStr scene of
                       Inl e \<Rightarrow> None
                     | Inr sceneStr \<Rightarrow>
                         Some \<lparr> sceneType = scene,
                                sceneConfidence =
                                  (if truthy (getProp parsed (ascii ''confidence''))
                                   then Reported (getProp parsed (ascii ''confidence''))
                                   else Default70),
                                quickSummary = orElse (getProp parsed (ascii ''quickSummary''))
                                                 (JStr [0x7CBE, 0x5F69, 0x65C5, 0x7A0B, 0x7B49, 0x4F60, 0x6765, 0x63A2, 0x7D22]),
                                recommendedTemplate = getTemplateName sceneStr,
                                keyHighlights = orElse (getProp parsed (ascii ''keyHighlights'')) (JArr []),
                                detectedKeywords = orElse (getProp parsed (ascii ''detectedKeywords''))
                                                     (JArr []) \<rparr>)))"

definition parseAnalysisResponse :: "(jsstring \<Rightarrow> jsval option) \<Rightarrow> jsstring \<Rightarrow> SceneType \<Rightarrow> SceneAnalysis" where
  "parseAnalysisResponse json_parse response fallbackScene =
     (case tryParseAnalysis json_parse response fallbackScene of
        Some analysis \<Rightarrow> analysis
      | None \<Rightarrow> getFallbackAnalysis fallbackScene)"

definition analyzeScene :: "Collaborators \<Rightarrow> jsstring \<Rightarrow> jsstring \<Rightarrow> SceneAnalysis" where
  "analyzeScene env input mediaContext =
     (let predictedScene = quickPredict (toLowerCase env) input
      in case generateContent env (SceneAnalysisPrompt input mediaContext predictedScene) of
           Inl e \<Rightarrow> getFallbackAnalysis predictedScene
         | Inr answer \<Rightarrow> parseAnalysisResponse (JSON_parse env) answer predictedScene)"

text \<open>
  \<open>analyzeUserMedia\<close>: a file whose content cannot be read, or whose analysis call
  throws, contributes a line saying so.
\<close>

definition analyzeFile :: "Collaborators \<Rightarrow> UploadedFile \<Rightarrow> jsstring" where
  "analyzeFile env f =
     (case (case base64 f of Some content \<Rightarrow> Inr content | None \<Rightarrow> readAsDataURL env f) of
        Inl e \<Rightarrow> [0x6587, 0x4EF6, 0x0020] @ file_name f @ [0x0020, 0x5206, 0x6790, 0x5931, 0x8D25]
      | Inr content \<Rightarrow>
          (case generateContent env (MediaAnalysisPrompt (file_name f) (mimeType f) (file_type f)) of
             Inl e \<Rightarrow> [0x6587, 0x4EF6, 0x0020] @ file_name f @ [0x0020, 0x5206, 0x6790, 0x5931, 0x8D25]
           | Inr answer \<Rightarrow> trim answer))"

definition analyzeUserMedia :: "Collaborators \<Rightarrow> UploadedFile list \<Rightarrow> jsstring \<times> jsstring list" where
  "analyzeUserMedia env files =
     (if files = [] then ([], [])
      else (let insights = map (analyzeFile env) files
            in ([0x7528, 0x6237, 0x4E0A, 0x4F20, 0x4E86, 0x0020] @ showInt (int (length files))
                  @ [0x0020, 0x4E2A, 0x5A92, 0x4F53, 0x6587, 0x4EF6, 0x4F5C, 0x4E3A, 0x53C2, 0x8003, 0xFF1A, 0x000A] @ joinWith [10] insights,
                insights)))"

section \<open>Visual identity, itinerary skeleton and the generation pipeline\<close>

text \<open>
  Object spread \<open>{...a, ...b}\<close> on objects, which are the lists of their properties in
  order, without a repeated name, as \<open>JSON.parse\<close> builds them: the properties of \<open>a\<close>
  in their order, each with the value that \<open>b\<close> gives it when \<open>b\<close> has it, followed by
  the properties of \<open>b\<close> that \<open>a\<close> does not have. A property whose name is an array
  index, which JavaScript enumerates before the others, is kept at its place in the list:
  the visual identity and the itinerary have no such property, and the value read for a
  property name does not depend on the order.
\<close>

definition ownProps :: "jsval \<Rightarrow> (jsstring \<times> jsval) list" where
  "ownProps v = (case v of JObj kvs \<Rightarrow> kvs | _ \<Rightarrow> [])"

definition hasProp :: "jsval \<Rightarrow> jsstring \<Rightarrow> bool" where
  "hasProp v k = (k \<in> fst ` set (ownProps v))"

definition objectSpread :: "jsval \<Rightarrow> jsval \<Rightarrow> jsval" where
  "objectSpread a b =
     JObj (map (\<lambda>kv. (fst kv, if hasProp b (fst kv) then getProp b (fst kv) else snd kv))
             (ownProps a)
           @ filter (\<lambda>kv. \<not> hasProp a (fst kv)) (ownProps b))"

definition generateVisualIdentity :: "Collaborators \<Rightarrow> jsstring \<Rightarrow> js_error + jsval" where
  "generateVisualIdentity env request =
     bindE (generateContent env (VisualIdentityPrompt request)) (\<lambda>answer.
     parseAIJsonResponse (JSON_parse env) answer)"

text \<open>
  The prompt of \<open>generateItineraryStructure\<close> interpolates the destination and the
  duration of the visual identity, which converts them to strings before the call.
  \<open>itineraryData\<close> is the parsed answer, \<open>data\<close> in the source, and the result is the
  visual identity overlaid with it.
\<close>

definition itineraryData ::
  "Collaborators \<Rightarrow> jsstring \<Rightarrow> jsstring \<Rightarrow> jsval \<Rightarrow> js_error + jsval" where
  "itineraryData env request links visual =
     bindE (toStr (getProp visual (ascii ''destination''))) (\<lambda>destinationStr.
     bindE (toStr (getProp visual (ascii ''duration''))) (\<lambda>durationStr.
     bindE (generateContent env
              (ItineraryStructurePrompt request destinationStr durationStr
                 (if links = [] then [0x65E0] else links))) (\<lambda>answer.
     parseAIJsonResponse (JSON_parse env) answer)))"

definition generateItineraryStructure ::
  "Collaborators \<Rightarrow> jsstring \<Rightarrow> jsstring \<Rightarrow> jsval \<Rightarrow> js_error + jsval" where
  "generateItineraryStructure env request links visual =
     bindE (itineraryData env request links visual) (\<lambda>parsed.
     Inr (objectSpread visual parsed))"

text \<open>
  The invariant of the specification on a skeleton as the generator returns it: the
  duration is a number \<open>n\<close>, and the days are an array whose \<open>day\<close> fields are \<open>1, ..., n\<close>.
\<close>

definition dayFields :: "jsval \<Rightarrow> jsval list" where
  "dayFields sk =
     (case getProp sk (ascii ''days'') of
        JArr ds \<Rightarrow> map (\<lambda>d. if nullish d then JUndefined else getProp d (ascii ''day'')) ds
      | _ \<Rightarrow> [])"

definition daysMatchDuration :: "jsval \<Rightarrow> bool" where
  "daysMatchDuration sk =
     (case (getProp sk (ascii ''days''), getProp sk (ascii ''duration'')) of
        (JArr ds, JNum n) \<Rightarrow> dayFields sk = map JNum [1..n]
      | _ \<Rightarrow> False)"

text \<open>
  The typed view of the JSON skeleton that \<open>generateDaysParallel\<close> and the day workers
  are given. TypeScript does not check it at run time; where the JSON does not have the
  declared types the model of the pipeline stops with the outcome \<open>IllTyped\<close>.
\<close>

definition asString :: "jsval \<Rightarrow> jsstring option" where
  "asString v = (case v of JStr s \<Rightarrow> Some s | _ \<Rightarrow> None)"

definition asNumber :: "jsval \<Rightarrow> int option" where
  "asNumber v = (case v of JNum n \<Rightarrow> Some n | _ \<Rightarrow> None)"

definition decodeDay :: "jsval \<Rightarrow> DayPlanSkeleton option" where
  "decodeDay v =
     (case (asNumber (getProp v (ascii ''day'')), asString (getProp v (ascii ''title'')),
            asString (getProp v (ascii ''theme'')), asString (getProp v (ascii ''city'')),
            asString (getProp v (ascii ''visualKeyword''))) of
        (Some d, Some t, Some th, Some c, Some k) \<Rightarrow>
          Some \<lparr> day = d, title = t, theme = th, city = c, visualKeyword = k \<rparr>
      | _ \<Rightarrow> None)"

fun those :: "'a option list \<Rightarrow> 'a list option" where
  "those [] = Some []"
| "those (None # xs) = None"
| "those (Some x # xs) = (case those xs of None \<Rightarrow> None | Some ys \<Rightarrow> Some (x # ys))"

definition decodeDays :: "jsval \<Rightarrow> DayPlanSkeleton list option" where
  "decodeDays v = (case v of JArr ds \<Rightarrow> those (map decodeDay ds) | _ \<Rightarrow> None)"

definition decodeTrip :: "jsval \<Rightarrow> TripSkeleton option" where
  "decodeTrip v =
     (case (asString (getProp v (ascii ''destination'')), asNumber (getProp v (ascii ''duration'')),
            asString (getProp v (ascii ''vibe'')), asString (getProp v (ascii ''palette'')),
            asString (getProp v (ascii ''summary'')), decodeDays (getProp v (ascii ''days''))) of
        (Some dest, Some n, Some vb, Some p, Some s, Some ds) \<Rightarrow>
          Some \<lparr> destination = dest, duration = n, vibe = vb, palette = p, summary = s, days = ds \<rparr>
      | _ \<Rightarrow> None)"

text \<open>
  The chunks of the stream. A progress marker and a log line are kept as data, with the
  strings that the source interpolates into them already converted; the markup fragments
  are the strings of the source; the skeleton payload carries the skeleton whose JSON
  text the source sends. The progress of a day is \<open>30 + Math.round((i + 1) / n * 60)\<close>,
  kept as the pair of \<open>i + 1\<close> and \<open>n\<close>.
\<close>

datatype RenderPhase = PHASE_SKELETON | PHASE_HEADER | PHASE_OVERVIEW | PHASE_DAY_1 | PHASE_REMAINING
  | PHASE_COMPLETE

datatype progress = Percent int | DayShare nat nat

datatype log_line =
    LogIntentStart
  | LogMediaInsights nat
  | LogScene jsstring confidence
  | LogSummary jsstring
  | LogVisualStart
  | LogVisual jsstring jsstring
  | LogStructureStart
  | LogDaysStart
  | LogDay int jsstring int
  | LogDone
  | LogError js_error

datatype chunk =
    Progress RenderPhase progress "int option"
  | Log log_line
  | HtmlStart jsstring
  | SkeletonPayload jsval
  | Html jsstring

definition carriesContent :: "chunk \<Rightarrow> bool" where
  "carriesContent c =
     (case c of HtmlStart h \<Rightarrow> True | SkeletonPayload s \<Rightarrow> True | Html h \<Rightarrow> True | _ \<Rightarrow> False)"

datatype abort = Throw js_error | IllTyped | Diverge

datatype outcome = Completed | Threw js_error | Unmodelled abort

text \<open>
  A generator body is the chunks it has yielded so far and either the reason it stopped or
  its value. \<open>andThen\<close> sequences two parts, \<open>yield\<close> emits a chunk, and \<open>await\<close> is a
  step that may throw.
\<close>

type_synonym 'a gen = "chunk list \<times> (abort + 'a)"

definition andThen :: "'a gen \<Rightarrow> ('a \<Rightarrow> 'b gen) \<Rightarrow> 'b gen" where
  "andThen m f =
     (case m of
        (cs, Inl stop) \<Rightarrow> (cs, Inl stop)
      | (cs, Inr v) \<Rightarrow> (case f v of (cs', r) \<Rightarrow> (cs @ cs', r)))"

definition yield :: "chunk \<Rightarrow> unit gen" where
  "yield c = ([c], Inr ())"

definition await :: "js_error + 'a \<Rightarrow> 'a gen" where
  "await m = ([], case m of Inl e \<Rightarrow> Inl (Throw e) | Inr v \<Rightarrow> Inr v)"

definition typed :: "'a option \<Rightarrow> 'a gen" where
  "typed m = ([], case m of None \<Rightarrow> Inl IllTyped | Some v \<Rightarrow> Inr v)"

text \<open>The parts of \<open>generateTravelPlanStream\<close>, in the order of the source.\<close>

definition linkTextOf :: "MediaItem list \<Rightarrow> jsstring" where
  "linkTextOf mediaItems =
     joinWith [10] (concat (map (\<lambda>m. case m of Link l \<Rightarrow> [ascii ''- '' @ url l] | File f \<Rightarrow> [])
                              mediaItems))"

definition uploadedFilesOf :: "MediaItem list \<Rightarrow> UploadedFile list" where
  "uploadedFilesOf mediaItems =
     concat (map (\<lambda>m. case m of Link l \<Rightarrow> [] | File f \<Rightarrow> [f]) mediaItems)"

definition confidenceChecked :: "confidence \<Rightarrow> js_error + unit" where
  "confidenceChecked c = (case c of Reported v \<Rightarrow> bindE (toStr v) (\<lambda>s. Inr ()) | _ \<Rightarrow> Inr ())"

definition intentStage :: "Collaborators \<Rightarrow> jsstring \<Rightarrow> MediaItem list \<Rightarrow> jsstring gen" where
  "intentStage env request mediaItems =
     andThen (yield (Progress PHASE_SKELETON (Percent 5) None)) (\<lambda>u.
     andThen (yield (Log LogIntentStart)) (\<lambda>u.
     (let sceneAnalysis = analyzeScene env request [];
          mediaAnalysis = analyzeUserMedia env (uploadedFilesOf mediaItems);
          mediaContext = (if snd mediaAnalysis \<noteq> [] then fst mediaAnalysis else [])
      in
     andThen (if snd mediaAnalysis \<noteq> []
              then yield (Log (LogMediaInsights (length (snd mediaAnalysis))))
              else ([], Inr ())) (\<lambda>u.
     andThen (await (toStr (sceneType sceneAnalysis))) (\<lambda>sceneStr.
     andThen (await (confidenceChecked (sceneConfidence sceneAnalysis))) (\<lambda>u.
     andThen (yield (Log (LogScene sceneStr (sceneConfidence sceneAnalysis)))) (\<lambda>u.
     andThen (await (toStr (quickSummary sceneAnalysis))) (\<lambda>summaryStr.
     andThen (yield (Log (LogSummary summaryStr))) (\<lambda>u.
     if mediaContext \<noteq> [] then
       andThen (await (toStr (sceneType sceneAnalysis))) (\<lambda>sceneStr'.
       ([], Inr (request @ [0x000A, 0x000A, 0x7528, 0x6237, 0x4E0A, 0x4F20, 0x7684, 0x5A92, 0x4F53, 0x53C2, 0x8003, 0xFF1A, 0x000A] @ mediaContext
                   @ [0x000A, 0x000A, 0x573A, 0x666F, 0x7C7B, 0x578B, 0xFF1A] @ sceneStr')))
     else ([], Inr request))))))))))"

definition visualStage :: "Collaborators \<Rightarrow> jsstring \<Rightarrow> jsval gen" where
  "visualStage env enhancedPrompt =
     andThen (yield (Progress PHASE_HEADER (Percent 10) None)) (\<lambda>u.
     andThen (yield (Log LogVisualStart)) (\<lambda>u.
     await (generateVisualIdentity env enhancedPrompt)))"

definition headerHtmlOf :: "jsval \<Rightarrow> js_error + jsstring" where
  \<open>headerHtmlOf visual =
     bindE (propOf (getProp visual (ascii ''fontConfig'')) (ascii ''headingFont'')) (\<lambda>headingFont.
     (let fontConfig = getProp visual (ascii ''fontConfig'') in
     bindE (toStr (getProp fontConfig (ascii ''googleFontUrl''))) (\<lambda>fontUrlStr.
     bindE (toStr headingFont) (\<lambda>headingStr.
     bindE (toStr (getProp fontConfig (ascii ''bodyFont''))) (\<lambda>bodyStr.
     bindE (toStr (getProp visual (ascii ''palette''))) (\<lambda>paletteStr.
     bindE (toStr (getProp visual (ascii ''heroImage''))) (\<lambda>heroStr.
     bindE (toStr (getProp visual (ascii ''destination''))) (\<lambda>destinationStr.
     bindE (toStr (getProp visual (ascii ''duration''))) (\<lambda>durationStr.
     bindE (toStr (getProp visual (ascii ''vibe''))) (\<lambda>vibeStr.
     Inr (
          ascii ''\<newline>'' @
          ascii ''      <!DOCTYPE html>\<newline>'' @
          ascii ''      <html lang="zh-CN" class="scroll-smooth">\<newline>'' @
          ascii ''      <head>\<newline>'' @
          ascii ''        <meta charset="UTF-8"><meta name="viewport" content="width=device-width, initial-scale=1.0">\<newline>'' @
          ascii ''        <script src="https://cdn.tailwindcss.com"></script>\<newline>'' @
          ascii ''        <link href="'' @ fontUrlStr @
          ascii ''" rel="stylesheet">\<newline>'' @
          ascii ''        <style>\<newline>'' @
          ascii ''            :root { --font-heading: '' @ [0x0027] @ headingStr @ [0x0027] @
          ascii '', serif; --font-body: '' @ [0x0027] @ bodyStr @ [0x0027] @
          ascii '', sans-serif; }\<newline>'' @
          ascii ''            body { font-family: var(--font-body); }\<newline>'' @
          ascii ''            h1, h2, h3, .font-heading { font-family: var(--font-heading); }\<newline>'' @
          ascii ''        </style>\<newline>'' @
          ascii ''      </head>\<newline>'' @
          ascii ''      <body class="bg-'' @ paletteStr @ ascii ''-50 text-'' @ paletteStr @
          ascii ''-900 antialiased selection:bg-'' @ paletteStr @
          ascii ''-200 selection:text-'' @ paletteStr @ ascii ''-900">\<newline>'' @
          ascii ''        <header class="relative w-full aspect-video flex flex-col overflow-hidden bg-'' @
          paletteStr @ ascii ''-900 print-aspect-auto">\<newline>'' @
          ascii ''            <div class="absolute inset-0 bg-'' @ paletteStr @
          ascii ''-800">\<newline>'' @
          ascii ''              <img\<newline>'' @
          ascii ''                src="'' @ heroStr @ ascii ''"\<newline>'' @
          ascii ''                class="absolute inset-0 w-full h-full object-cover opacity-90 transition-opacity duration-700"\<newline>'' @
          ascii ''                alt="'' @ destinationStr @ ascii ''"\<newline>'' @
          ascii ''                loading="eager"\<newline>'' @
          ascii ''                decoding="async"\<newline>'' @
          ascii ''                fetchpriority="high"\<newline>'' @
          ascii ''                onerror="this.style.opacity='0';this.parentElement.style.background='linear-gradient(135deg, '' @
          paletteStr @ ascii ''-900 0%, '' @ paletteStr @ ascii ''-700 100%)';"\<newline>'' @
          ascii ''                onload="this.classList.add('opacity-90')"\<newline>'' @
          ascii ''              />\<newline>'' @
          ascii ''              <div class="absolute inset-0 bg-'' @ paletteStr @
          ascii ''-900/50 animate-pulse" style="animation-duration: 2s;"></div>\<newline>'' @
          ascii ''            </div>\<newline>'' @
          ascii ''            <div class="absolute inset-0 bg-gradient-to-t from-'' @
          paletteStr @ ascii ''-950/90 via-'' @ paletteStr @
          ascii ''-900/40 to-transparent z-10"></div>\<newline>'' @
          ascii ''            <div class="relative z-20 w-full h-full max-w-7xl mx-auto flex flex-col items-center justify-center text-center pb-20 px-6">\<newline>'' @
          ascii ''                <h1 class="text-5xl md:text-8xl tracking-tight mb-6 font-heading text-white mix-blend-overlay drop-shadow-lg max-w-5xl">\<newline>'' @
          ascii ''                    '' @ destinationStr @ ascii ''\<newline>'' @
          ascii ''                </h1>\<newline>'' @
          ascii ''                <div class="mx-auto bg-white/10 backdrop-blur-md border border-white/20 text-white px-6 py-3 rounded-full flex items-center gap-4 shadow-xl">\<newline>'' @
          ascii ''                    <span class="font-bold tracking-widest uppercase text-sm opacity-90">'' @
          durationStr @ ascii '' '' @ [0x5929] @ ascii ''</span>\<newline>'' @
          ascii ''                    <span class="w-px h-4 bg-white/40"></span>\<newline>'' @
          ascii ''                    <span class="font-serif italic text-lg opacity-90">'' @
          vibeStr @ ascii ''</span>\<newline>'' @
          ascii ''                </div>\<newline>'' @
          ascii ''            </div>\<newline>'' @
          ascii ''        </header>\<newline>'' @
          ascii ''    '')))))))))))\<close>

definition headerStage :: "Collaborators \<Rightarrow> jsval \<Rightarrow> jsval gen" where
  "headerStage env visual =
     andThen (await (toStr (getProp visual (ascii ''vibe'')))) (\<lambda>vibeStr.
     andThen (await (toStr (getProp visual (ascii ''palette'')))) (\<lambda>paletteStr.
     andThen (yield (Log (LogVisual vibeStr paletteStr))) (\<lambda>u.
     andThen (await (toStr (getProp visual (ascii ''destination'')))) (\<lambda>destinationStr.
     andThen (await (fetchImages env \<lparr> keyword = destinationStr @ ascii '' landscape'', count = 1,
                                       img_orientation = Landscape \<rparr>)) (\<lambda>heroImages.
     (let visual' = (case visual of
                       JObj kvs \<Rightarrow> JObj (setProp kvs (ascii ''heroImage'')
                                           (case heroImages of [] \<Rightarrow> JUndefined | img # imgs \<Rightarrow> JStr img))
                     | _ \<Rightarrow> visual)
      in
     andThen (await (headerHtmlOf visual')) (\<lambda>headerHtml.
     andThen (yield (HtmlStart headerHtml)) (\<lambda>u.
     ([], Inr visual')))))))))"

definition highlightHtml :: "jsstring \<Rightarrow> jsval \<Rightarrow> js_error + jsstring" where
  \<open>highlightHtml paletteStr h =
     bindE (propOf h (ascii ''icon'')) (\<lambda>icon.
     bindE (toStr (orElse icon (JStr [0x2726]))) (\<lambda>iconStr.
     bindE (toStr (getProp h (ascii ''title''))) (\<lambda>titleStr.
     bindE (toStr (getProp h (ascii ''desc''))) (\<lambda>descStr.
     Inr (
          ascii ''\<newline>'' @
          ascii ''        <div class="bg-'' @ paletteStr @
          ascii ''-50/60 backdrop-blur-sm p-6 rounded-2xl text-center border border-'' @
          paletteStr @ ascii ''-100">\<newline>'' @
          ascii ''            <div class="text-'' @ paletteStr @
          ascii ''-500 mb-4 flex justify-center font-bold text-3xl opacity-80">'' @ iconStr @
          ascii ''</div>\<newline>'' @
          ascii ''            <span class="block font-bold text-lg text-'' @ paletteStr @
          ascii ''-900 mb-2 font-heading tracking-wide">'' @ titleStr @
          ascii ''</span>\<newline>'' @
          ascii ''            <span class="text-sm text-'' @ paletteStr @
          ascii ''-600 leading-relaxed">'' @ descStr @ ascii ''</span>\<newline>'' @
          ascii ''        </div>\<newline>'' @
          ascii ''    '')))))\<close>

definition overviewHtmlOf :: "jsval \<Rightarrow> jsval \<Rightarrow> js_error + jsstring" where
  \<open>overviewHtmlOf visual sk =
     bindE (toStr (getProp visual (ascii ''palette''))) (\<lambda>paletteStr.
     bindE (case orElse (getProp sk (ascii ''highlights'')) (JArr []) of
              JArr hs \<Rightarrow> bindE (collect (map (highlightHtml paletteStr) hs)) (\<lambda>parts. Inr (concat parts))
            | _ \<Rightarrow> Inl TypeError) (\<lambda>highlightsHtml.
     bindE (toStr (getProp sk (ascii ''summary''))) (\<lambda>summaryStr.
     Inr (
          ascii ''\<newline>'' @
          ascii ''        <div class="relative z-30 -mt-24 px-4 md:px-8 mb-24">\<newline>'' @
          ascii ''            <div class="max-w-6xl mx-auto bg-white/95 backdrop-blur-xl p-8 md:p-12 rounded-[2rem] shadow-[0_20px_50px_rgba(0,0,0,0.1)] border border-white/50">\<newline>'' @
          ascii ''                <div class="max-w-3xl mx-auto text-center mb-16">\<newline>'' @
          ascii ''                    <h2 class="text-3xl md:text-5xl font-bold text-'' @
          paletteStr @ ascii ''-900 mb-6 font-heading leading-tight">'' @
          [0x65C5, 0x7A0B, 0x6982, 0x89C8] @ ascii ''</h2>\<newline>'' @
          ascii ''                    <p class="text-xl text-'' @ paletteStr @
          ascii ''-600 leading-relaxed font-light font-serif">"'' @ summaryStr @
          ascii ''"</p>\<newline>'' @
          ascii ''                </div>\<newline>'' @
          ascii ''                <div class="grid grid-cols-1 md:grid-cols-2 lg:grid-cols-4 gap-6">\<newline>'' @
          ascii ''                    '' @ highlightsHtml @ ascii ''\<newline>'' @
          ascii ''                </div>\<newline>'' @
          ascii ''            </div>\<newline>'' @
          ascii ''        </div>\<newline>'' @
          ascii ''        <main class="max-w-6xl mx-auto px-6 pb-20">\<newline>'' @
          ascii ''    ''))))\<close>

definition skeletonStage :: "Collaborators \<Rightarrow> jsstring \<Rightarrow> jsstring \<Rightarrow> jsval \<Rightarrow> (jsval \<times> jsval) gen" where
  "skeletonStage env enhancedPrompt linkText visual =
     andThen (yield (Progress PHASE_OVERVIEW (Percent 20) None)) (\<lambda>u.
     andThen (yield (Log LogStructureStart)) (\<lambda>u.
     andThen (await (generateItineraryStructure env enhancedPrompt linkText visual)) (\<lambda>sk.
     (let fullSkeleton = objectSpread visual sk in
     andThen (yield (SkeletonPayload fullSkeleton)) (\<lambda>u.
     andThen (await (overviewHtmlOf visual sk)) (\<lambda>overviewHtml.
     andThen (yield (Html overviewHtml)) (\<lambda>u.
     ([], Inr (sk, fullSkeleton)))))))))"

fun dayChunks :: "nat \<Rightarrow> nat \<Rightarrow> DayGenerationResult list \<Rightarrow> chunk list" where
  "dayChunks i n [] = []"
| "dayChunks i n (r # rs) =
     [Progress (if i = 0 then PHASE_DAY_1 else PHASE_REMAINING) (DayShare (i + 1) n) (Some (dayNumber r)),
      Log (LogDay (dayNumber r) (title (skeleton r)) (generatedAt r)),
      Html (html r)]
     @ dayChunks (i + 1) n rs"

definition footerHtmlOf :: "jsval \<Rightarrow> js_error + jsstring" where
  \<open>footerHtmlOf visual =
     bindE (toStr (getProp visual (ascii ''palette''))) (\<lambda>paletteStr.
     Inr (
          ascii ''\<newline>'' @
          ascii ''        </main>\<newline>'' @
          ascii ''        <footer class="bg-'' @ paletteStr @ ascii ''-900 text-'' @
          paletteStr @
          ascii ''-100 py-24 mt-12 text-center relative overflow-hidden">\<newline>'' @
          ascii ''            <p class="font-heading italic text-5xl mb-8 text-white/90">Wanderlust AI</p>\<newline>'' @
          ascii ''            <p class="text-sm opacity-60">'' @ [0x7531] @
          ascii '' GLM 4.7 '' @
          [0x6DF1, 0x5EA6, 0x601D, 0x8003, 0x6A21, 0x5F0F, 0x9A71, 0x52A8] @ ascii '' '' @
          [0x00D7] @ ascii '' '' @
          [0x9AD8, 0x5FB7, 0x5730, 0x56FE, 0x5B9E, 0x65F6, 0x6570, 0x636E, 0x652F, 0x6301] @
          ascii '' '' @ [0x00D7] @ ascii '' '' @ [0x5E76, 0x884C] @ ascii ''Agent'' @
          [0x67B6, 0x6784] @ ascii ''</p>\<newline>'' @
          ascii ''        </footer>\<newline>'' @
          ascii ''      </body>\<newline>'' @
          ascii ''      </html>\<newline>'' @
          ascii ''    ''))\<close>

definition daysStage :: "Collaborators \<Rightarrow> jsval \<Rightarrow> jsval \<Rightarrow> jsval \<Rightarrow> unit gen" where
  "daysStage env visual sk fullSkeleton =
     andThen (yield (Progress PHASE_DAY_1 (Percent 30) None)) (\<lambda>u.
     andThen (yield (Log LogDaysStart)) (\<lambda>u.
     andThen (if nullish (getProp sk (ascii ''days'')) then ([], Inl (Throw TypeError))
              else typed (decodeDays (getProp sk (ascii ''days'')))) (\<lambda>daySkeletons.
     andThen (if daySkeletons = [] then ([], Inr None) else
              andThen (typed (decodeTrip fullSkeleton)) (\<lambda>trip. ([], Inr (Some trip)))) (\<lambda>tripOpt.
     andThen (case tripOpt of
                None \<Rightarrow> ([], Inr [])
              | Some trip \<Rightarrow>
                  (case generateDaysParallel env daySkeletons trip 3 of
                     None \<Rightarrow> ([], Inl Diverge)
                   | Some (Inl e) \<Rightarrow> ([], Inl (Throw e))
                   | Some (Inr dayResults) \<Rightarrow> ([], Inr dayResults))) (\<lambda>dayResults.
     andThen (dayChunks 0 (length dayResults) dayResults, Inr ()) (\<lambda>u.
     andThen (yield (Progress PHASE_COMPLETE (Percent 100) None)) (\<lambda>u.
     andThen (await (footerHtmlOf visual)) (\<lambda>footerHtml.
     andThen (yield (Html footerHtml)) (\<lambda>u.
     yield (Log LogDone))))))))))"

text \<open>
  The body of the \<open>try\<close> block, and the generator: the client is obtained before the
  \<open>try\<close>; an error thrown inside it is logged as a last chunk and thrown again to the
  consumer of the stream.
\<close>

definition pipelineBody :: "Collaborators \<Rightarrow> TripDetails \<Rightarrow> MediaItem list \<Rightarrow> unit gen" where
  "pipelineBody env details mediaItems =
     andThen (intentStage env (details_prompt details) mediaItems) (\<lambda>enhancedPrompt.
     andThen (visualStage env enhancedPrompt) (\<lambda>visual.
     andThen (headerStage env visual) (\<lambda>visual'.
     andThen (skeletonStage env enhancedPrompt (linkTextOf mediaItems) visual') (\<lambda>(sk, fullSkeleton).
     daysStage env visual' sk fullSkeleton))))"

definition generateTravelPlanStream ::
  "Collaborators \<Rightarrow> TripDetails \<Rightarrow> MediaItem list \<Rightarrow> chunk list \<times> outcome" where
  "generateTravelPlanStream env details mediaItems =
     (case getGlmClient env of
        Inl e \<Rightarrow> ([], Threw e)
      | Inr ai \<Rightarrow>
          (case pipelineBody env details mediaItems of
             (cs, Inr u) \<Rightarrow> (cs, Completed)
           | (cs, Inl (Throw e)) \<Rightarrow> (cs @ [Log (LogError e)], Threw e)
           | (cs, Inl stop) \<Rightarrow> (cs, Unmodelled stop)))"

section \<open>Follow-up edits of one day (\<open>handleUpdateLocal\<close>, \<open>regenerateDayWithConfirmation\<close>)\<close>

text \<open>
  The value of \<open>fullContent\<close> at the end of the loop of \<open>handleGenerate\<close> that consumes
  the stream, which becomes \<open>generatedHtml\<close>: the chunk that starts with
  \<open><<<HTML_START>>>\<close> sets it to the rest of the chunk, the skeleton payload, the progress
  markers and the log lines, which start with \<open><<<SKELETON>>>\<close> or \<open>>>>\<close>, leave it as
  it is, and every other chunk is appended to it, unless nothing has been collected yet
  and the chunk, trimmed, starts with \<open>>>>\<close>. The markup fragments of the pipeline start
  with a line feed, so none of them is taken for a marker.
\<close>

fun consumeChunk :: "jsstring \<Rightarrow> chunk \<Rightarrow> jsstring" where
  "consumeChunk fullContent (HtmlStart h) = h"
| "consumeChunk fullContent (SkeletonPayload p) = fullContent"
| "consumeChunk fullContent (Progress ph pr d) = fullContent"
| "consumeChunk fullContent (Log l) = fullContent"
| "consumeChunk fullContent (Html h) =
     (if fullContent = [] \<and> startsWith (trim h) (ascii ''>>>'') then fullContent
      else fullContent @ h)"

definition documentOf :: "chunk list \<Rightarrow> jsstring" where
  "documentOf chunks = foldl consumeChunk [] chunks"

text \<open>
  The two fields of the intent analysis that \<open>handleUpdateLocal\<close> reads. The confidence
  is a fraction between 0 and 1, kept here in hundredths, so that the test
  \<open>dayConfidence > 0.7\<close> is \<open>70 < c\<close>; an absent field is \<open>None\<close>. With a high confidence,
  a suggested day and a skeleton the confirmation dialog is shown, and the day selector
  otherwise.
\<close>

record FollowUpAnalysis =
  suggestedDay :: "int option"
  dayConfidence :: "int option"

definition handleUpdateLocal :: "FollowUpAnalysis \<Rightarrow> AppState \<Rightarrow> AppState" where
  "handleUpdateLocal analysis st =
     (case (dayConfidence analysis, suggestedDay analysis, tripSkeleton st) of
        (Some c, Some d, Some sk) \<Rightarrow>
          (if c \<noteq> 0 \<and> 70 < c \<and> d \<noteq> 0
           then st \<lparr> suggestedDayForConfirmation := Some d, showDayConfirmation := True \<rparr>
           else st \<lparr> showDaySelector := True \<rparr>)
      | _ \<Rightarrow> st \<lparr> showDaySelector := True \<rparr>)"

text \<open>
  \<open>regenerateDayWithConfirmation\<close>: the day is regenerated, its section is looked for in
  the document with the expression of \<open>submitModification\<close>, and the new markup replaces
  it; when the section is not found an error is thrown, which the handler catches as it
  catches an error of the regeneration, and the chat says that the modification failed.
  \<open>now\<close> is \<open>Date.now()\<close> and \<open>rnd\<close> the text of \<open>Math.random()\<close>.
\<close>

definition regenerateDayWithConfirmation ::
  "Collaborators \<Rightarrow> int \<Rightarrow> jsstring \<Rightarrow> int \<Rightarrow> jsstring \<Rightarrow> AppState \<Rightarrow> AppState" where
  "regenerateDayWithConfirmation env now rnd d input st =
     (case (tripSkeleton st, generatedHtml st) of
        (Some sk, Some document) \<Rightarrow>
          (if document = [] then st
           else
             (let st' = st \<lparr> isRegenerating := True, showDayConfirmation := False,
                              showDaySelector := False \<rparr>;
                  failed = addChatMessage now rnd Assistant
                             [0x4FEE, 0x6539, 0x5931, 0x8D25, 0xFF0C, 0x8BF7, 0x91CD, 0x8BD5, 0x3002] st'
              in (case snd (regenerateDayPlan env sk d input) of
                    Inr newDayHtml \<Rightarrow>
                      (case matchDaySection d document of
                         Some (before, matched, after) \<Rightarrow>
                           addChatMessage now rnd Assistant
                             ([0x7B2C] @ showInt d @
                              [0x5929, 0x7684, 0x884C, 0x7A0B, 0x5DF2, 0x66F4, 0x65B0, 0xFF01, 0x8FD8,
                               0x6709, 0x5176, 0x4ED6, 0x9700, 0x8981, 0x8C03, 0x6574, 0x7684, 0x5417,
                               0xFF1F])
                             (st' \<lparr> generatedHtml :=
                                      Some (before @ expandReplacement matched before after newDayHtml
                                              @ after) \<rparr>)
                       | None \<Rightarrow> failed)
                  | Inl e \<Rightarrow> failed)
                 \<lparr> isRegenerating := False \<rparr>))
      | _ \<Rightarrow> st)"

text \<open>
  The confirmation dialog is rendered when \<open>showDayConfirmation\<close> is set, a day is
  suggested and there is a skeleton; its \<open>onConfirm\<close> regenerates the suggested day with
  the text of the last message of the user, or with the empty text when there is none.
\<close>

definition lastUserInput :: "AppState \<Rightarrow> jsstring" where
  "lastUserInput st =
     (case rev (filter (\<lambda>m. msg_role m = User) (chatMessages st)) of
        [] \<Rightarrow> []
      | m # ms \<Rightarrow> msg_content m)"

definition onConfirm :: "Collaborators \<Rightarrow> int \<Rightarrow> jsstring \<Rightarrow> AppState \<Rightarrow> AppState" where
  "onConfirm env now rnd st =
     (case (suggestedDayForConfirmation st, tripSkeleton st) of
        (Some d, Some sk) \<Rightarrow>
          (if showDayConfirmation st \<and> d \<noteq> 0
           then regenerateDayWithConfirmation env now rnd d (lastUserInput st) st
           else st)
      | _ \<Rightarrow> st)"

section \<open>Sample inputs and collaborators\<close>

text \<open>
  Concrete inputs on which the theorems below are evaluated: a three-day trip, and a
  language model that answers every prompt with a sentence that holds no JSON. On that
  answer no expression of \<open>parseActivities\<close> matches and \<open>parseAIJsonResponse\<close> finds
  no brace, so \<open>JSON.parse\<close> is not reached and \<open>sampleEnv\<close> may give any function for
  it. The place lookup finds nothing and the image lookup returns no image.
\<close>

definition sampleDay :: "int \<Rightarrow> DayPlanSkeleton" where
  "sampleDay n =
     \<lparr> day = n, title = ascii ''Temples'', theme = ascii ''culture'', city = ascii ''Kyoto'',
       visualKeyword = ascii ''kyoto temple'' \<rparr>"

definition sampleTrip :: TripSkeleton where
  "sampleTrip =
     \<lparr> destination = ascii ''Kyoto'', duration = 3, vibe = ascii ''calm'',
       palette = ascii ''rose'', summary = ascii ''Three days in Kyoto'',
       days = [sampleDay 1, sampleDay 2, sampleDay 3] \<rparr>"

definition sampleAnswer :: jsstring where
  "sampleAnswer = ascii ''Sorry, I cannot help with that.''"

definition sampleEnv :: Collaborators where
  "sampleEnv =
     \<lparr> apiKey = ascii ''key'',
       JSON_parse = (\<lambda>s. None),
       toLowerCase = asciiToLowerCase,
       readAsDataURL = (\<lambda>f. Inr []),
       generateContent = (\<lambda>p. Inr sampleAnswer),
       searchPlace = (\<lambda>placeName cityName. Inr None),
       fetchImages = (\<lambda>opts. Inr []),
       latency = (\<lambda>d. 0) \<rparr>"

text \<open>The same, with a language model that fails on the activity prompt of one day.\<close>

definition providerError :: js_error where
  "providerError = Error (ascii ''GLM API Error (500): overloaded'')"

definition failingDayEnv :: "int \<Rightarrow> Collaborators" where
  "failingDayEnv n =
     sampleEnv \<lparr> generateContent :=
       (\<lambda>p. case p of
               ActivityPrompt d dest c th v \<Rightarrow> (if d = n then Inl providerError else Inr sampleAnswer)
             | _ \<Rightarrow> Inr sampleAnswer) \<rparr>"

text \<open>The same, without a configured key.\<close>

definition noKeyEnv :: Collaborators where
  "noKeyEnv = sampleEnv \<lparr> apiKey := [] \<rparr>"


text \<open>
  A visual identity of three days, and a language model whose itinerary holds one day
  only. \<open>miscountEnv\<close> parses that answer as \<open>JSON.parse\<close> does and is applied to no other
  text that is JSON.
\<close>

definition sampleVisual :: jsval where
  "sampleVisual =
     JObj [(ascii ''destination'', JStr (ascii ''Kyoto'')),
           (ascii ''duration'', JNum 3),
           (ascii ''vibe'', JStr (ascii ''calm'')),
           (ascii ''palette'', JStr (ascii ''rose'')),
           (ascii ''heroStyle'', JStr (ascii ''minimal'')),
           (ascii ''fontConfig'',
              JObj [(ascii ''headingFont'', JStr (ascii ''Noto Serif SC'')),
                    (ascii ''bodyFont'', JStr (ascii ''Noto Sans SC'')),
                    (ascii ''googleFontUrl'', JStr (ascii ''https://fonts.googleapis.com/css2''))])]"

definition miscountAnswer :: jsstring where
  \<open>miscountAnswer =
     ascii ''{"summary":"Kyoto in a day","highlights":[],"days":[{"day":1,"title":"Temples",''
     @ ascii ''"theme":"culture","city":"Kyoto","visualKeyword":"kyoto temple"}]}''\<close>

definition miscountJson :: jsval where
  "miscountJson =
     JObj [(ascii ''summary'', JStr (ascii ''Kyoto in a day'')),
           (ascii ''highlights'', JArr []),
           (ascii ''days'',
              JArr [JObj [(ascii ''day'', JNum 1),
                          (ascii ''title'', JStr (ascii ''Temples'')),
                          (ascii ''theme'', JStr (ascii ''culture'')),
                          (ascii ''city'', JStr (ascii ''Kyoto'')),
                          (ascii ''visualKeyword'', JStr (ascii ''kyoto temple''))]])]"

definition miscountEnv :: Collaborators where
  "miscountEnv =
     sampleEnv \<lparr> JSON_parse := (\<lambda>s. if s = miscountAnswer then Some miscountJson else None),
                 generateContent := (\<lambda>p. Inr miscountAnswer) \<rparr>"

definition sampleDetails :: TripDetails where
  "sampleDetails = \<lparr> details_prompt = ascii ''Kyoto, 3 days, temples and tea'' \<rparr>"

text \<open>
  A language model that answers the visual identity prompt with the sample visual
  identity, the itinerary prompt with three days, the regeneration prompt with a day plan
  without activities, and every other prompt with the sentence that holds no JSON.
  \<open>plannerEnv\<close> parses these three answers as \<open>JSON.parse\<close> does and is applied to no other
  text that is JSON. \<open>followUp\<close> is the state of the component after the generation of a
  document, when the user has sent a follow-up message.
\<close>

definition visualAnswer :: jsstring where
  \<open>visualAnswer =
     ascii ''{"destination":"Kyoto","duration":3,"vibe":"calm","palette":"rose",''
     @ ascii ''"heroStyle":"minimal","fontConfig":{"headingFont":"Noto Serif SC",''
     @ ascii ''"bodyFont":"Noto Sans SC","googleFontUrl":"https://fonts.googleapis.com/css2"}}''\<close>

definition itineraryDay :: "int \<Rightarrow> jsval" where
  "itineraryDay n =
     JObj [(ascii ''day'', JNum n),
           (ascii ''title'', JStr (ascii ''Temples'')),
           (ascii ''theme'', JStr (ascii ''culture'')),
           (ascii ''city'', JStr (ascii ''Kyoto'')),
           (ascii ''visualKeyword'', JStr (ascii ''kyoto temple''))]"

definition itineraryAnswer :: jsstring where
  \<open>itineraryAnswer =
     ascii ''{"summary":"Three days in Kyoto","highlights":[],"days":[''
     @ ascii ''{"day":1,"title":"Temples","theme":"culture","city":"Kyoto","visualKeyword":"kyoto temple"},''
     @ ascii ''{"day":2,"title":"Temples","theme":"culture","city":"Kyoto","visualKeyword":"kyoto temple"},''
     @ ascii ''{"day":3,"title":"Temples","theme":"culture","city":"Kyoto","visualKeyword":"kyoto temple"}]}''\<close>

definition itineraryJson :: jsval where
  "itineraryJson =
     JObj [(ascii ''summary'', JStr (ascii ''Three days in Kyoto'')),
           (ascii ''highlights'', JArr []),
           (ascii ''days'', JArr [itineraryDay 1, itineraryDay 2, itineraryDay 3])]"

definition editAnswer :: jsstring where
  \<open>editAnswer = ascii ''{"day":2,"title":"Tea houses","theme":"calm","city":"Kyoto","activities":[]}''\<close>

definition editJson :: jsval where
  "editJson =
     JObj [(ascii ''day'', JNum 2),
           (ascii ''title'', JStr (ascii ''Tea houses'')),
           (ascii ''theme'', JStr (ascii ''calm'')),
           (ascii ''city'', JStr (ascii ''Kyoto'')),
           (ascii ''activities'', JArr [])]"

text \<open>
  The font configuration of the sample visual identity, and the sample visual identity as
  the header stage leaves it when the image lookup returns no image: \<open>heroImage\<close> is
  \<open>undefined\<close>.
\<close>

definition sampleFonts :: jsval where
  "sampleFonts =
     JObj [(ascii ''headingFont'', JStr (ascii ''Noto Serif SC'')),
           (ascii ''bodyFont'', JStr (ascii ''Noto Sans SC'')),
           (ascii ''googleFontUrl'', JStr (ascii ''https://fonts.googleapis.com/css2''))]"

definition heroVisual :: jsval where
  "heroVisual = JObj (ownProps sampleVisual @ [(ascii ''heroImage'', JUndefined)])"

definition plannerEnv :: Collaborators where
  "plannerEnv =
     sampleEnv \<lparr> JSON_parse := (\<lambda>s. if s = visualAnswer then Some sampleVisual
                                     else if s = itineraryAnswer then Some itineraryJson
                                     else if s = editAnswer then Some editJson
                                     else None),
                 generateContent := (\<lambda>p. case p of
                                            VisualIdentityPrompt r \<Rightarrow> Inr visualAnswer
                                          | ItineraryStructurePrompt r dest n links \<Rightarrow> Inr itineraryAnswer
                                          | RegeneratePrompt d t m \<Rightarrow> Inr editAnswer
                                          | _ \<Rightarrow> Inr sampleAnswer) \<rparr>"

definition followUp :: "jsstring \<Rightarrow> AppState" where
  "followUp document =
     \<lparr> tripSkeleton = Some sampleTrip, generatedHtml = Some document, modifyingDay = None,
       modifyInput = [], isRegenerating = False,
       chatMessages = [\<lparr> msg_id = ascii ''1'', msg_role = User,
                         msg_content = ascii ''make day 2 more relaxed'', msg_timestamp = 1 \<rparr>],
       versionHistory = [], showVersionHistory = False, alerts = [],
       showDaySelector = False, showDayConfirmation = False,
       suggestedDayForConfirmation = None \<rparr>"

section \<open>Properties of the scene classifier\<close>

text \<open>
  The second loop of \<open>quickPredict\<close> either keeps its initial value, when no score exceeds
  the initial maximum, or returns the first entry at which the running maximum reaches its
  final value.
\<close>

lemma pickMax_cases:
  "(pickMax m p sc xs = p \<and> (\<forall>s \<in> set xs. sc s \<le> m)) \<or>
   (\<exists>pre post. xs = pre @ pickMax m p sc xs # post \<and> m < sc (pickMax m p sc xs) \<and>
       (\<forall>s \<in> set pre. sc s < sc (pickMax m p sc xs)) \<and>
       (\<forall>s \<in> set post. sc s \<le> sc (pickMax m p sc xs)))"
  (is "?keep m p xs \<or> ?found m p xs")
proof (induction xs arbitrary: m p)
  case Nil
  show ?case by simp
next
  case (Cons x xs)
  show ?case
  proof (cases "sc x > m")
    case True
    then have e: "pickMax m p sc (x # xs) = pickMax (sc x) x sc xs" by simp
    from Cons.IH [of "sc x" x] have "?found m p (x # xs)"
    proof
      assume a: "?keep (sc x) x xs"
      show ?thesis
        apply (rule exI [of _ "[]"])
        apply (rule exI [of _ xs])
        using True a e apply simp
        done
    next
      assume "?found (sc x) x xs"
      then obtain pre post where b: "xs = pre @ pickMax (sc x) x sc xs # post"
        "sc x < sc (pickMax (sc x) x sc xs)"
        "\<forall>s \<in> set pre. sc s < sc (pickMax (sc x) x sc xs)"
        "\<forall>s \<in> set post. sc s \<le> sc (pickMax (sc x) x sc xs)" by blast
      have c: "x # xs = (x # pre) @ pickMax (sc x) x sc xs # post" using b(1) by simp
      show ?thesis
        unfolding e
        apply (rule exI [of _ "x # pre"])
        apply (rule exI [of _ post])
        using True b(2,3,4) c apply simp
        done
    qed
    then show ?thesis ..
  next
    case False
    then have e: "pickMax m p sc (x # xs) = pickMax m p sc xs" by simp
    from Cons.IH [of m p] show ?thesis
    proof
      assume "?keep m p xs"
      then have "?keep m p (x # xs)" using False e by simp
      then show ?thesis ..
    next
      assume "?found m p xs"
      then obtain pre post where b: "xs = pre @ pickMax m p sc xs # post"
        "m < sc (pickMax m p sc xs)"
        "\<forall>s \<in> set pre. sc s < sc (pickMax m p sc xs)"
        "\<forall>s \<in> set post. sc s \<le> sc (pickMax m p sc xs)" by blast
      have c: "x # xs = (x # pre) @ pickMax m p sc xs # post" using b(1) by simp
      have d: "sc x < sc (pickMax m p sc xs)" using False b(2) by simp
      have "?found m p (x # xs)"
        unfolding e
        apply (rule exI [of _ "x # pre"])
        apply (rule exI [of _ post])
        using b(2,3,4) c d apply simp
        done
      then show ?thesis ..
    qed
  qed
qed


lemma highestScore_upper: "s \<in> set xs \<Longrightarrow> sc s \<le> highestScore sc xs"
  by (induction xs) (auto simp: highestScore_def)

lemma highestScore_none: "\<forall>s \<in> set xs. sc s \<le> 0 \<Longrightarrow> highestScore sc xs = 0"
  by (induction xs) (auto simp: highestScore_def)

lemma highestScore_bound: "\<forall>s \<in> set xs. sc s \<le> b \<Longrightarrow> highestScore sc xs \<le> b"
  by (induction xs) (auto simp: highestScore_def)

lemma highestScore_attained:
  assumes "xs = pre @ best # post"
    and "\<forall>s \<in> set pre. sc s < sc best"
    and "\<forall>s \<in> set post. sc s \<le> sc best"
  shows "highestScore sc xs = sc best"
proof -
  have "\<forall>s \<in> set xs. sc s \<le> sc best" using assms by auto
  then have "highestScore sc xs \<le> sc best" by (rule highestScore_bound)
  moreover have "sc best \<le> highestScore sc xs"
    using highestScore_upper [of best xs sc] assms(1) by simp
  ultimately show ?thesis by simp
qed

lemma filter_first:
  assumes "xs = pre @ best # post" and "\<forall>s \<in> set pre. \<not> P s" and "P best"
  shows "filter P xs = best # filter P post"
  using assms by (simp add: filter_empty_conv)

lemma pickMax_highest:
  "pickMax 0 dflt sc xs =
     (case filter (\<lambda>s. sc s > 0 \<and> sc s = highestScore sc xs) xs of [] \<Rightarrow> dflt | s # _ \<Rightarrow> s)"
proof -
  from pickMax_cases [of 0 dflt sc xs] show ?thesis
  proof
    assume a: "pickMax 0 dflt sc xs = dflt \<and> (\<forall>s \<in> set xs. sc s \<le> 0)"
    then have "filter (\<lambda>s. sc s > 0 \<and> sc s = highestScore sc xs) xs = []"
      by (auto simp: filter_empty_conv)
    then show ?thesis using a by simp
  next
    assume "\<exists>pre post. xs = pre @ pickMax 0 dflt sc xs # post \<and> 0 < sc (pickMax 0 dflt sc xs) \<and>
       (\<forall>s \<in> set pre. sc s < sc (pickMax 0 dflt sc xs)) \<and>
       (\<forall>s \<in> set post. sc s \<le> sc (pickMax 0 dflt sc xs))"
    then obtain pre post where b: "xs = pre @ pickMax 0 dflt sc xs # post"
      "0 < sc (pickMax 0 dflt sc xs)"
      "\<forall>s \<in> set pre. sc s < sc (pickMax 0 dflt sc xs)"
      "\<forall>s \<in> set post. sc s \<le> sc (pickMax 0 dflt sc xs)" by blast
    have h: "highestScore sc xs = sc (pickMax 0 dflt sc xs)"
      using b(1,3,4) by (rule highestScore_attained)
    have "filter (\<lambda>s. sc s > 0 \<and> sc s = highestScore sc xs) xs
            = pickMax 0 dflt sc xs # filter (\<lambda>s. sc s > 0 \<and> sc s = highestScore sc xs) post"
      using b(1)
    proof (rule filter_first)
      show "\<forall>s \<in> set pre. \<not> (0 < sc s \<and> sc s = highestScore sc xs)"
        using b(3) h by auto
      show "0 < sc (pickMax 0 dflt sc xs) \<and> sc (pickMax 0 dflt sc xs) = highestScore sc xs"
        using b(2) h by simp
    qed
    then show ?thesis by simp
  qed
qed


text \<open>
  Claim C7, as the code implements it. For every input string and every lower-casing
  function, \<open>quickPredict\<close> lower-cases the input, counts for each of the 8 scene
  categories the entries of its keyword list that occur in the input, and returns the first
  category in table order whose count is the highest one, or the default \<open>relaxation\<close>
  when no keyword of any category occurs. It is a function of its input string alone: no
  collaborator is among its arguments.
\<close>

theorem quickPredict_highest_score_scene:
  "quickPredict lower input = highestScoreScene (sceneScore lower (lower input))"
  by (simp add: quickPredict_def highestScoreScene_def Let_def pickMax_highest)


text \<open>
  Claim C7 as it is worded fails: the result is not always the first category with at
  least one hit. In \<open>family foodie\<close> the second category (family) has one hit, and the
  fifth (foodie) has two, \<open>food\<close> and \<open>foodie\<close>; the code returns foodie.
\<close>

theorem quickPredict_not_first_hit:
  "quickPredict asciiToLowerCase (ascii ''family foodie'')
     \<noteq> firstHitScene asciiToLowerCase (ascii ''family foodie'')"
proof -
  have a: "quickPredict asciiToLowerCase (ascii ''family foodie'') = FOODIE"
    by (simp add: quickPredict_def sceneEntries_def sceneScore_def asciiToLowerCase_def ascii_def)
  have b: "firstHitScene asciiToLowerCase (ascii ''family foodie'') = FAMILY"
    by (simp add: firstHitScene_def sceneEntries_def sceneScore_def asciiToLowerCase_def ascii_def)
  show ?thesis unfolding a b by simp
qed

section \<open>Properties of the response parser\<close>

text \<open>The fence tests and index arithmetic of the code against prefix removal.\<close>

lemma startsWith_stripPrefix: "startsWith s p \<longleftrightarrow> stripPrefix p s \<noteq> None"
  by (induction p s rule: stripPrefix.induct) auto

lemma stripPrefix_drop: "stripPrefix p s = Some r \<Longrightarrow> r = drop (length p) s"
  by (induction p s rule: stripPrefix.induct) (auto split: if_splits)

lemma stripPrefix_append: "stripPrefix p s = Some r \<Longrightarrow> s = p @ r"
  by (induction p s rule: stripPrefix.induct) (auto split: if_splits)

lemma startsWith_length: "startsWith s p \<Longrightarrow> length p \<le> length s"
  by (induction s p rule: startsWith.induct) auto

lemma sliceFrom_nat: "sliceFrom s (int n) = drop n s"
  by (simp add: sliceFrom_def relativeIndex_def min_def)

lemma slice_drop_end:
  "0 < n \<Longrightarrow> n \<le> length s \<Longrightarrow> slice s 0 (- int n) = take (length s - n) s"
  by (auto simp: slice_def relativeIndex_def Let_def nat_diff_distrib' max_def)

lemma length_fence_json: "length (ascii ''```json'') = 7" by (simp add: ascii_def)
lemma length_fence: "length (ascii ''```'') = 3" by (simp add: ascii_def)

lemma leading_fence_code:
  "(if startsWith t (ascii ''```json'') then sliceFrom t 7
    else if startsWith t (ascii ''```'') then sliceFrom t 3 else t) = stripLeadingFence t"
proof -
  have a: "sliceFrom t 7 = drop 7 t" using sliceFrom_nat [of t 7] by simp
  have b: "sliceFrom t 3 = drop 3 t" using sliceFrom_nat [of t 3] by simp
  show ?thesis
    unfolding stripLeadingFence_def a b
    by (auto simp: startsWith_stripPrefix length_fence_json length_fence
             dest!: stripPrefix_drop split: option.splits)
qed

lemma trailing_fence_code:
  "(if endsWith t (ascii ''```'') then slice t 0 (-3) else t) = stripTrailingFence t"
proof (cases "endsWith t (ascii ''```'')")
  case True
  then have sw: "startsWith (rev t) (rev (ascii ''```''))" by (simp add: endsWith_def)
  then obtain r where r: "stripPrefix (rev (ascii ''```'')) (rev t) = Some r"
    by (auto simp: startsWith_stripPrefix)
  have len: "3 \<le> length t" using startsWith_length [OF sw] by (simp add: length_fence)
  have "r = drop 3 (rev t)" using stripPrefix_drop [OF r] by (simp add: length_fence)
  then have "rev r = take (length t - 3) t" by (simp add: rev_drop)
  moreover have "slice t 0 (-3) = take (length t - 3) t"
    using slice_drop_end [of 3 t] len by simp
  ultimately show ?thesis using True r by (simp add: stripTrailingFence_def)
next
  case False
  then have "stripPrefix (rev (ascii ''```'')) (rev t) = None"
    by (simp add: endsWith_def startsWith_stripPrefix)
  then show ?thesis using False by (simp add: stripTrailingFence_def)
qed

lemma cleanFences_spec:
  "cleanFences text = trim (stripTrailingFence (stripLeadingFence (trim text)))"
  unfolding cleanFences_def Let_def leading_fence_code trailing_fence_code ..

lemma indexOfFrom_takeWhile:
  "indexOfFrom s ch i = (if ch \<in> set s then i + int (length (takeWhile (\<lambda>c. c \<noteq> ch) s)) else -1)"
  by (induction s arbitrary: i) auto

lemma indexOf_takeWhile:
  "indexOf s ch = (if ch \<in> set s then int (length (takeWhile (\<lambda>c. c \<noteq> ch) s)) else -1)"
  by (simp add: indexOf_def indexOfFrom_takeWhile)

lemma lastIndexOfFrom_app:
  "lastIndexOfFrom s ch i found =
     (if ch \<in> set s then i + int (length s) - 1 - int (length (takeWhile (\<lambda>c. c \<noteq> ch) (rev s)))
      else found)"
proof (induction s arbitrary: i found)
  case Nil
  show ?case by simp
next
  case (Cons c cs)
  show ?case
  proof (cases "ch \<in> set cs")
    case True
    then have "ch \<in> set (rev cs)" by simp
    then have "takeWhile (\<lambda>c. c \<noteq> ch) (rev cs @ [c]) = takeWhile (\<lambda>c. c \<noteq> ch) (rev cs)"
      by (rule takeWhile_append1) simp
    then show ?thesis using True Cons.IH by simp
  next
    case False
    then have "takeWhile (\<lambda>c. c \<noteq> ch) (rev cs) = rev cs"
      by (auto simp: takeWhile_eq_all_conv)
    then show ?thesis using False Cons.IH by (auto simp: takeWhile_append)
  qed
qed

lemma lastIndexOf_takeWhile:
  "lastIndexOf s ch =
     (if ch \<in> set s then int (length s) - 1 - int (length (takeWhile (\<lambda>c. c \<noteq> ch) (rev s)))
      else -1)"
  by (simp add: lastIndexOf_def lastIndexOfFrom_app)


lemma dropWhile_drop_takeWhile: "dropWhile P s = drop (length (takeWhile P s)) s"
  by (induction s) auto

lemma length_takeWhile_lt:
  "x \<in> set xs \<Longrightarrow> \<not> P x \<Longrightarrow> length (takeWhile P xs) < length xs"
  by (induction xs) auto

lemma braceSlice_code:
  "braceSlice c =
     (if indexOf c 0x7B = -1 \<or> lastIndexOf c 0x7D = -1 \<or> indexOf c 0x7B \<ge> lastIndexOf c 0x7D
      then None
      else Some (substring c (indexOf c 0x7B) (lastIndexOf c 0x7D + 1)))"
proof -
  define pre where "pre = takeWhile (\<lambda>x. x \<noteq> (0x7B::nat)) c"
  define fromFirst where "fromFirst = dropWhile (\<lambda>x. x \<noteq> (0x7B::nat)) c"
  define k where "k = length (takeWhile (\<lambda>x. x \<noteq> (0x7D::nat)) (rev fromFirst))"
  have c: "c = pre @ fromFirst" by (simp add: pre_def fromFirst_def)
  have body: "rev (dropWhile (\<lambda>x. x \<noteq> (0x7D::nat)) (rev fromFirst)) = take (length fromFirst - k) fromFirst"
    by (simp add: dropWhile_drop_takeWhile [of _ "rev fromFirst"] k_def rev_drop)
  have bs: "braceSlice c = (if take (length fromFirst - k) fromFirst = [] then None
                            else Some (take (length fromFirst - k) fromFirst))"
    unfolding braceSlice_def Let_def fromFirst_def [symmetric] body ..
  show ?thesis
  proof (cases "(0x7B::nat) \<in> set c")
    case False
    then have "fromFirst = []" by (auto simp: fromFirst_def)
    then show ?thesis using False by (simp add: bs indexOf_takeWhile)
  next
    case open_in: True
    then have first: "indexOf c 0x7B = int (length pre)"
      by (simp add: indexOf_takeWhile pre_def)
    have ff: "fromFirst \<noteq> []" using open_in by (simp add: fromFirst_def)
    show ?thesis
    proof (cases "(0x7D::nat) \<in> set fromFirst")
      case False
      then have twall: "takeWhile (\<lambda>x. x \<noteq> (0x7D::nat)) (rev fromFirst) = rev fromFirst"
        by (auto simp: takeWhile_eq_all_conv)
      have kall: "k = length fromFirst"
        unfolding k_def twall by simp
      have none: "braceSlice c = None" using kall by (simp add: bs)
      show ?thesis
      proof (cases "(0x7D::nat) \<in> set c")
        case False
        then show ?thesis using none by (simp add: lastIndexOf_takeWhile)
      next
        case True
        then have inpre: "(0x7D::nat) \<in> set pre" using False c by auto
        have "rev c = rev fromFirst @ rev pre" using c by simp
        then have "takeWhile (\<lambda>x. x \<noteq> (0x7D::nat)) (rev c)
                     = rev fromFirst @ takeWhile (\<lambda>x. x \<noteq> (0x7D::nat)) (rev pre)"
          using False by (auto simp: takeWhile_append)
        then have "length (takeWhile (\<lambda>x. x \<noteq> (0x7D::nat)) (rev c)) \<ge> length fromFirst"
          by simp
        then have "lastIndexOf c 0x7D \<le> int (length pre) - 1"
          using True c by (simp add: lastIndexOf_takeWhile)
        then show ?thesis using none first by simp
      qed
    next
      case True
      then have "(0x7D::nat) \<in> set (rev fromFirst)" by simp
      then have tw: "takeWhile (\<lambda>x. x \<noteq> (0x7D::nat)) (rev fromFirst @ rev pre)
                       = takeWhile (\<lambda>x. x \<noteq> (0x7D::nat)) (rev fromFirst)"
        by (rule takeWhile_append1) simp
      have klt: "k < length fromFirst"
        using length_takeWhile_lt [of "0x7D" "rev fromFirst" "\<lambda>x. x \<noteq> (0x7D::nat)"] True
        by (simp add: k_def)
      have cin: "(0x7D::nat) \<in> set c" using True c by auto
      have "rev c = rev fromFirst @ rev pre" using c by simp
      then have last: "lastIndexOf c 0x7D = int (length c) - 1 - int k"
        using cin tw by (simp add: lastIndexOf_takeWhile k_def)
      have len: "length c = length pre + length fromFirst" using c by simp
      have neq: "length fromFirst - k \<noteq> 0" using klt by simp
      have lt: "indexOf c 0x7B < lastIndexOf c 0x7D \<or> length fromFirst - k = 1"
        using first last len klt by auto
      have hd: "hd fromFirst = 0x7B"
        using hd_dropWhile [of "\<lambda>x. x \<noteq> (0x7B::nat)" c] ff
        by (simp add: fromFirst_def)
      have ne1: "length fromFirst - k \<noteq> 1"
      proof
        assume one: "length fromFirst - k = 1"
        have "rev fromFirst ! k = 0x7D"
          using nth_length_takeWhile [of "\<lambda>x. x \<noteq> (0x7D::nat)" "rev fromFirst"] klt
          by (simp add: k_def)
        moreover have "rev fromFirst ! k = fromFirst ! 0"
          using one klt by (simp add: rev_nth)
        moreover have "fromFirst ! 0 = hd fromFirst" using ff by (simp add: hd_conv_nth)
        ultimately show False using hd by simp
      qed
      have lt': "indexOf c 0x7B < lastIndexOf c 0x7D" using lt ne1 by simp
      have sub: "substring c (indexOf c 0x7B) (lastIndexOf c 0x7D + 1)
                   = take (length fromFirst - k) fromFirst"
      proof -
        have a: "nat (max (int (length pre)) 0) = length pre" by simp
        have b: "nat (max (int (length c) - 1 - int k + 1) 0) = length c - k"
          using klt len by simp
        have d: "drop (length pre) c = fromFirst" using c by simp
        have e: "length c - k - length pre = length fromFirst - k" using len klt by simp
        have f: "length pre \<le> length c - k" using len klt by simp
        show ?thesis
          unfolding substring_def Let_def first last a b
          using d e f len by (simp add: min_def max_def)
      qed
      have "take (length fromFirst - k) fromFirst \<noteq> []" using ff neq by simp
      then show ?thesis using bs sub lt' first last by simp
    qed
  qed
qed


text \<open>
  What the slice of the specification is: the text from the first opening brace to the
  last closing brace, both included, when the first opening brace comes before it.
\<close>

lemma braceSlice_found:
  assumes "t = pre @ 0x7B # mid @ 0x7D # post" and "0x7B \<notin> set pre" and "0x7D \<notin> set post"
  shows "braceSlice t = Some (0x7B # mid @ [0x7D])"
proof -
  have a: "dropWhile (\<lambda>c. c \<noteq> (0x7B::nat)) t = 0x7B # mid @ 0x7D # post"
    using assms(1,2) by (auto simp: dropWhile_append3)
  have "rev (0x7B # mid @ 0x7D # post) = rev post @ (0x7D # rev mid @ [0x7B])" by simp
  moreover have "dropWhile (\<lambda>c. c \<noteq> (0x7D::nat)) (rev post @ (0x7D # rev mid @ [0x7B]))
                   = 0x7D # rev mid @ [0x7B]"
    using assms(3) by (auto simp: dropWhile_append3)
  ultimately have "rev (dropWhile (\<lambda>c. c \<noteq> (0x7D::nat)) (rev (0x7B # mid @ 0x7D # post)))
                     = 0x7B # mid @ [0x7D]"
    by simp
  then show ?thesis by (simp add: braceSlice_def a Let_def)
qed

lemma braceSlice_shape:
  assumes "braceSlice t = Some body"
  shows "\<exists>pre mid post. t = pre @ 0x7B # mid @ 0x7D # post \<and> 0x7B \<notin> set pre
            \<and> 0x7D \<notin> set post \<and> body = 0x7B # mid @ [0x7D]"
proof -
  define pre where "pre = takeWhile (\<lambda>c. c \<noteq> (0x7B::nat)) t"
  define fromFirst where "fromFirst = dropWhile (\<lambda>c. c \<noteq> (0x7B::nat)) t"
  define tl where "tl = takeWhile (\<lambda>c. c \<noteq> (0x7D::nat)) (rev fromFirst)"
  define dl where "dl = dropWhile (\<lambda>c. c \<noteq> (0x7D::nat)) (rev fromFirst)"
  have t: "t = pre @ fromFirst" by (simp add: pre_def fromFirst_def)
  have body: "body = rev dl" and ne: "rev dl \<noteq> []"
    using assms by (auto simp: braceSlice_def Let_def fromFirst_def dl_def split: if_splits)
  have split: "rev fromFirst = tl @ dl" by (simp add: tl_def dl_def)
  have dlne: "dl \<noteq> []" using ne by simp
  then have hd_dl: "hd dl = 0x7D"
    using hd_dropWhile [of "\<lambda>c. c \<noteq> (0x7D::nat)" "rev fromFirst"] by (simp add: dl_def)
  obtain r where dl: "dl = 0x7D # r" using dlne hd_dl by (cases dl) auto
  have ff: "fromFirst = rev r @ 0x7D # rev tl"
    using split dl by (metis rev_append rev.simps(2) rev_rev_ident append_Cons append_Nil append_assoc)
  have ffne: "fromFirst \<noteq> []" using ff by simp
  have hd_ff: "hd fromFirst = 0x7B"
    using hd_dropWhile [of "\<lambda>c. c \<noteq> (0x7B::nat)" t] ffne by (simp add: fromFirst_def)
  have "rev r \<noteq> []"
  proof
    assume "rev r = []"
    then have "hd fromFirst = 0x7D" using ff by simp
    then show False using hd_ff by simp
  qed
  then obtain mid where mid: "rev r = 0x7B # mid"
    using ff hd_ff by (cases "rev r") auto
  have "t = pre @ 0x7B # mid @ 0x7D # rev tl" using t ff mid by simp
  moreover have "0x7B \<notin> set pre"
    using set_takeWhileD [of "0x7B" "\<lambda>c. c \<noteq> (0x7B::nat)" t] by (auto simp: pre_def)
  moreover have "0x7D \<notin> set (rev tl)"
    using set_takeWhileD [of "0x7D" "\<lambda>c. c \<noteq> (0x7D::nat)" "rev fromFirst"] by (auto simp: tl_def)
  moreover have "body = 0x7B # mid @ [0x7D]" using body dl mid by simp
  ultimately show ?thesis by blast
qed

lemma stripPrefix_same: "stripPrefix p (p @ rest) = Some rest"
  by (induction p) simp_all

lemma stripLeadingFence_json: "stripLeadingFence (ascii ''```json'' @ rest) = rest"
  by (simp add: stripLeadingFence_def stripPrefix_same)

lemma stripTrailingFence_end: "stripTrailingFence (rest @ ascii ''```'') = rest"
  by (simp add: stripTrailingFence_def stripPrefix_same)

lemma parseAIJsonResponse_slice:
  "parseAIJsonResponse json_parse text =
     (case braceSlice (cleanFences text) of
        None \<Rightarrow> Inl (Error (ascii ''No valid JSON object found in response''))
      | Some body \<Rightarrow> (case json_parse body of None \<Rightarrow> Inl SyntaxError | Some v \<Rightarrow> Inr v))"
  unfolding parseAIJsonResponse_def Let_def by (simp add: braceSlice_code)

text \<open>
  Claim C2. For every input string, \<open>parseAIJsonResponse\<close> trims the text, strips a
  leading fence (\<open>```json\<close> or \<open>```\<close>) and a trailing fence if present, trims again,
  slices from the first opening brace to the last closing brace inclusive and parses that
  slice. The cleaning step of the code, \<open>cleanFences\<close>, is the trimming and fence
  stripping of the specification, which removes a leading \<open>```json\<close> and a trailing
  \<open>```\<close>; the code slices and parses the cleaned text; and the result is the one of the
  algorithm of the specification. When there is no such pair of braces it fails with the
  error \<open>No valid JSON object found in response\<close>, and when \<open>JSON.parse\<close> throws it fails
  with that SyntaxError; both are error values a caller can catch, and the result is a
  function of the text and of what \<open>JSON.parse\<close> does on the slice.
\<close>

theorem parseAIJsonResponse_first_to_last_brace:
  "cleanFences text = trim (stripTrailingFence (stripLeadingFence (trim text)))
   \<and> stripLeadingFence (ascii ''```json'' @ rest) = rest
   \<and> stripTrailingFence (rest @ ascii ''```'') = rest
   \<and> parseAIJsonResponse json_parse text =
       (case braceSlice (cleanFences text) of
          None \<Rightarrow> Inl (Error (ascii ''No valid JSON object found in response''))
        | Some body \<Rightarrow> (case json_parse body of None \<Rightarrow> Inl SyntaxError | Some v \<Rightarrow> Inr v))
   \<and> parseAIJsonResponse json_parse text = parseResponseSpec json_parse text"
proof (intro conjI)
  show "cleanFences text = trim (stripTrailingFence (stripLeadingFence (trim text)))"
    by (rule cleanFences_spec)
  show "stripLeadingFence (ascii ''```json'' @ rest) = rest"
    by (rule stripLeadingFence_json)
  show "stripTrailingFence (rest @ ascii ''```'') = rest"
    by (rule stripTrailingFence_end)
  show "parseAIJsonResponse json_parse text =
       (case braceSlice (cleanFences text) of
          None \<Rightarrow> Inl (Error (ascii ''No valid JSON object found in response''))
        | Some body \<Rightarrow> (case json_parse body of None \<Rightarrow> Inl SyntaxError | Some v \<Rightarrow> Inr v))"
    by (rule parseAIJsonResponse_slice)
  show "parseAIJsonResponse json_parse text = parseResponseSpec json_parse text"
    by (simp add: parseAIJsonResponse_slice parseResponseSpec_def cleanFences_spec)
qed

section \<open>Properties of the day worker\<close>

lemma bindE_simps [simp]: "bindE (Inl e) f = Inl e" "bindE (Inr v) f = f v"
  by (simp_all add: bindE_def)

lemma bindE_Inr_iff: "bindE m f = Inr r \<longleftrightarrow> (\<exists>v. m = Inr v \<and> f v = Inr r)"
  by (cases m) auto

lemma bindE_Inl_iff: "bindE m f = Inl e \<longleftrightarrow> m = Inl e \<or> (\<exists>v. m = Inr v \<and> f v = Inl e)"
  by (cases m) auto

lemma parseActivities_fallback:
  "tryParseActivities jp text = None \<Longrightarrow> parseActivities jp sk text = getDefaultActivities sk"
  by (simp add: parseActivities_def)


lemma enrich_none:
  "searchPlace env (loc_name (act_location a)) (JStr (city sk)) = Inr None \<Longrightarrow>
     enrichActivity env sk a = a"
  by (simp add: enrichActivity_def)

lemma enrich_error:
  "searchPlace env (loc_name (act_location a)) (JStr (city sk)) = Inl e \<Longrightarrow>
     enrichActivity env sk a = a"
  by (simp add: enrichActivity_def)

lemma default_activity_html:
  "a \<in> set (getDefaultActivities sk) \<Longrightarrow> \<exists>h. generateActivityHtml trip sk a = Inr h"
  by (auto simp: getDefaultActivities_def generateActivityHtml_def)

lemma collect_ok: "\<forall>x \<in> set xs. \<exists>v. g x = Inr v \<Longrightarrow> \<exists>vs. collect (map g xs) = Inr vs"
proof (induction xs)
  case Nil
  show ?case by simp
next
  case (Cons x xs)
  then obtain v vs where "g x = Inr v" "collect (map g xs) = Inr vs" by auto
  then show ?case by simp
qed

lemma defaults_render:
  assumes "encodeURIComponent (city sk) = Inr u"
  shows "\<exists>h. generateHTML trip sk
              \<lparr> day = d, title = t, theme = th, city = city sk,
                activities = getDefaultActivities sk \<rparr> imgs = Inr h"
proof -
  obtain hs where hs: "collect (map (generateActivityHtml trip sk) (getDefaultActivities sk)) = Inr hs"
    using collect_ok [of "getDefaultActivities sk" "generateActivityHtml trip sk"]
      default_activity_html by blast
  have fc: "firstCoordinate loc_lat (getDefaultActivities sk) = JNum 0"
           "firstCoordinate loc_lng (getDefaultActivities sk) = JNum 0"
    by (simp_all add: firstCoordinate_def getDefaultActivities_def orElse_def)
  have "\<exists>m. generateMapUrl (JNum 0) (JNum 0) (city sk) = Inr m"
    using assms by (simp add: generateMapUrl_def)
  then obtain m where m: "generateMapUrl (JNum 0) (JNum 0) (city sk) = Inr m" by blast
  show ?thesis
    unfolding generateHTML_def by (simp add: hs fc m Let_def)
qed

section \<open>Properties of the parallel day orchestrator\<close>

lemma collect_all_ok: "\<forall>x \<in> set xs. g x = Inr (f x) \<Longrightarrow> collect (map g xs) = Inr (map f xs)"
  by (induction xs) auto

lemma collect_some_error: "\<exists>x \<in> set rs. \<exists>e. x = Inl e \<Longrightarrow> \<exists>e. collect rs = Inl e"
proof (induction rs)
  case Nil
  then show ?case by simp
next
  case (Cons r rs)
  show ?case
  proof (cases r)
    case (Inl e)
    then show ?thesis by simp
  next
    case (Inr v)
    then have "\<exists>x \<in> set rs. \<exists>e. x = Inl e" using Cons.prems by auto
    then obtain e where "collect rs = Inl e" using Cons.IH by blast
    then show ?thesis using Inr by simp
  qed
qed

lemma collect_cases: "(\<exists>e. collect rs = Inl e) \<or> (\<exists>vs. collect rs = Inr vs \<and> rs = map Inr vs)"
proof (induction rs)
  case Nil
  show ?case by simp
next
  case (Cons r rs)
  show ?case
  proof (cases r)
    case (Inl e)
    then show ?thesis by simp
  next
    case (Inr v)
    from Cons.IH show ?thesis
    proof
      assume "\<exists>e. collect rs = Inl e"
      then show ?thesis using Inr by auto
    next
      assume "\<exists>vs. collect rs = Inr vs \<and> rs = map Inr vs"
      then obtain vs where "collect rs = Inr vs" "rs = map Inr vs" by blast
      then have "collect (r # rs) = Inr (v # vs) \<and> r # rs = map Inr (v # vs)"
        using Inr by simp
      then have "\<exists>ws. collect (r # rs) = Inr ws \<and> r # rs = map Inr ws" by (rule exI)
      then show ?thesis by (rule disjI2)
    qed
  qed
qed

lemma slice_batch:
  assumes "0 \<le> i" and "0 < c"
  shows "slice xs i (i + c) = take (nat c) (drop (nat i) xs)"
proof -
  have "take (min (nat (i + c)) (length xs) - min (nat i) (length xs)) (drop (min (nat i) (length xs)) xs)
          = take (nat c) (drop (nat i) xs)"
  proof (cases "nat i \<le> length xs")
    case True
    then have a: "min (nat i) (length xs) = nat i" by simp
    have b: "nat (i + c) = nat i + nat c" using assms by (simp add: nat_add_distrib)
    show ?thesis
    proof (cases "nat i + nat c \<le> length xs")
      case True
      then show ?thesis using a b by simp
    next
      case False
      then have "min (nat (i + c)) (length xs) = length xs" using b by simp
      moreover have "length (drop (nat i) xs) \<le> nat c" using False by simp
      ultimately show ?thesis using a by simp
    qed
  next
    case False
    then show ?thesis by simp
  qed
  then show ?thesis using assms by (simp add: slice_def relativeIndex_def Let_def)
qed

lemma batchLoop_all_ok:
  assumes c: "0 < c" and ok: "\<forall>sk \<in> set ds. runDayAgent env trip sk = Inr (f sk)"
  shows "0 \<le> i \<Longrightarrow> batchLoop env trip ds c i acc = Some (Inr (acc @ map f (drop (nat i) ds)))"
proof (induction "length ds - nat i" arbitrary: i acc rule: less_induct)
  case less
  show ?case
  proof (cases "i < int (length ds)")
    case False
    then have "drop (nat i) ds = []" using less.prems by simp
    then show ?thesis using False by (subst batchLoop.simps) simp
  next
    case True
    define batch where "batch = take (nat c) (drop (nat i) ds)"
    have sl: "slice ds i (i + c) = batch" using slice_batch [OF less.prems c] by (simp add: batch_def)
    have "set batch \<subseteq> set ds"
      unfolding batch_def by (meson set_drop_subset set_take_subset subset_trans)
    then have "\<forall>sk \<in> set batch. runDayAgent env trip sk = Inr (f sk)" using ok by blast
    then have col: "collect (map (runDayAgent env trip) batch) = Inr (map f batch)"
      by (rule collect_all_ok)
    have smaller: "length ds - nat (i + c) < length ds - nat i"
      using True c less.prems by linarith
    have next_i: "0 \<le> i + c" using c less.prems by simp
    have rec: "batchLoop env trip ds c (i + c) (acc @ map f batch)
                 = Some (Inr ((acc @ map f batch) @ map f (drop (nat (i + c)) ds)))"
      using less.hyps [OF smaller next_i] .
    have "nat (i + c) = nat c + nat i" using c less.prems by (simp add: nat_add_distrib)
    then have "batch @ drop (nat (i + c)) ds = drop (nat i) ds"
      unfolding batch_def by (simp add: drop_drop [symmetric] del: drop_drop)
    then have "map f batch @ map f (drop (nat (i + c)) ds) = map f (drop (nat i) ds)"
      by (metis map_append)
    then show ?thesis
      using True sl col rec by (subst batchLoop.simps) simp
  qed
qed

lemma batchLoop_some_error:
  assumes c: "0 < c"
  shows "0 \<le> i \<Longrightarrow> \<exists>sk \<in> set (drop (nat i) ds). \<exists>e. runDayAgent env trip sk = Inl e \<Longrightarrow>
         \<exists>e. batchLoop env trip ds c i acc = Some (Inl e)"
proof (induction "length ds - nat i" arbitrary: i acc rule: less_induct)
  case less
  from less.prems(2) have "drop (nat i) ds \<noteq> []" by auto
  then have lt: "i < int (length ds)" using less.prems(1) by simp
  define batch where "batch = take (nat c) (drop (nat i) ds)"
  have sl: "slice ds i (i + c) = batch"
    using slice_batch [OF less.prems(1) c] by (simp add: batch_def)
  have split: "drop (nat i) ds = batch @ drop (nat (i + c)) ds"
  proof -
    have "nat (i + c) = nat c + nat i" using c less.prems(1) by (simp add: nat_add_distrib)
    then show ?thesis unfolding batch_def by (simp add: drop_drop [symmetric] del: drop_drop)
  qed
  from collect_cases [of "map (runDayAgent env trip) batch"] show ?case
  proof
    assume "\<exists>e. collect (map (runDayAgent env trip) batch) = Inl e"
    then obtain e where "collect (map (runDayAgent env trip) batch) = Inl e" by blast
    then have "batchLoop env trip ds c i acc = Some (Inl e)"
      using lt sl by (subst batchLoop.simps) simp
    then show ?thesis by blast
  next
    assume "\<exists>vs. collect (map (runDayAgent env trip) batch) = Inr vs
              \<and> map (runDayAgent env trip) batch = map Inr vs"
    then obtain vs where vs: "collect (map (runDayAgent env trip) batch) = Inr vs"
      "map (runDayAgent env trip) batch = map Inr vs" by blast
    have "\<forall>sk \<in> set batch. \<exists>v. runDayAgent env trip sk = Inr v"
    proof
      fix sk assume "sk \<in> set batch"
      then have "runDayAgent env trip sk \<in> set (map (runDayAgent env trip) batch)" by simp
      then show "\<exists>v. runDayAgent env trip sk = Inr v" unfolding vs(2) by auto
    qed
    then have "\<exists>sk \<in> set (drop (nat (i + c)) ds). \<exists>e. runDayAgent env trip sk = Inl e"
      using less.prems(2) split by (metis Un_iff set_append sum.distinct(1))
    moreover have "length ds - nat (i + c) < length ds - nat i" using lt c less.prems(1) by linarith
    moreover have "0 \<le> i + c" using c less.prems(1) by simp
    ultimately obtain e where "batchLoop env trip ds c (i + c) (acc @ vs) = Some (Inl e)"
      using less.hyps by blast
    then have "batchLoop env trip ds c i acc = Some (Inl e)"
      using lt sl vs(1) by (subst batchLoop.simps) simp
    then show ?thesis by blast
  qed
qed

lemma insort_key_map: "insort_key k (f x) (map f xs) = map f (insort_key (\<lambda>a. k (f a)) x xs)"
  by (induction xs) auto

lemma sort_key_map: "sort_key k (map f xs) = map f (sort_key (\<lambda>a. k (f a)) xs)"
  by (induction xs) (auto simp: insort_key_map)

lemma runDayAgent_result:
  "runDayAgent env trip sk = Inr r \<Longrightarrow> dayNumber r = day sk \<and> skeleton r = sk"
  by (auto simp: runDayAgent_def generate_def bindE_def Let_def split: sum.splits)

lemma tryParse_no_parser: "tryParseActivities (\<lambda>s. None) text = None"
  by (simp add: tryParseActivities_def split: option.splits)

lemma generate_unfold:
  "generate env trip sk =
     (case generateContent env (buildActivityPrompt trip sk) of
        Inl e \<Rightarrow> Inl e
      | Inr text \<Rightarrow>
          (case generateHTML trip sk
                  \<lparr> day = day sk, title = title sk, theme = theme sk, city = city sk,
                    activities = enrichWithPOI env sk (parseActivities (JSON_parse env) sk text) \<rparr>
                  (fetchDayImages env sk) of
             Inl e \<Rightarrow> Inl e
           | Inr markup \<Rightarrow>
               Inr \<lparr> dayNumber = day sk, skeleton = sk,
                     dayPlan = \<lparr> day = day sk, title = title sk, theme = theme sk, city = city sk,
                                 activities = enrichWithPOI env sk
                                                (parseActivities (JSON_parse env) sk text) \<rparr>,
                     html = markup, generatedAt = latency env (day sk) \<rparr>))"
  by (simp add: generate_def generateActivities_def Let_def bindE_def split: sum.splits)

lemma enrich_defaults_no_place:
  assumes "\<forall>a \<in> set acts. \<forall>poi. searchPlace env (loc_name (act_location a)) (JStr (city sk)) \<noteq> Inr (Some poi)"
  shows "enrichWithPOI env sk acts = acts"
proof -
  have "\<forall>a \<in> set acts. enrichActivity env sk a = a"
  proof
    fix a assume "a \<in> set acts"
    then have "\<forall>poi. searchPlace env (loc_name (act_location a)) (JStr (city sk)) \<noteq> Inr (Some poi)"
      using assms by blast
    then show "enrichActivity env sk a = a"
      by (auto simp: enrichActivity_def split: sum.splits option.splits)
  qed
  then show ?thesis by (simp add: enrichWithPOI_def map_idI)
qed

lemma generate_defaults_complete:
  assumes net: "generateContent env (buildActivityPrompt trip sk) = Inr text"
    and bad: "tryParseActivities (JSON_parse env) text = None"
    and uri: "encodeURIComponent (city sk) = Inr u"
    and miss: "\<forall>a \<in> set (getDefaultActivities sk). \<forall>poi.
                 searchPlace env (loc_name (act_location a)) (JStr (city sk)) \<noteq> Inr (Some poi)"
  shows "\<exists>r. generate env trip sk = Inr r \<and> activities (dayPlan r) = getDefaultActivities sk"
proof -
  have p: "parseActivities (JSON_parse env) sk text = getDefaultActivities sk"
    using bad by (rule parseActivities_fallback)
  have e: "enrichWithPOI env sk (getDefaultActivities sk) = getDefaultActivities sk"
    using miss by (rule enrich_defaults_no_place)
  obtain h where h: "generateHTML trip sk
              \<lparr> day = day sk, title = title sk, theme = theme sk, city = city sk,
                activities = getDefaultActivities sk \<rparr> (fetchDayImages env sk) = Inr h"
    using defaults_render [OF uri] by blast
  show ?thesis
    unfolding generate_unfold by (simp add: net p e h)
qed

lemma sampleEnv_fields [simp]:
  "apiKey sampleEnv = ascii ''key''" "JSON_parse sampleEnv = (\<lambda>s. None)"
  "generateContent sampleEnv = (\<lambda>p. Inr sampleAnswer)"
  "searchPlace sampleEnv = (\<lambda>placeName cityName. Inr None)"
  "fetchImages sampleEnv = (\<lambda>opts. Inr [])"
  by (simp_all add: sampleEnv_def)

lemma kyoto_uri: "encodeURIComponent (ascii ''Kyoto'') = Inr (ascii ''Kyoto'')"
  by (simp add: ascii_def uriUnreserved_def)

lemma sample_worker_ok:
  assumes "JSON_parse env = (\<lambda>s. None)" and "searchPlace env = (\<lambda>placeName cityName. Inr None)"
    and "apiKey env \<noteq> []" and "generateContent env (buildActivityPrompt trip (sampleDay n)) = Inr answer"
  shows "\<exists>r. runDayAgent env trip (sampleDay n) = Inr r
              \<and> activities (dayPlan r) = getDefaultActivities (sampleDay n)"
proof -
  have "\<exists>r. generate env trip (sampleDay n) = Inr r
             \<and> activities (dayPlan r) = getDefaultActivities (sampleDay n)"
  proof (rule generate_defaults_complete [OF assms(4)])
    show "tryParseActivities (JSON_parse env) answer = None"
      by (simp add: assms(1) tryParse_no_parser)
    show "encodeURIComponent (city (sampleDay n)) = Inr (ascii ''Kyoto'')"
      by (simp add: sampleDay_def kyoto_uri)
    show "\<forall>a \<in> set (getDefaultActivities (sampleDay n)). \<forall>poi.
            searchPlace env (loc_name (act_location a)) (JStr (city (sampleDay n))) \<noteq> Inr (Some poi)"
      by (simp add: assms(2))
  qed
  then show ?thesis using assms(3) by (simp add: runDayAgent_def getGlmClient_def)
qed

section \<open>Properties of the version ledger and of single-day regeneration\<close>

text \<open>
  Claim C9. Restoring a snapshot from the ledger leaves the ledger as it was: no snapshot is
  deleted or changed, and none is appended either. \<open>handleRestoreVersion\<close> replaces the
  current skeleton by the snapshot's and adds a chat message; the head of the ledger stays
  at \<open>n\<close>, so the snapshot \<open>n + 1\<close> that the claim describes does not exist.
\<close>

theorem handleRestoreVersion_ledger_unchanged:
  "versionHistory (handleRestoreVersion now rnd v st) = versionHistory st"
  by (simp add: handleRestoreVersion_def addChatMessage_def split: option.splits)

lemma regenerate_no_key:
  "apiKey env = [] \<Longrightarrow> regenerateDayPlan env sk i p = ([], Inl (Error apiKeyMissing))"
  by (simp add: regenerateDayPlan_def getGlmClient_def)

lemma find_none: "(\<forall>d \<in> set xs. \<not> P d) \<Longrightarrow> find P xs = None"
  by (induction xs) auto

lemma find_some: "\<exists>d \<in> set xs. P d \<Longrightarrow> \<exists>d. find P xs = Some d \<and> P d \<and> d \<in> set xs"
  by (induction xs) auto

lemma regenerate_day_not_found:
  "apiKey env \<noteq> [] \<Longrightarrow> \<forall>d \<in> set (days sk). day d \<noteq> i \<Longrightarrow>
     regenerateDayPlan env sk i p = ([], Inl (Error (ascii ''Day not found'')))"
  by (simp add: regenerateDayPlan_def getGlmClient_def find_none)

lemma regenerate_day_found:
  assumes "apiKey env \<noteq> []" and "find (\<lambda>d. day d = i) (days sk) = Some d"
  shows "\<exists>calls. fst (regenerateDayPlan env sk i p) =
           ImageCall \<lparr> keyword = visualKeyword d @ ascii '' '' @ p, count = 3,
                       img_orientation = Portrait \<rparr> # calls"
  using assms
  by (auto simp: regenerateDayPlan_def getGlmClient_def Let_def split: sum.splits prod.splits)

lemma insort_key_cong_on:
  "k x = k' x \<Longrightarrow> \<forall>y \<in> set xs. k y = k' y \<Longrightarrow> insort_key k x xs = insort_key k' x xs"
  by (induction xs) auto

lemma sort_key_cong_on:
  "\<forall>x \<in> set xs. k x = k' x \<Longrightarrow> sort_key k xs = sort_key k' xs"
proof (induction xs)
  case Nil
  show ?case by simp
next
  case (Cons x xs)
  then have ih: "sort_key k xs = sort_key k' xs" by simp
  have "insort_key k x (sort_key k' xs) = insort_key k' x (sort_key k' xs)"
    using Cons.prems by (intro insort_key_cong_on) auto
  then show ?case using ih by simp
qed

text \<open>
  Claim C6. For every positive concurrency and every list of day skeletons on which all
  workers succeed, \<open>generateDaysParallel\<close> returns; the list it returns has one result per
  input skeleton (the skeletons of the results are the input skeletons, stably sorted by
  day), is sorted in ascending order of \<open>dayNumber\<close>, and each result is the worker's
  result for its skeleton, with \<open>dayNumber\<close> equal to that skeleton's day. The order of the
  results does not depend on the order of the input list beyond ties.
\<close>

theorem generateDaysParallel_one_result_per_day_sorted:
  assumes "0 < concurrency"
    and "\<forall>sk \<in> set daySkeletons. \<exists>r. runDayAgent env trip sk = Inr r"
  shows "\<exists>results. generateDaysParallel env daySkeletons trip concurrency = Some (Inr results)
           \<and> length results = length daySkeletons
           \<and> map skeleton results = sort_key day daySkeletons
           \<and> sorted (map dayNumber results)
           \<and> (\<forall>r \<in> set results. dayNumber r = day (skeleton r)
                  \<and> runDayAgent env trip (skeleton r) = Inr r)"
proof -
  from bchoice [OF assms(2)]
  obtain f where f: "\<forall>sk \<in> set daySkeletons. runDayAgent env trip sk = Inr (f sk)"
    by blast
  define results where "results = sort_key dayNumber (map f daySkeletons)"
  have loop: "batchLoop env trip daySkeletons concurrency 0 [] = Some (Inr (map f daySkeletons))"
    using batchLoop_all_ok [OF assms(1) f, of 0 "[]"] by simp
  have ret: "generateDaysParallel env daySkeletons trip concurrency = Some (Inr results)"
    by (simp add: generateDaysParallel_def loop results_def)
  have fr: "\<forall>sk \<in> set daySkeletons. dayNumber (f sk) = day sk \<and> skeleton (f sk) = sk"
    using f runDayAgent_result by blast
  have "results = map f (sort_key (\<lambda>a. dayNumber (f a)) daySkeletons)"
    by (simp add: results_def sort_key_map)
  moreover have "sort_key (\<lambda>a. dayNumber (f a)) daySkeletons = sort_key day daySkeletons"
    using fr by (intro sort_key_cong_on) simp
  ultimately have res: "results = map f (sort_key day daySkeletons)" by simp
  have "map (\<lambda>s. skeleton (f s)) (sort_key day daySkeletons) = sort_key day daySkeletons"
    by (rule map_idI) (use fr in simp)
  then have sk: "map skeleton results = sort_key day daySkeletons"
    unfolding res by (simp add: comp_def)
  have len: "length results = length daySkeletons" by (simp add: results_def)
  have srt: "sorted (map dayNumber results)" by (simp add: results_def)
  have each: "\<forall>r \<in> set results. dayNumber r = day (skeleton r)
                 \<and> runDayAgent env trip (skeleton r) = Inr r"
  proof
    fix r assume "r \<in> set results"
    then obtain s where "s \<in> set daySkeletons" "r = f s" by (auto simp: results_def)
    then show "dayNumber r = day (skeleton r) \<and> runDayAgent env trip (skeleton r) = Inr r"
      using f fr by simp
  qed
  show ?thesis
    apply (rule exI [of _ results])
    using ret len sk srt each apply simp
    done
qed

lemma sample_days_ok:
  "\<forall>sk \<in> set [sampleDay 3, sampleDay 1, sampleDay 2]. \<exists>r. runDayAgent sampleEnv sampleTrip sk = Inr r"
proof -
  have "\<exists>r. runDayAgent sampleEnv sampleTrip (sampleDay n) = Inr r
             \<and> activities (dayPlan r) = getDefaultActivities (sampleDay n)" for n
    by (rule sample_worker_ok [where answer = sampleAnswer]) (simp_all add: ascii_def)
  then show ?thesis by auto
qed

text \<open>
  On the sample trip, given in the order 3, 1, 2, all workers succeed and the results come
  back in the order 1, 2, 3.
\<close>

theorem generateDaysParallel_one_result_per_day_sorted_witness:
  "0 < (3::int) \<and>
   (\<exists>results. generateDaysParallel sampleEnv [sampleDay 3, sampleDay 1, sampleDay 2] sampleTrip 3
                 = Some (Inr results)
      \<and> map skeleton results = [sampleDay 1, sampleDay 2, sampleDay 3])"
proof -
  have s: "sort_key day [sampleDay 3, sampleDay 1, sampleDay 2] = [sampleDay 1, sampleDay 2, sampleDay 3]"
    by (simp add: sampleDay_def)
  have c: "0 < (3::int)" by simp
  from generateDaysParallel_one_result_per_day_sorted [OF c sample_days_ok]
  obtain results where
    "generateDaysParallel sampleEnv [sampleDay 3, sampleDay 1, sampleDay 2] sampleTrip 3
       = Some (Inr results)"
    "map skeleton results = sort_key day [sampleDay 3, sampleDay 1, sampleDay 2]"
    by blast
  then have "generateDaysParallel sampleEnv [sampleDay 3, sampleDay 1, sampleDay 2] sampleTrip 3
               = Some (Inr results)
             \<and> map skeleton results = [sampleDay 1, sampleDay 2, sampleDay 3]"
    unfolding s by simp
  then have "\<exists>results. generateDaysParallel sampleEnv [sampleDay 3, sampleDay 1, sampleDay 2] sampleTrip 3
               = Some (Inr results)
             \<and> map skeleton results = [sampleDay 1, sampleDay 2, sampleDay 3]"
    by (rule exI)
  then show ?thesis using c by simp
qed

lemma failingDayEnv_fields [simp]:
  "apiKey (failingDayEnv n) = ascii ''key''" "JSON_parse (failingDayEnv n) = (\<lambda>s. None)"
  "searchPlace (failingDayEnv n) = (\<lambda>placeName cityName. Inr None)"
  "generateContent (failingDayEnv n) (ActivityPrompt d dest c th v)
     = (if d = n then Inl providerError else Inr sampleAnswer)"
  by (simp_all add: failingDayEnv_def sampleEnv_def)

lemma failing_worker:
  "runDayAgent (failingDayEnv n) trip (sampleDay n) = Inl providerError"
  by (simp add: runDayAgent_def getGlmClient_def generate_def generateActivities_def
        buildActivityPrompt_def sampleDay_def ascii_def)

lemma other_worker:
  "m \<noteq> n \<Longrightarrow> \<exists>r. runDayAgent (failingDayEnv n) trip (sampleDay m) = Inr r"
  using sample_worker_ok [of "failingDayEnv n" trip m sampleAnswer]
  by (auto simp: buildActivityPrompt_def sampleDay_def ascii_def)

text \<open>
  Claim C1 fails on the code. With three day skeletons and a language model that fails on
  day 2 only, the workers of days 1 and 3 succeed, the worker of day 2 rejects, and
  \<open>generateDaysParallel\<close> rejects with that error: it joins the batch with
  \<open>Promise.all\<close>, so no list of three results with a fallback for day 2 is returned.
\<close>

theorem generateDaysParallel_rejects_on_single_failure:
  "(\<exists>r. runDayAgent (failingDayEnv 2) sampleTrip (sampleDay 1) = Inr r)
   \<and> runDayAgent (failingDayEnv 2) sampleTrip (sampleDay 2) = Inl providerError
   \<and> (\<exists>r. runDayAgent (failingDayEnv 2) sampleTrip (sampleDay 3) = Inr r)
   \<and> generateDaysParallel (failingDayEnv 2) [sampleDay 1, sampleDay 2, sampleDay 3] sampleTrip 3
       = Some (Inl providerError)"
proof -
  obtain r1 where r1: "runDayAgent (failingDayEnv 2) sampleTrip (sampleDay 1) = Inr r1"
    using other_worker [of 1 2 sampleTrip] by auto
  obtain r3 where r3: "runDayAgent (failingDayEnv 2) sampleTrip (sampleDay 3) = Inr r3"
    using other_worker [of 3 2 sampleTrip] by auto
  have r2: "runDayAgent (failingDayEnv 2) sampleTrip (sampleDay 2) = Inl providerError"
    by (rule failing_worker)
  have sl: "slice [sampleDay 1, sampleDay 2, sampleDay 3] 0 3
              = [sampleDay 1, sampleDay 2, sampleDay 3]"
    by (simp add: slice_def relativeIndex_def)
  have "batchLoop (failingDayEnv 2) sampleTrip [sampleDay 1, sampleDay 2, sampleDay 3] 3 0 []
          = Some (Inl providerError)"
    by (subst batchLoop.simps) (simp add: sl r1 r2)
  then have "generateDaysParallel (failingDayEnv 2) [sampleDay 1, sampleDay 2, sampleDay 3] sampleTrip 3
               = Some (Inl providerError)"
    by (simp add: generateDaysParallel_def)
  then show ?thesis using r1 r2 r3 by simp
qed

text \<open>
  The same in general: whenever a worker rejects, the whole call rejects.
\<close>

lemma generateDaysParallel_rejects_when_a_worker_fails:
  assumes "0 < concurrency"
    and "\<exists>sk \<in> set daySkeletons. \<exists>e. runDayAgent env trip sk = Inl e"
  shows "\<exists>e. generateDaysParallel env daySkeletons trip concurrency = Some (Inl e)"
proof -
  obtain e where "batchLoop env trip daySkeletons concurrency 0 [] = Some (Inl e)"
    using batchLoop_some_error [OF assms(1), of 0 daySkeletons env trip "[]"] assms(2) by auto
  then show ?thesis by (simp add: generateDaysParallel_def)
qed




text \<open>
  Claim C10, as the code implements it. \<open>regenerateDayPlan\<close> first obtains the client, and
  without a configured key it rejects with the configuration error. With a key, when no
  day skeleton has the requested day it rejects with \<open>Day not found\<close>; in both cases no
  collaborator has been called. When a day skeleton has the requested day the lookup
  finds the first one, the error branch is not taken, and the first collaborator call, the
  image lookup for that skeleton's keyword, is issued.
\<close>

theorem regenerateDayPlan_day_lookup:
  "(apiKey env = [] \<longrightarrow> regenerateDayPlan env sk i p = ([], Inl (Error apiKeyMissing)))
   \<and> (apiKey env \<noteq> [] \<and> (\<forall>d \<in> set (days sk). day d \<noteq> i) \<longrightarrow>
        regenerateDayPlan env sk i p = ([], Inl (Error (ascii ''Day not found''))))
   \<and> (apiKey env \<noteq> [] \<and> (\<exists>d \<in> set (days sk). day d = i) \<longrightarrow>
        (\<exists>d calls. find (\<lambda>d. day d = i) (days sk) = Some d \<and> day d = i \<and> d \<in> set (days sk)
           \<and> fst (regenerateDayPlan env sk i p) =
               ImageCall \<lparr> keyword = visualKeyword d @ ascii '' '' @ p, count = 3,
                           img_orientation = Portrait \<rparr> # calls))"
proof (intro conjI impI)
  assume "apiKey env = []"
  then show "regenerateDayPlan env sk i p = ([], Inl (Error apiKeyMissing))"
    by (rule regenerate_no_key)
next
  assume "apiKey env \<noteq> [] \<and> (\<forall>d \<in> set (days sk). day d \<noteq> i)"
  then show "regenerateDayPlan env sk i p = ([], Inl (Error (ascii ''Day not found'')))"
    using regenerate_day_not_found by blast
next
  assume a: "apiKey env \<noteq> [] \<and> (\<exists>d \<in> set (days sk). day d = i)"
  then obtain d where d: "find (\<lambda>d. day d = i) (days sk) = Some d" "day d = i" "d \<in> set (days sk)"
    using find_some [of "days sk" "\<lambda>d. day d = i"] by blast
  obtain calls where "fst (regenerateDayPlan env sk i p) =
           ImageCall \<lparr> keyword = visualKeyword d @ ascii '' '' @ p, count = 3,
                       img_orientation = Portrait \<rparr> # calls"
    using regenerate_day_found [of env i sk d p] a d(1) by blast
  then show "\<exists>d calls. find (\<lambda>d. day d = i) (days sk) = Some d \<and> day d = i \<and> d \<in> set (days sk)
           \<and> fst (regenerateDayPlan env sk i p) =
               ImageCall \<lparr> keyword = visualKeyword d @ ascii '' '' @ p, count = 3,
                           img_orientation = Portrait \<rparr> # calls"
    using d by blast
qed

text \<open>
  The three cases on the sample trip: no key; a key and day 7, which the trip does not
  have; a key and day 2.
\<close>

theorem regenerateDayPlan_day_lookup_witness:
  "regenerateDayPlan noKeyEnv sampleTrip 7 (ascii ''more tea'') = ([], Inl (Error apiKeyMissing))
   \<and> regenerateDayPlan sampleEnv sampleTrip 7 (ascii ''more tea'')
        = ([], Inl (Error (ascii ''Day not found'')))
   \<and> (\<exists>d calls. find (\<lambda>d. day d = 2) (days sampleTrip) = Some d \<and> day d = 2
         \<and> fst (regenerateDayPlan sampleEnv sampleTrip 2 (ascii ''more tea'')) =
             ImageCall \<lparr> keyword = visualKeyword d @ ascii '' '' @ ascii ''more tea'', count = 3,
                         img_orientation = Portrait \<rparr> # calls)"
proof -
  have k: "apiKey noKeyEnv = []" "apiKey sampleEnv \<noteq> []"
    by (simp_all add: noKeyEnv_def sampleEnv_def ascii_def)
  have n7: "\<forall>d \<in> set (days sampleTrip). day d \<noteq> 7"
    by (simp add: sampleTrip_def sampleDay_def)
  have y2: "\<exists>d \<in> set (days sampleTrip). day d = 2"
    by (simp add: sampleTrip_def sampleDay_def)
  have a: "regenerateDayPlan noKeyEnv sampleTrip 7 (ascii ''more tea'') = ([], Inl (Error apiKeyMissing))"
    using regenerateDayPlan_day_lookup [of noKeyEnv sampleTrip 7 "ascii ''more tea''"] k by blast
  have b: "regenerateDayPlan sampleEnv sampleTrip 7 (ascii ''more tea'')
             = ([], Inl (Error (ascii ''Day not found'')))"
    using regenerateDayPlan_day_lookup [of sampleEnv sampleTrip 7 "ascii ''more tea''"] k n7 by blast
  have c: "\<exists>d calls. find (\<lambda>d. day d = 2) (days sampleTrip) = Some d \<and> day d = 2
         \<and> fst (regenerateDayPlan sampleEnv sampleTrip 2 (ascii ''more tea'')) =
             ImageCall \<lparr> keyword = visualKeyword d @ ascii '' '' @ ascii ''more tea'', count = 3,
                         img_orientation = Portrait \<rparr> # calls"
    using regenerateDayPlan_day_lookup [of sampleEnv sampleTrip 2 "ascii ''more tea''"] k y2 by blast
  show ?thesis using a b c by simp
qed

text \<open>
  Claim C10 as it is worded fails without a configured key: the sample trip has no day 7,
  and the error is the configuration error, not \<open>Day not found\<close>.
\<close>

theorem regenerateDayPlan_without_key_not_day_not_found:
  "snd (regenerateDayPlan noKeyEnv sampleTrip 7 (ascii ''more tea''))
     \<noteq> Inl (Error (ascii ''Day not found''))"
proof -
  have "apiKey noKeyEnv = []" by (simp add: noKeyEnv_def sampleEnv_def)
  then have "regenerateDayPlan noKeyEnv sampleTrip 7 (ascii ''more tea'')
               = ([], Inl (Error apiKeyMissing))"
    by (rule regenerate_no_key)
  moreover have "apiKeyMissing \<noteq> ascii ''Day not found''"
    by (simp add: apiKeyMissing_def ascii_def)
  ultimately show ?thesis by simp
qed

section \<open>Properties of the itinerary skeleton generator\<close>

text \<open>
  A property read on an object spread: the property of the overlay when the overlay has it,
  and the property of the base otherwise.
\<close>

lemma map_of_filter_other:
  "k \<notin> fst ` set as \<Longrightarrow> map_of (filter (\<lambda>kv. fst kv \<notin> fst ` set as) bs) k = map_of bs k"
  by (induction bs) auto

lemma map_of_overlay:
  "map_of (map (\<lambda>kv. (fst kv, g (fst kv) (snd kv))) as) k = map_option (g k) (map_of as k)"
  by (induction as) auto

lemma getProp_objectSpread:
  "getProp (objectSpread (JObj kvs) b) k = (if hasProp b k then getProp b k else getProp (JObj kvs) k)"
proof -
  define g where "g = (\<lambda>n v. if hasProp b n then getProp b n else v)"
  have spread: "objectSpread (JObj kvs) b
                  = JObj (map (\<lambda>kv. (fst kv, g (fst kv) (snd kv))) kvs
                          @ filter (\<lambda>kv. fst kv \<notin> fst ` set kvs) (ownProps b))"
    by (simp add: objectSpread_def ownProps_def hasProp_def g_def)
  have m: "map_of (map (\<lambda>kv. (fst kv, g (fst kv) (snd kv))) kvs) k = map_option (g k) (map_of kvs k)"
    by (rule map_of_overlay)
  show ?thesis
  proof (cases "map_of kvs k")
    case (Some v)
    have "getProp (objectSpread (JObj kvs) b) k = g k v"
      unfolding spread by (simp add: map_add_def m Some)
    then show ?thesis using Some by (simp add: g_def)
  next
    case None
    then have "k \<notin> fst ` set kvs" by (simp add: map_of_eq_None_iff)
    then have f: "map_of (filter (\<lambda>kv. fst kv \<notin> fst ` set kvs) (ownProps b)) k
                    = map_of (ownProps b) k"
      by (rule map_of_filter_other)
    have "getProp b k = (case map_of (ownProps b) k of Some v \<Rightarrow> v | None \<Rightarrow> JUndefined)"
      if "hasProp b k"
      using that by (cases b) (simp_all add: ownProps_def hasProp_def)
    moreover have "map_of (ownProps b) k = None" if "\<not> hasProp b k"
      using that by (simp add: hasProp_def map_of_eq_None_iff)
    ultimately show ?thesis
      unfolding spread using None by (simp add: map_add_def m f)
  qed
qed

text \<open>
  Claim C3, as the code implements it. Whenever the answer of the language model parses,
  \<open>generateItineraryStructure\<close> returns the visual identity overlaid with the parsed
  object (\<open>{ ...visual, ...data }\<close>): the days of the skeleton are the days of the parsed
  answer as they are, neither truncated nor padded, and the duration is the one of the
  parsed answer when it has one and the one of the visual identity otherwise. Nothing
  compares the number of days with the duration.
\<close>

theorem generateItineraryStructure_days_as_returned:
  "itineraryData env request links (JObj visual) = Inr parsed \<longrightarrow>
     generateItineraryStructure env request links (JObj visual)
       = Inr (objectSpread (JObj visual) parsed)
     \<and> getProp (objectSpread (JObj visual) parsed) (ascii ''days'') =
         (if hasProp parsed (ascii ''days'') then getProp parsed (ascii ''days'')
          else getProp (JObj visual) (ascii ''days''))
     \<and> getProp (objectSpread (JObj visual) parsed) (ascii ''duration'') =
         (if hasProp parsed (ascii ''duration'') then getProp parsed (ascii ''duration'')
          else getProp (JObj visual) (ascii ''duration''))"
  by (simp add: generateItineraryStructure_def bindE_def getProp_objectSpread)

lemma miscount_parse:
  "parseAIJsonResponse (JSON_parse miscountEnv) miscountAnswer = Inr miscountJson"
proof -
  have c: "cleanFences miscountAnswer = miscountAnswer"
    by (simp add: cleanFences_def miscountAnswer_def ascii_def trim_def isWhiteSpace_def
          endsWith_def Let_def)
  have i: "indexOf miscountAnswer 0x7B = 0"
    by (simp add: indexOf_def miscountAnswer_def ascii_def)
  have l: "lastIndexOf miscountAnswer 0x7D = 144"
    by (simp add: lastIndexOf_def miscountAnswer_def ascii_def)
  have s: "substring miscountAnswer 0 (144 + 1) = miscountAnswer"
    by (simp add: substring_def Let_def miscountAnswer_def ascii_def)
  have j: "JSON_parse miscountEnv = (\<lambda>s. if s = miscountAnswer then Some miscountJson else None)"
    by (simp add: miscountEnv_def sampleEnv_def)
  show ?thesis
    unfolding parseAIJsonResponse_def Let_def c i l s j by simp
qed

lemma miscount_data:
  "itineraryData miscountEnv (ascii ''Kyoto, 3 days'') [] sampleVisual = Inr miscountJson"
proof -
  have g: "generateContent miscountEnv = (\<lambda>p. Inr miscountAnswer)"
    by (simp add: miscountEnv_def sampleEnv_def)
  have d: "toStr (getProp sampleVisual (ascii ''destination'')) = Inr (ascii ''Kyoto'')"
          "toStr (getProp sampleVisual (ascii ''duration'')) = Inr (showInt 3)"
    by (simp_all add: sampleVisual_def ascii_def)
  show ?thesis
    unfolding itineraryData_def d by (simp add: bindE_def g miscount_parse)
qed

lemma sampleVisual_object: "sampleVisual = JObj (ownProps sampleVisual)"
  by (simp add: sampleVisual_def ownProps_def)

lemma miscount_props:
  "hasProp miscountJson (ascii ''days'')" "\<not> hasProp miscountJson (ascii ''duration'')"
  by (simp_all add: hasProp_def ownProps_def miscountJson_def ascii_def)

text \<open>
  On the sample visual identity, of three days, and an answer that holds one day, the
  answer parses, the days of the skeleton are the one day of the answer, and the duration
  is the one of the visual identity.
\<close>

theorem generateItineraryStructure_days_as_returned_witness:
  "itineraryData miscountEnv (ascii ''Kyoto, 3 days'') [] sampleVisual = Inr miscountJson
   \<and> generateItineraryStructure miscountEnv (ascii ''Kyoto, 3 days'') [] sampleVisual
       = Inr (objectSpread sampleVisual miscountJson)
   \<and> getProp (objectSpread sampleVisual miscountJson) (ascii ''days'')
       = getProp miscountJson (ascii ''days'')
   \<and> getProp (objectSpread sampleVisual miscountJson) (ascii ''duration'')
       = getProp sampleVisual (ascii ''duration'')"
proof -
  have d: "itineraryData miscountEnv (ascii ''Kyoto, 3 days'') [] (JObj (ownProps sampleVisual))
             = Inr miscountJson"
    using miscount_data sampleVisual_object by simp
  from generateItineraryStructure_days_as_returned
         [of miscountEnv "ascii ''Kyoto, 3 days''" "[]" "ownProps sampleVisual" miscountJson] d
  have "generateItineraryStructure miscountEnv (ascii ''Kyoto, 3 days'') []
            (JObj (ownProps sampleVisual))
          = Inr (objectSpread (JObj (ownProps sampleVisual)) miscountJson)
        \<and> getProp (objectSpread (JObj (ownProps sampleVisual)) miscountJson) (ascii ''days'')
            = getProp miscountJson (ascii ''days'')
        \<and> getProp (objectSpread (JObj (ownProps sampleVisual)) miscountJson) (ascii ''duration'')
            = getProp (JObj (ownProps sampleVisual)) (ascii ''duration'')"
    by (simp only: miscount_props if_True if_False)
  then show ?thesis
    using miscount_data sampleVisual_object by simp
qed

text \<open>
  Claim C3 as it is worded fails: the visual identity says three days, the answer holds the
  single day 1, and the skeleton that is returned has the duration 3 and the day fields
  \<open>[1]\<close>, so the number of days differs from the duration and the days 2 and 3 are
  missing.
\<close>

theorem generateItineraryStructure_keeps_miscount:
  "generateItineraryStructure miscountEnv (ascii ''Kyoto, 3 days'') [] sampleVisual
     = Inr (objectSpread sampleVisual miscountJson)
   \<and> getProp (objectSpread sampleVisual miscountJson) (ascii ''duration'') = JNum 3
   \<and> dayFields (objectSpread sampleVisual miscountJson) = [JNum 1]
   \<and> \<not> daysMatchDuration (objectSpread sampleVisual miscountJson)"
proof -
  have a: "generateItineraryStructure miscountEnv (ascii ''Kyoto, 3 days'') [] sampleVisual
             = Inr (objectSpread sampleVisual miscountJson)"
    by (simp add: generateItineraryStructure_def miscount_data bindE_def)
  note sv = sampleVisual_object
  note hd = miscount_props
  have vd: "getProp sampleVisual (ascii ''duration'') = JNum 3"
    by (simp add: sampleVisual_def ascii_def)
  have "getProp (objectSpread (JObj (ownProps sampleVisual)) miscountJson) (ascii ''duration'')
          = getProp (JObj (ownProps sampleVisual)) (ascii ''duration'')"
    by (simp only: getProp_objectSpread hd if_False)
  then have du: "getProp (objectSpread sampleVisual miscountJson) (ascii ''duration'') = JNum 3"
    using sv vd by simp
  have "getProp (objectSpread (JObj (ownProps sampleVisual)) miscountJson) (ascii ''days'')
          = getProp miscountJson (ascii ''days'')"
    by (simp only: getProp_objectSpread hd if_True)
  then have dy: "getProp (objectSpread sampleVisual miscountJson) (ascii ''days'')
              = getProp miscountJson (ascii ''days'')"
    using sv by simp
  have df: "dayFields (objectSpread sampleVisual miscountJson) = [JNum 1]"
    unfolding dayFields_def dy by (simp add: miscountJson_def ascii_def nullish_def)
  have "\<not> daysMatchDuration (objectSpread sampleVisual miscountJson)"
    unfolding daysMatchDuration_def df du dy
    by (simp add: miscountJson_def ascii_def upto.simps)
  then show ?thesis using a du df by simp
qed

section \<open>Properties of the streaming pipeline\<close>

text \<open>
  Sequencing of generator parts, and the chunks of the intent stage: progress markers and
  log lines only.
\<close>

lemma andThen_stop [simp]: "andThen (cs, Inl stop) f = (cs, Inl stop)"
  by (simp add: andThen_def)

lemma andThen_value: "andThen (cs, Inr v) f = (cs @ fst (f v), snd (f v))"
  by (simp add: andThen_def split: prod.splits)

lemma andThen_yield: "andThen (yield c) f = (c # fst (f ()), snd (f ()))"
  by (simp add: andThen_def yield_def split: prod.splits)

lemma andThen_quiet:
  assumes "filter carriesContent (fst m) = []"
    and "\<And>v. filter carriesContent (fst (f v)) = []"
  shows "filter carriesContent (fst (andThen m f)) = []"
proof (cases m)
  case (Pair cs r)
  show ?thesis
  proof (cases r)
    case (Inl stop)
    then show ?thesis using Pair assms(1) by simp
  next
    case (Inr v)
    then show ?thesis using Pair assms by (simp add: andThen_value)
  qed
qed

lemma yield_quiet: "\<not> carriesContent c \<Longrightarrow> filter carriesContent (fst (yield c)) = []"
  by (simp add: yield_def)

lemma await_quiet: "filter carriesContent (fst (await m)) = []"
  by (simp add: await_def)

lemma if_quiet:
  "filter carriesContent (fst x) = [] \<Longrightarrow> filter carriesContent (fst y) = [] \<Longrightarrow>
   filter carriesContent (fst (if b then x else y)) = []"
  by simp

lemma pure_quiet: "filter carriesContent (fst ([], r)) = []"
  by simp

lemma intentStage_quiet:
  "filter carriesContent (fst (intentStage env request mediaItems)) = []"
  unfolding intentStage_def Let_def
  by (intro andThen_quiet if_quiet yield_quiet await_quiet pure_quiet)
     (simp_all add: carriesContent_def)

lemma visualStage_parse_failure:
  assumes "generateContent env (VisualIdentityPrompt enhancedPrompt) = Inr answer"
    and "parseAIJsonResponse (JSON_parse env) answer = Inl e"
  shows "visualStage env enhancedPrompt =
           ([Progress PHASE_HEADER (Percent 10) None, Log LogVisualStart], Inl (Throw e))"
  using assms
  by (simp add: visualStage_def andThen_yield generateVisualIdentity_def await_def)

text \<open>
  Claim C4. When a key is configured, the intent stage has completed with the chunks \<open>cs\<close>
  and the enhanced prompt, and the answer to the visual identity prompt cannot be parsed,
  \<open>generateTravelPlanStream\<close> yields the chunks of the intent stage, the progress marker
  and the log line of the visual stage and the log line of the error, and then throws the
  error of the parser to its caller. No visual identity is substituted, and no chunk of the
  run carries content: no markup, no skeleton payload and no day fragment.
\<close>

theorem generateTravelPlanStream_aborts_on_unparsable_visual_identity:
  assumes "apiKey env \<noteq> []"
    and "intentStage env (details_prompt details) mediaItems = (cs, Inr enhancedPrompt)"
    and "generateContent env (VisualIdentityPrompt enhancedPrompt) = Inr answer"
    and "parseAIJsonResponse (JSON_parse env) answer = Inl e"
  shows "generateTravelPlanStream env details mediaItems
           = (cs @ [Progress PHASE_HEADER (Percent 10) None, Log LogVisualStart, Log (LogError e)],
              Threw e)
         \<and> filter carriesContent (fst (generateTravelPlanStream env details mediaItems)) = []"
proof -
  have v: "visualStage env enhancedPrompt =
             ([Progress PHASE_HEADER (Percent 10) None, Log LogVisualStart], Inl (Throw e))"
    using assms(3,4) by (rule visualStage_parse_failure)
  have body: "pipelineBody env details mediaItems =
                (cs @ [Progress PHASE_HEADER (Percent 10) None, Log LogVisualStart], Inl (Throw e))"
    by (simp add: pipelineBody_def assms(2) andThen_value v)
  have run: "generateTravelPlanStream env details mediaItems
               = (cs @ [Progress PHASE_HEADER (Percent 10) None, Log LogVisualStart,
                        Log (LogError e)], Threw e)"
    using assms(1) by (simp add: generateTravelPlanStream_def getGlmClient_def body)
  have "filter carriesContent cs = []"
    using intentStage_quiet [of env "details_prompt details" mediaItems] assms(2) by simp
  then show ?thesis by (simp add: run carriesContent_def)
qed

lemma no_parser_fallback:
  "parseAnalysisResponse (\<lambda>s. None) response scene = getFallbackAnalysis scene"
  by (simp add: parseAnalysisResponse_def tryParseAnalysis_def split: option.splits)

lemma sample_intent:
  "intentStage sampleEnv (details_prompt sampleDetails) []
     = ([Progress PHASE_SKELETON (Percent 5) None, Log LogIntentStart,
         Log (LogScene (sceneName (quickPredict (toLowerCase sampleEnv) (details_prompt sampleDetails)))
                Default60),
         Log (LogSummary (getDefaultSummary
                (quickPredict (toLowerCase sampleEnv) (details_prompt sampleDetails))))],
        Inr (details_prompt sampleDetails))"
proof -
  have a: "analyzeScene sampleEnv request []
             = getFallbackAnalysis (quickPredict (toLowerCase sampleEnv) request)" for request
    by (simp add: analyzeScene_def Let_def no_parser_fallback)
  have m: "analyzeUserMedia sampleEnv (uploadedFilesOf []) = ([], [])"
    by (simp add: analyzeUserMedia_def uploadedFilesOf_def)
  show ?thesis
    unfolding intentStage_def Let_def a m
    by (simp add: andThen_yield andThen_value getFallbackAnalysis_def await_def
          confidenceChecked_def)
qed

lemma sampleAnswer_no_object:
  "parseAIJsonResponse json_parse sampleAnswer
     = Inl (Error (ascii ''No valid JSON object found in response''))"
proof -
  have c: "cleanFences sampleAnswer = sampleAnswer"
    by (simp add: cleanFences_def sampleAnswer_def ascii_def trim_def isWhiteSpace_def
          endsWith_def Let_def)
  have i: "indexOf sampleAnswer 0x7B = -1"
    by (simp add: indexOf_def sampleAnswer_def ascii_def)
  show ?thesis
    unfolding parseAIJsonResponse_def Let_def c i by simp
qed

text \<open>
  On the sample collaborators the hypotheses hold: the intent stage completes with its
  four chunks, the answer holds no JSON object, and the run throws the error of the parser.
\<close>

theorem generateTravelPlanStream_aborts_on_unparsable_visual_identity_witness:
  "apiKey sampleEnv \<noteq> []
   \<and> generateContent sampleEnv (VisualIdentityPrompt (details_prompt sampleDetails)) = Inr sampleAnswer
   \<and> parseAIJsonResponse (JSON_parse sampleEnv) sampleAnswer
       = Inl (Error (ascii ''No valid JSON object found in response''))
   \<and> generateTravelPlanStream sampleEnv sampleDetails []
       = ([Progress PHASE_SKELETON (Percent 5) None, Log LogIntentStart,
           Log (LogScene (sceneName (quickPredict (toLowerCase sampleEnv) (details_prompt sampleDetails)))
                  Default60),
           Log (LogSummary (getDefaultSummary
                  (quickPredict (toLowerCase sampleEnv) (details_prompt sampleDetails)))),
           Progress PHASE_HEADER (Percent 10) None, Log LogVisualStart,
           Log (LogError (Error (ascii ''No valid JSON object found in response'')))],
          Threw (Error (ascii ''No valid JSON object found in response'')))
   \<and> filter carriesContent (fst (generateTravelPlanStream sampleEnv sampleDetails [])) = []"
proof -
  have k: "apiKey sampleEnv \<noteq> []" by (simp add: ascii_def)
  have g: "generateContent sampleEnv (VisualIdentityPrompt (details_prompt sampleDetails))
             = Inr sampleAnswer"
    by simp
  have p: "parseAIJsonResponse (JSON_parse sampleEnv) sampleAnswer
             = Inl (Error (ascii ''No valid JSON object found in response''))"
    by (rule sampleAnswer_no_object)
  note t = generateTravelPlanStream_aborts_on_unparsable_visual_identity [OF k sample_intent g p]
  have r: "generateTravelPlanStream sampleEnv sampleDetails []
       = ([Progress PHASE_SKELETON (Percent 5) None, Log LogIntentStart,
           Log (LogScene (sceneName (quickPredict (toLowerCase sampleEnv) (details_prompt sampleDetails)))
                  Default60),
           Log (LogSummary (getDefaultSummary
                  (quickPredict (toLowerCase sampleEnv) (details_prompt sampleDetails)))),
           Progress PHASE_HEADER (Percent 10) None, Log LogVisualStart,
           Log (LogError (Error (ascii ''No valid JSON object found in response'')))],
          Threw (Error (ascii ''No valid JSON object found in response'')))"
    using conjunct1 [OF t] by simp
  have q: "filter carriesContent (fst (generateTravelPlanStream sampleEnv sampleDetails [])) = []"
    by (rule conjunct2 [OF t])
  show ?thesis by (intro conjI) (rule k g p r q)+
qed

section \<open>Properties of single-day editing\<close>

text \<open>
  A match of the case-insensitive search splits the text into the part before the match,
  the matched part, which agrees with the pattern up to case, and the rest; conversely
  every such occurrence is found. A pattern that contains \<open>id=\<close> is therefore not found
  in a text that is free of it.
\<close>

lemma matchPrefix_Some:
  "matchPrefix pat s = Some (m, r) \<Longrightarrow> s = m @ r \<and> list_all2 sameIgnoringCase pat m"
  by (induction pat s arbitrary: m r rule: matchPrefix.induct)
     (auto split: if_splits option.splits)

lemma matchPrefix_complete:
  "list_all2 sameIgnoringCase pat m \<Longrightarrow> matchPrefix pat (m @ r) = Some (m, r)"
  by (induction pat m rule: list_all2_induct) auto

lemma findFirst_Some:
  "findFirst pat s = Some (b, m, r) \<Longrightarrow> s = b @ m @ r \<and> list_all2 sameIgnoringCase pat m"
proof (induction s arbitrary: b m r)
  case Nil
  then show ?case by (auto split: option.splits dest: matchPrefix_Some)
next
  case (Cons c cs)
  show ?case
  proof (cases "matchPrefix pat (c # cs)")
    case None
    with Cons.prems obtain b' where "findFirst pat cs = Some (b', m, r)" "b = c # b'"
      by (auto split: option.splits)
    with Cons.IH show ?thesis by auto
  next
    case (Some a)
    with Cons.prems have "matchPrefix pat (c # cs) = Some (m, r)" "b = []"
      by (auto split: option.splits)
    then show ?thesis using matchPrefix_Some by fastforce
  qed
qed

lemma findFirst_occurs:
  "list_all2 sameIgnoringCase pat m \<Longrightarrow> findFirst pat (b @ m @ r) \<noteq> None"
proof (induction b)
  case Nil
  then have "matchPrefix pat (m @ r) = Some (m, r)" by (rule matchPrefix_complete)
  then show ?case by (cases "m @ r") auto
next
  case (Cons c b)
  then show ?case by (auto split: option.splits)
qed

lemma findFirst_inner:
  assumes "findFirst inner s = None"
  shows "findFirst (x @ inner @ y) s = None"
proof (rule ccontr)
  assume "findFirst (x @ inner @ y) s \<noteq> None"
  then obtain b m r where "findFirst (x @ inner @ y) s = Some (b, m, r)" by auto
  then have s: "s = b @ m @ r" and m: "list_all2 sameIgnoringCase (x @ inner @ y) m"
    using findFirst_Some by blast+
  from m obtain mx m' where 1: "m = mx @ m'" "list_all2 sameIgnoringCase (inner @ y) m'"
    by (auto simp: list_all2_append1)
  then obtain mi my where 2: "m' = mi @ my" "list_all2 sameIgnoringCase inner mi"
    by (auto simp: list_all2_append1)
  have "s = (b @ mx) @ mi @ (my @ r)" using s 1 2 by simp
  then have "findFirst inner s \<noteq> None" using findFirst_occurs [OF 2(2)] by metis
  with assms show False by simp
qed

lemma same_equals [simp]: "sameIgnoringCase 61 z \<longleftrightarrow> z = 61"
  by (auto simp: sameIgnoringCase_def asciiUpper_def)

lemma id_occurrence:
  assumes "findFirst (ascii ''id='') s \<noteq> None"
  shows "\<exists>b x y r. s = b @ x # y # 61 # r"
proof -
  from assms obtain b m r where "findFirst (ascii ''id='') s = Some (b, m, r)" by auto
  then have s: "s = b @ m @ r" and m: "list_all2 sameIgnoringCase (ascii ''id='') m"
    using findFirst_Some by blast+
  from m obtain x y where "m = [x, y, 61]"
    by (auto simp: ascii_def list_all2_Cons1)
  with s show ?thesis by auto
qed

lemma id_found:
  assumes "sameIgnoringCase 105 x" "sameIgnoringCase 100 y"
  shows "findFirst (ascii ''id='') (b @ x # y # 61 # r) \<noteq> None"
proof -
  have "list_all2 sameIgnoringCase (ascii ''id='') [x, y, 61]"
    using assms by (simp add: ascii_def)
  from findFirst_occurs [OF this, of b r] show ?thesis by simp
qed

lemma idFree_no_equals:
  assumes "61 \<notin> set s"
  shows "idFree s"
proof -
  have "findFirst (ascii ''id='') s = None"
  proof (rule ccontr)
    assume "findFirst (ascii ''id='') s \<noteq> None"
    then obtain b x y r where "s = b @ x # y # 61 # r" using id_occurrence by blast
    with assms show False by simp
  qed
  moreover have "61 \<notin> set (take 2 s)" using assms by (auto dest: in_set_takeD)
  ultimately show ?thesis by (simp add: idFree_def)
qed

lemma idFree_append:
  assumes a: "idFree a" and b: "idFree b"
  shows "idFree (a @ b)"
proof -
  have "findFirst (ascii ''id='') (a @ b) = None"
  proof (rule ccontr)
    assume "findFirst (ascii ''id='') (a @ b) \<noteq> None"
    then obtain p m r where f: "findFirst (ascii ''id='') (a @ b) = Some (p, m, r)" by auto
    then have s: "a @ b = p @ m @ r" and m: "list_all2 sameIgnoringCase (ascii ''id='') m"
      using findFirst_Some by blast+
    from m obtain x y where xy: "m = [x, y, 61]" "sameIgnoringCase 105 x" "sameIgnoringCase 100 y"
      by (auto simp: ascii_def list_all2_Cons1)
    from s xy(1) have "a @ b = p @ x # y # 61 # r" by simp
    then consider us where "a = p @ us" "us @ b = x # y # 61 # r"
      | us where "a @ us = p" "b = us @ x # y # 61 # r"
      by (auto simp: append_eq_append_conv2)
    then show False
    proof cases
      case 1
      then consider "us = []" "b = x # y # 61 # r" | "us = [x]" "b = y # 61 # r"
        | "us = [x, y]" "b = 61 # r" | us' where "us = x # y # 61 # us'"
        by (auto simp: append_eq_Cons_conv)
      then show False
      proof cases
        case 1
        then show False using b id_found [OF xy(2,3), of "[]" r] by (simp add: idFree_def)
      next
        case 2
        then show False using b by (simp add: idFree_def)
      next
        case 3
        then show False using b by (simp add: idFree_def)
      next
        case 4
        with \<open>a = p @ us\<close> show False
          using a id_found [OF xy(2,3), of p us'] by (simp add: idFree_def)
      qed
    next
      case 2
      then show False using b id_found [OF xy(2,3), of us r] by (simp add: idFree_def)
    qed
  qed
  moreover have "61 \<notin> set (take 2 (a @ b))"
  proof -
    have "set (take (2 - length a) b) \<subseteq> set (take 2 b)"
      by (rule set_take_subset_set_take) simp
    then show ?thesis using a b by (auto simp: idFree_def)
  qed
  ultimately show ?thesis by (simp add: idFree_def)
qed

lemma idFree_Nil: "idFree []"
  by (simp add: idFree_no_equals)

lemma idFree_Cons: "c \<noteq> 61 \<Longrightarrow> idFree s \<Longrightarrow> idFree (c # s)"
  using idFree_append [of "[c]" s] by (simp add: idFree_no_equals)

lemma idFree_no_section:
  assumes "idFree document"
  shows "matchDaySection d document = None"
proof -
  have "daySectionOpening d = ascii ''<section '' @ ascii ''id='' @ (ascii [CHR 0x22] @ ascii ''day-'' @ showInt d @ ascii [CHR 0x22])"
    by (simp add: daySectionOpening_def ascii_def)
  then have "findFirst (daySectionOpening d) document = None"
    using assms findFirst_inner by (simp add: idFree_def)
  then show ?thesis by (simp add: matchDaySection_def)
qed

lemma showNat_no_equals: "61 \<notin> set (showNat n)"
proof (induction n rule: showNat.induct)
  case (1 n)
  show ?case
  proof (cases "n < 10")
    case True
    then show ?thesis by (subst showNat.simps) auto
  next
    case False
    then have "61 \<notin> set (showNat (n div 10))" using 1 by simp
    moreover have "48 + n mod 10 \<noteq> 61" by presburger
    ultimately show ?thesis using False by (subst showNat.simps) simp
  qed
qed

lemma idFree_showInt: "idFree (showInt n)"
  by (rule idFree_no_equals) (simp add: showInt_def showNat_no_equals)

lemma ascii_Cons_not_empty [simp]: "ascii (c # cs) \<noteq> []"
  by (simp add: ascii_def)

lemma sample_day_markup:
  "\<exists>m. generateHTML sampleTrip (sampleDay n)
          \<lparr> day = n, title = ascii ''Temples'', theme = ascii ''culture'', city = ascii ''Kyoto'',
            activities = getDefaultActivities (sampleDay n) \<rparr> [] = Inr m
       \<and> m \<noteq> [] \<and> idFree m"
  apply (simp add: generateHTML_def generateActivityHtml_def getDefaultActivities_def sampleDay_def
        sampleTrip_def generateMapUrl_def firstCoordinate_def orElse_def
        kyoto_uri Let_def)
  apply (intro conjI idFree_append idFree_Cons idFree_showInt idFree_Nil)
  apply (simp_all add: idFree_def ascii_def sameIgnoringCase_def asciiUpper_def)
  done

lemma plannerEnv_fields [simp]:
  "apiKey plannerEnv = ascii ''key''"
  "generateContent plannerEnv (ActivityPrompt n a b c d) = Inr sampleAnswer"
  "generateContent plannerEnv (RegeneratePrompt n a b) = Inr editAnswer"
  "generateContent plannerEnv (VisualIdentityPrompt r) = Inr visualAnswer"
  "generateContent plannerEnv (ItineraryStructurePrompt r dest dur links) = Inr itineraryAnswer"
  "generateContent plannerEnv (SceneAnalysisPrompt i m sc) = Inr sampleAnswer"
  "searchPlace plannerEnv = (\<lambda>placeName cityName. Inr None)"
  "fetchImages plannerEnv = (\<lambda>opts. Inr [])"
  by (simp_all add: plannerEnv_def sampleEnv_def)

lemma plannerEnv_parse:
  "JSON_parse plannerEnv = (\<lambda>s. if s = visualAnswer then Some sampleVisual
                                  else if s = itineraryAnswer then Some itineraryJson
                                  else if s = editAnswer then Some editJson
                                  else None)"
  by (simp add: plannerEnv_def sampleEnv_def)

lemma sampleAnswer_no_activities: "tryParseActivities json_parse sampleAnswer = None"
proof -
  have "matchJsonFence sampleAnswer = None"
    by (simp add: matchJsonFence_def sampleAnswer_def ascii_def)
  moreover have "matchBracketArray sampleAnswer = None"
    by (simp add: matchBracketArray_def sampleAnswer_def ascii_def)
  ultimately show ?thesis by (simp add: tryParseActivities_def extractJsonText_def)
qed

lemma edit_worker:
  "\<exists>r. runDayAgent plannerEnv sampleTrip (sampleDay n) = Inr r \<and> html r \<noteq> [] \<and> idFree (html r)"
proof -
  have p: "parseActivities (JSON_parse plannerEnv) (sampleDay n) sampleAnswer
             = getDefaultActivities (sampleDay n)"
    by (simp add: parseActivities_def sampleAnswer_no_activities)
  have e: "enrichWithPOI plannerEnv (sampleDay n) (getDefaultActivities (sampleDay n))
             = getDefaultActivities (sampleDay n)"
    by (rule enrich_defaults_no_place) simp
  have i: "fetchDayImages plannerEnv (sampleDay n) = []"
    by (simp add: fetchDayImages_def)
  have g: "generateContent plannerEnv (buildActivityPrompt sampleTrip (sampleDay n)) = Inr sampleAnswer"
    by (simp add: buildActivityPrompt_def)
  have s: "day (sampleDay n) = n" "title (sampleDay n) = ascii ''Temples''"
    "theme (sampleDay n) = ascii ''culture''" "city (sampleDay n) = ascii ''Kyoto''"
    by (simp_all add: sampleDay_def)
  from sample_day_markup [of n] obtain m where
    m: "generateHTML sampleTrip (sampleDay n)
          \<lparr> day = n, title = ascii ''Temples'', theme = ascii ''culture'', city = ascii ''Kyoto'',
            activities = getDefaultActivities (sampleDay n) \<rparr> [] = Inr m" "m \<noteq> []" "idFree m"
    by blast
  have "generate plannerEnv sampleTrip (sampleDay n)
          = Inr \<lparr> dayNumber = n, skeleton = sampleDay n,
                  dayPlan = \<lparr> day = n, title = ascii ''Temples'', theme = ascii ''culture'',
                              city = ascii ''Kyoto'',
                              activities = getDefaultActivities (sampleDay n) \<rparr>,
                  html = m, generatedAt = latency plannerEnv n \<rparr>"
    unfolding generate_unfold by (simp add: g p e i s m(1))
  then show ?thesis using m(2,3) by (simp add: runDayAgent_def getGlmClient_def)
qed

lemma answers_distinct:
  "editAnswer \<noteq> visualAnswer" "editAnswer \<noteq> itineraryAnswer"
  "itineraryAnswer \<noteq> visualAnswer"
  by (simp_all add: editAnswer_def visualAnswer_def itineraryAnswer_def ascii_def)

lemma editAnswer_parse: "parseAIJsonResponse (JSON_parse plannerEnv) editAnswer = Inr editJson"
proof -
  have c: "cleanFences editAnswer = editAnswer"
    by (simp add: cleanFences_def editAnswer_def ascii_def trim_def isWhiteSpace_def
          endsWith_def Let_def)
  have i: "indexOf editAnswer 0x7B = 0"
    by (simp add: indexOf_def editAnswer_def ascii_def)
  have l: "lastIndexOf editAnswer 0x7D = 75"
    by (simp add: lastIndexOf_def editAnswer_def ascii_def)
  have s: "substring editAnswer 0 (75 + 1) = editAnswer"
    by (simp add: substring_def Let_def editAnswer_def ascii_def)
  show ?thesis
    unfolding parseAIJsonResponse_def Let_def c i l s
    by (simp add: plannerEnv_parse answers_distinct)
qed

lemma editJson_props:
  "getProp editJson (ascii ''activities'') = JArr []"
  "getProp editJson (ascii ''day'') = JNum 2"
  "getProp editJson (ascii ''title'') = JStr (ascii ''Tea houses'')"
  "getProp editJson (ascii ''theme'') = JStr (ascii ''calm'')"
  "getProp editJson (ascii ''city'') = JStr (ascii ''Kyoto'')"
  "nullish editJson = False"
  by (simp_all add: editJson_def nullish_def ascii_def)

lemma editJson_enriched: "enrichDayData plannerEnv sampleTrip editJson = ([], Inr editJson)"
  unfolding enrichDayData_def editJson_props
  by (simp add: editJson_def ascii_def)

lemma editJson_link: "\<exists>l. renderMapLink editJson JUndefined = Inr l"
  unfolding renderMapLink_def editJson_props
  by (simp add: amapSearchLink_def ascii_def uriUnreserved_def)

lemma editJson_markup: "\<exists>h. renderDayToHtml editJson (ascii ''rose'') [] = Inr h"
proof -
  obtain l where l: "renderMapLink editJson JUndefined = Inr l" using editJson_link by blast
  show ?thesis
    unfolding renderDayToHtml_def propOf_def editJson_props
    by (simp add: firstElement_def nullish_def l slice_def relativeIndex_def)
qed

lemma edit_regenerated:
  "\<exists>h. snd (regenerateDayPlan plannerEnv sampleTrip 2 (ascii ''make day 2 more relaxed'')) = Inr h"
proof -
  obtain h where h: "renderDayToHtml editJson (ascii ''rose'') [] = Inr h"
    using editJson_markup by blast
  have f: "find (\<lambda>d. day d = 2) (days sampleTrip) = Some (sampleDay 2)"
    by (simp add: sampleTrip_def sampleDay_def)
  have p: "palette sampleTrip = ascii ''rose''" by (simp add: sampleTrip_def)
  show ?thesis
    unfolding regenerateDayPlan_def f
    by (simp add: getGlmClient_def Let_def editAnswer_parse editJson_enriched p h)
qed

lemma sampleAnswer_no_analysis: "tryParseAnalysis json_parse sampleAnswer scene = None"
proof -
  have "matchJsonFence sampleAnswer = None"
    by (simp add: matchJsonFence_def sampleAnswer_def ascii_def)
  moreover have "braceSlice sampleAnswer = None"
    by (simp add: braceSlice_def sampleAnswer_def ascii_def)
  ultimately show ?thesis by (simp add: tryParseAnalysis_def extractJsonObjectText_def)
qed

lemma planner_intent:
  "intentStage plannerEnv (details_prompt sampleDetails) []
     = ([Progress PHASE_SKELETON (Percent 5) None, Log LogIntentStart,
         Log (LogScene (sceneName (quickPredict (toLowerCase plannerEnv) (details_prompt sampleDetails)))
                Default60),
         Log (LogSummary (getDefaultSummary
                (quickPredict (toLowerCase plannerEnv) (details_prompt sampleDetails))))],
        Inr (details_prompt sampleDetails))"
proof -
  have a: "analyzeScene plannerEnv request []
             = getFallbackAnalysis (quickPredict (toLowerCase plannerEnv) request)" for request
    by (simp add: analyzeScene_def Let_def parseAnalysisResponse_def sampleAnswer_no_analysis)
  have m: "analyzeUserMedia plannerEnv (uploadedFilesOf []) = ([], [])"
    by (simp add: analyzeUserMedia_def uploadedFilesOf_def)
  show ?thesis
    unfolding intentStage_def Let_def a m
    by (simp add: andThen_yield andThen_value getFallbackAnalysis_def await_def
          confidenceChecked_def)
qed

lemma visualAnswer_parse:
  "parseAIJsonResponse (JSON_parse plannerEnv) visualAnswer = Inr sampleVisual"
proof -
  have c: "cleanFences visualAnswer = visualAnswer"
    by (simp add: cleanFences_def visualAnswer_def ascii_def trim_def isWhiteSpace_def
          endsWith_def Let_def)
  have i: "indexOf visualAnswer 0x7B = 0"
    by (simp add: indexOf_def visualAnswer_def ascii_def)
  have l: "lastIndexOf visualAnswer 0x7D = 211"
    by (simp add: lastIndexOf_def visualAnswer_def ascii_def)
  have s: "substring visualAnswer 0 (211 + 1) = visualAnswer"
    by (simp add: substring_def Let_def visualAnswer_def ascii_def)
  show ?thesis
    unfolding parseAIJsonResponse_def Let_def c i l s by (simp add: plannerEnv_parse)
qed

lemma itineraryAnswer_parse:
  "parseAIJsonResponse (JSON_parse plannerEnv) itineraryAnswer = Inr itineraryJson"
proof -
  have c: "cleanFences itineraryAnswer = itineraryAnswer"
    by (simp add: cleanFences_def itineraryAnswer_def ascii_def trim_def isWhiteSpace_def
          endsWith_def Let_def)
  have i: "indexOf itineraryAnswer 0x7B = 0"
    by (simp add: indexOf_def itineraryAnswer_def ascii_def)
  have l: "lastIndexOf itineraryAnswer 0x7D = 333"
    by (simp add: lastIndexOf_def itineraryAnswer_def ascii_def)
  have s: "substring itineraryAnswer 0 (333 + 1) = itineraryAnswer"
    by (simp add: substring_def Let_def itineraryAnswer_def ascii_def)
  show ?thesis
    unfolding parseAIJsonResponse_def Let_def c i l s
    by (simp add: plannerEnv_parse answers_distinct)
qed

lemma planner_visual:
  "visualStage plannerEnv request
     = ([Progress PHASE_HEADER (Percent 10) None, Log LogVisualStart], Inr sampleVisual)"
  by (simp add: visualStage_def andThen_yield generateVisualIdentity_def visualAnswer_parse
        await_def)

lemma heroVisual_props:
  "getProp heroVisual (ascii ''destination'') = JStr (ascii ''Kyoto'')"
  "getProp heroVisual (ascii ''duration'') = JNum 3"
  "getProp heroVisual (ascii ''vibe'') = JStr (ascii ''calm'')"
  "getProp heroVisual (ascii ''palette'') = JStr (ascii ''rose'')"
  "getProp heroVisual (ascii ''heroImage'') = JUndefined"
  "getProp heroVisual (ascii ''fontConfig'') = sampleFonts"
  by (simp_all add: heroVisual_def sampleVisual_def sampleFonts_def ownProps_def ascii_def)

lemma sampleFonts_props:
  "getProp sampleFonts (ascii ''headingFont'') = JStr (ascii ''Noto Serif SC'')"
  "getProp sampleFonts (ascii ''bodyFont'') = JStr (ascii ''Noto Sans SC'')"
  "getProp sampleFonts (ascii ''googleFontUrl'') = JStr (ascii ''https://fonts.googleapis.com/css2'')"
  "nullish sampleFonts = False"
  by (simp_all add: sampleFonts_def nullish_def ascii_def)

lemma header_markup: "\<exists>h. headerHtmlOf heroVisual = Inr h \<and> h \<noteq> [] \<and> idFree h"
  unfolding headerHtmlOf_def Let_def heroVisual_props propOf_def sampleFonts_props
  apply simp
  apply (intro conjI idFree_append idFree_Cons idFree_showInt idFree_Nil)
  apply (simp_all add: idFree_def ascii_def sameIgnoringCase_def asciiUpper_def)
  done

lemma footer_markup: "\<exists>f. footerHtmlOf heroVisual = Inr f \<and> idFree f"
  unfolding footerHtmlOf_def heroVisual_props
  apply simp
  apply (intro conjI idFree_append idFree_Cons idFree_showInt idFree_Nil)
  apply (simp_all add: idFree_def ascii_def sameIgnoringCase_def asciiUpper_def)
  done

lemma hero_set:
  "(case sampleVisual of
      JObj kvs \<Rightarrow> JObj (setProp kvs (ascii ''heroImage'')
                          (case [] of [] \<Rightarrow> JUndefined | img # imgs \<Rightarrow> JStr img))
    | _ \<Rightarrow> sampleVisual) = heroVisual"
  by (simp add: sampleVisual_def heroVisual_def ownProps_def ascii_def)

lemma sampleVisual_props:
  "getProp sampleVisual (ascii ''destination'') = JStr (ascii ''Kyoto'')"
  "getProp sampleVisual (ascii ''vibe'') = JStr (ascii ''calm'')"
  "getProp sampleVisual (ascii ''palette'') = JStr (ascii ''rose'')"
  by (simp_all add: sampleVisual_def ascii_def)

lemma planner_header:
  "\<exists>h. headerStage plannerEnv sampleVisual
          = ([Log (LogVisual (ascii ''calm'') (ascii ''rose'')), HtmlStart h], Inr heroVisual)
       \<and> h \<noteq> [] \<and> idFree h"
proof -
  obtain h where h: "headerHtmlOf heroVisual = Inr h" "h \<noteq> []" "idFree h"
    using header_markup by blast
  have "headerStage plannerEnv sampleVisual
          = ([Log (LogVisual (ascii ''calm'') (ascii ''rose'')), HtmlStart h], Inr heroVisual)"
    unfolding headerStage_def Let_def sampleVisual_props
    by (simp add: andThen_yield andThen_value await_def hero_set h(1))
  then show ?thesis using h(2,3) by blast
qed

lemma getProp_spread_hero:
  "getProp (objectSpread heroVisual b) k = (if hasProp b k then getProp b k else getProp heroVisual k)"
  unfolding heroVisual_def by (rule getProp_objectSpread)

lemma fst_overlay: "fst ` set (map (\<lambda>kv. (fst kv, g kv)) xs) = fst ` set xs"
  by (induction xs) auto

lemma fst_filter_other:
  "k \<in> fst ` set (filter (\<lambda>kv. \<not> P (fst kv)) ys) \<longleftrightarrow> k \<in> fst ` set ys \<and> \<not> P k"
  by (induction ys) auto

lemma hasProp_objectSpread:
  "hasProp (objectSpread a b) k \<longleftrightarrow> hasProp a k \<or> hasProp b k"
proof -
  have "hasProp (objectSpread a b) k \<longleftrightarrow>
          k \<in> fst ` set (map (\<lambda>kv. (fst kv, if hasProp b (fst kv) then getProp b (fst kv) else snd kv))
                            (ownProps a))
          \<or> k \<in> fst ` set (filter (\<lambda>kv. \<not> hasProp a (fst kv)) (ownProps b))"
  proof -
    have o: "ownProps (JObj xs) = xs" for xs by (simp add: ownProps_def)
    show ?thesis by (subst hasProp_def) (simp add: objectSpread_def o image_Un)
  qed
  also have "\<dots> \<longleftrightarrow> hasProp a k \<or> (hasProp b k \<and> \<not> hasProp a k)"
    unfolding fst_overlay fst_filter_other by (simp add: hasProp_def)
  finally show ?thesis by blast
qed

lemma itineraryJson_has:
  "hasProp itineraryJson (ascii ''summary'')" "hasProp itineraryJson (ascii ''highlights'')"
  "hasProp itineraryJson (ascii ''days'')"
  "\<not> hasProp itineraryJson (ascii ''destination'')" "\<not> hasProp itineraryJson (ascii ''duration'')"
  "\<not> hasProp itineraryJson (ascii ''vibe'')" "\<not> hasProp itineraryJson (ascii ''palette'')"
  by (simp_all add: hasProp_def ownProps_def itineraryJson_def ascii_def)

lemma heroVisual_has:
  "hasProp heroVisual (ascii ''destination'')" "hasProp heroVisual (ascii ''duration'')"
  "hasProp heroVisual (ascii ''vibe'')" "hasProp heroVisual (ascii ''palette'')"
  by (simp_all add: hasProp_def ownProps_def heroVisual_def sampleVisual_def ascii_def)

lemma itineraryJson_props:
  "getProp itineraryJson (ascii ''summary'') = JStr (ascii ''Three days in Kyoto'')"
  "getProp itineraryJson (ascii ''highlights'') = JArr []"
  "getProp itineraryJson (ascii ''days'') = JArr [itineraryDay 1, itineraryDay 2, itineraryDay 3]"
  by (simp_all add: itineraryJson_def ascii_def)

lemma skeleton_props:
  "getProp (objectSpread heroVisual itineraryJson) (ascii ''summary'')
     = JStr (ascii ''Three days in Kyoto'')"
  "getProp (objectSpread heroVisual itineraryJson) (ascii ''highlights'') = JArr []"
  "getProp (objectSpread heroVisual itineraryJson) (ascii ''days'')
     = JArr [itineraryDay 1, itineraryDay 2, itineraryDay 3]"
  by (simp_all only: getProp_spread_hero itineraryJson_has if_True itineraryJson_props)

lemma payload_props:
  "getProp (objectSpread heroVisual (objectSpread heroVisual itineraryJson)) (ascii ''summary'')
     = JStr (ascii ''Three days in Kyoto'')"
  "getProp (objectSpread heroVisual (objectSpread heroVisual itineraryJson)) (ascii ''days'')
     = JArr [itineraryDay 1, itineraryDay 2, itineraryDay 3]"
  "getProp (objectSpread heroVisual (objectSpread heroVisual itineraryJson)) (ascii ''destination'')
     = JStr (ascii ''Kyoto'')"
  "getProp (objectSpread heroVisual (objectSpread heroVisual itineraryJson)) (ascii ''duration'')
     = JNum 3"
  "getProp (objectSpread heroVisual (objectSpread heroVisual itineraryJson)) (ascii ''vibe'')
     = JStr (ascii ''calm'')"
  "getProp (objectSpread heroVisual (objectSpread heroVisual itineraryJson)) (ascii ''palette'')
     = JStr (ascii ''rose'')"
  by (simp_all only: getProp_spread_hero hasProp_objectSpread itineraryJson_has heroVisual_has
        simp_thms if_True if_False itineraryJson_props heroVisual_props)

lemma decode_itineraryDay: "decodeDay (itineraryDay n) = Some (sampleDay n)"
  by (simp add: decodeDay_def itineraryDay_def sampleDay_def asString_def asNumber_def ascii_def)

lemma decode_days:
  "decodeDays (JArr [itineraryDay 1, itineraryDay 2, itineraryDay 3]) = Some (days sampleTrip)"
  by (simp add: decodeDays_def decode_itineraryDay sampleTrip_def)

lemma decode_payload:
  "decodeTrip (objectSpread heroVisual (objectSpread heroVisual itineraryJson)) = Some sampleTrip"
  unfolding decodeTrip_def payload_props decode_days
  by (simp add: asString_def asNumber_def sampleTrip_def)

lemma overview_markup:
  "\<exists>ov. overviewHtmlOf heroVisual (objectSpread heroVisual itineraryJson) = Inr ov \<and> idFree ov"
  unfolding overviewHtmlOf_def heroVisual_props skeleton_props
  apply (simp add: orElse_def)
  apply (intro conjI idFree_append idFree_Cons idFree_showInt idFree_Nil)
  apply (simp_all add: idFree_def ascii_def sameIgnoringCase_def asciiUpper_def)
  done

lemma planner_itinerary:
  "generateItineraryStructure plannerEnv request [] heroVisual
     = Inr (objectSpread heroVisual itineraryJson)"
  unfolding generateItineraryStructure_def itineraryData_def heroVisual_props
  by (simp add: itineraryAnswer_parse)

lemma planner_skeleton:
  "\<exists>ov. skeletonStage plannerEnv request [] heroVisual
          = ([Progress PHASE_OVERVIEW (Percent 20) None, Log LogStructureStart,
              SkeletonPayload (objectSpread heroVisual (objectSpread heroVisual itineraryJson)),
              Html ov],
             Inr (objectSpread heroVisual itineraryJson,
                  objectSpread heroVisual (objectSpread heroVisual itineraryJson)))
       \<and> idFree ov"
proof -
  obtain ov where ov: "overviewHtmlOf heroVisual (objectSpread heroVisual itineraryJson) = Inr ov"
    "idFree ov"
    using overview_markup by blast
  have "skeletonStage plannerEnv request [] heroVisual
          = ([Progress PHASE_OVERVIEW (Percent 20) None, Log LogStructureStart,
              SkeletonPayload (objectSpread heroVisual (objectSpread heroVisual itineraryJson)),
              Html ov],
             Inr (objectSpread heroVisual itineraryJson,
                  objectSpread heroVisual (objectSpread heroVisual itineraryJson)))"
    unfolding skeletonStage_def Let_def planner_itinerary
    by (simp add: andThen_yield andThen_value await_def ov(1))
  then show ?thesis using ov(2) by blast
qed

lemma planner_days_generated:
  "\<exists>r1 r2 r3.
     generateDaysParallel plannerEnv (days sampleTrip) sampleTrip 3 = Some (Inr [r1, r2, r3])
     \<and> dayNumber r1 = 1 \<and> dayNumber r2 = 2 \<and> dayNumber r3 = 3
     \<and> idFree (html r1) \<and> idFree (html r2) \<and> idFree (html r3)"
proof -
  obtain r1 where r1: "runDayAgent plannerEnv sampleTrip (sampleDay 1) = Inr r1" "idFree (html r1)"
    using edit_worker [of 1] by blast
  obtain r2 where r2: "runDayAgent plannerEnv sampleTrip (sampleDay 2) = Inr r2" "idFree (html r2)"
    using edit_worker [of 2] by blast
  obtain r3 where r3: "runDayAgent plannerEnv sampleTrip (sampleDay 3) = Inr r3" "idFree (html r3)"
    using edit_worker [of 3] by blast
  have ds: "days sampleTrip = [sampleDay 1, sampleDay 2, sampleDay 3]"
    by (simp add: sampleTrip_def)
  define f where "f = (\<lambda>sk. if sk = sampleDay 1 then r1 else if sk = sampleDay 2 then r2 else r3)"
  have fv: "f (sampleDay 1) = r1" "f (sampleDay 2) = r2" "f (sampleDay 3) = r3"
    by (simp_all add: f_def sampleDay_def)
  have ok: "\<forall>sk \<in> set (days sampleTrip). runDayAgent plannerEnv sampleTrip sk = Inr (f sk)"
    unfolding ds using r1(1) r2(1) r3(1) fv by simp
  have n: "dayNumber r1 = 1" "dayNumber r2 = 2" "dayNumber r3 = 3"
    using runDayAgent_result [OF r1(1)] runDayAgent_result [OF r2(1)] runDayAgent_result [OF r3(1)]
    by (simp_all add: sampleDay_def)
  have "batchLoop plannerEnv sampleTrip (days sampleTrip) 3 0 [] = Some (Inr (map f (days sampleTrip)))"
    using batchLoop_all_ok [of 3 "days sampleTrip" plannerEnv sampleTrip f 0 "[]"] ok by simp
  then have loop: "batchLoop plannerEnv sampleTrip (days sampleTrip) 3 0 [] = Some (Inr [r1, r2, r3])"
    unfolding ds using fv by simp
  have "generateDaysParallel plannerEnv (days sampleTrip) sampleTrip 3 = Some (Inr [r1, r2, r3])"
    unfolding generateDaysParallel_def loop by (simp add: n)
  then show ?thesis using n r1(2) r2(2) r3(2) by blast
qed

lemma regenerateDayWithConfirmation_not_located:
  assumes "tripSkeleton st = Some sk" "generatedHtml st = Some document" "document \<noteq> []"
    and "snd (regenerateDayPlan env sk d input) = Inr newDayHtml"
    and "matchDaySection d document = None"
  shows "regenerateDayWithConfirmation env now rnd d input st
           = (addChatMessage now rnd Assistant
                [0x4FEE, 0x6539, 0x5931, 0x8D25, 0xFF0C, 0x8BF7, 0x91CD, 0x8BD5, 0x3002]
                (st \<lparr> isRegenerating := True, showDayConfirmation := False,
                      showDaySelector := False \<rparr>))
              \<lparr> isRegenerating := False \<rparr>"
  using assms by (simp add: regenerateDayWithConfirmation_def Let_def)

text \<open>
  Claim C8 fails on the documents that the pipeline generates. The day sections of a
  generated document are rendered by \<open>DayAgent.generateHTML\<close>, whose opening tag is
  \<open><section class="day-section mb-8" data-day="N">\<close>, and the expression of
  \<open>regenerateDayWithConfirmation\<close> looks for \<open><section id="day-N"\<close>. On the sample
  request the stream completes; the document that \<open>handleGenerate\<close> collects from it is the
  header, the overview, the three day sections and the footer, and the skeleton payload is
  the sample trip. The follow-up is classified as an edit of day 2 with confidence 0.9, so
  the confirmation dialog is shown; on confirmation the regeneration of day 2 succeeds,
  the expression matches nothing in the document, and the handler leaves the document as
  it was and answers that the modification failed: the section of day 2 is not replaced.
\<close>

theorem regenerateDayWithConfirmation_cannot_locate_generated_day:
  "\<exists>chunks h ov r1 r2 r3 f newDayHtml.
     generateTravelPlanStream plannerEnv sampleDetails [] = (chunks, Completed)
   \<and> filter carriesContent chunks
       = [HtmlStart h,
          SkeletonPayload (objectSpread heroVisual (objectSpread heroVisual itineraryJson)),
          Html ov, Html (html r1), Html (html r2), Html (html r3), Html f]
   \<and> decodeTrip (objectSpread heroVisual (objectSpread heroVisual itineraryJson)) = Some sampleTrip
   \<and> generateDaysParallel plannerEnv (days sampleTrip) sampleTrip 3 = Some (Inr [r1, r2, r3])
   \<and> documentOf chunks = h @ ov @ html r1 @ html r2 @ html r3 @ f
   \<and> matchDaySection 2 (documentOf chunks) = None
   \<and> snd (regenerateDayPlan plannerEnv sampleTrip 2 (ascii ''make day 2 more relaxed''))
       = Inr newDayHtml
   \<and> handleUpdateLocal \<lparr> suggestedDay = Some 2, dayConfidence = Some 90 \<rparr>
         (followUp (documentOf chunks))
       = (followUp (documentOf chunks))
           \<lparr> showDayConfirmation := True, suggestedDayForConfirmation := Some 2 \<rparr>
   \<and> onConfirm plannerEnv 2 (ascii ''0.5'')
         ((followUp (documentOf chunks))
            \<lparr> showDayConfirmation := True, suggestedDayForConfirmation := Some 2 \<rparr>)
       = (followUp (documentOf chunks))
           \<lparr> chatMessages := chatMessages (followUp (documentOf chunks)) @
                [\<lparr> msg_id = showInt 2 @ ascii ''0.5'', msg_role = Assistant,
                   msg_content = [0x4FEE, 0x6539, 0x5931, 0x8D25, 0xFF0C, 0x8BF7, 0x91CD, 0x8BD5,
                                  0x3002],
                   msg_timestamp = 2 \<rparr>],
             suggestedDayForConfirmation := Some 2 \<rparr>"
proof -
  define sk where "sk = objectSpread heroVisual itineraryJson"
  define full where "full = objectSpread heroVisual sk"
  obtain h where h: "headerStage plannerEnv sampleVisual
      = ([Log (LogVisual (ascii ''calm'') (ascii ''rose'')), HtmlStart h], Inr heroVisual)"
    "h \<noteq> []" "idFree h"
    using planner_header by blast
  obtain ov where ov: "skeletonStage plannerEnv (details_prompt sampleDetails) [] heroVisual
      = ([Progress PHASE_OVERVIEW (Percent 20) None, Log LogStructureStart, SkeletonPayload full,
          Html ov], Inr (sk, full))" "idFree ov"
    using planner_skeleton [of "details_prompt sampleDetails"] unfolding sk_def full_def by blast
  obtain r1 r2 r3 where r:
    "generateDaysParallel plannerEnv (days sampleTrip) sampleTrip 3 = Some (Inr [r1, r2, r3])"
    "dayNumber r1 = 1" "dayNumber r2 = 2" "dayNumber r3 = 3"
    "idFree (html r1)" "idFree (html r2)" "idFree (html r3)"
    using planner_days_generated by blast
  obtain f where f: "footerHtmlOf heroVisual = Inr f" "idFree f"
    using footer_markup by blast
  have dec: "decodeTrip full = Some sampleTrip"
    unfolding full_def sk_def by (rule decode_payload)
  have skd: "getProp sk (ascii ''days'') = JArr [itineraryDay 1, itineraryDay 2, itineraryDay 3]"
    unfolding sk_def by (rule skeleton_props)
  have ds: "days sampleTrip \<noteq> []" by (simp add: sampleTrip_def)
  define dayPart where "dayPart =
    [Progress PHASE_DAY_1 (Percent 30) None, Log LogDaysStart]
    @ dayChunks 0 3 [r1, r2, r3]
    @ [Progress PHASE_COMPLETE (Percent 100) None, Html f, Log LogDone]"
  have days: "daysStage plannerEnv heroVisual sk full = (dayPart, Inr ())"
    unfolding daysStage_def skd decode_days
    by (simp add: andThen_yield andThen_value typed_def nullish_def ds dec r(1) await_def f(1)
          yield_def dayPart_def)
  define chunks where "chunks =
    [Progress PHASE_SKELETON (Percent 5) None, Log LogIntentStart,
     Log (LogScene (sceneName (quickPredict (toLowerCase plannerEnv) (details_prompt sampleDetails)))
            Default60),
     Log (LogSummary (getDefaultSummary
            (quickPredict (toLowerCase plannerEnv) (details_prompt sampleDetails)))),
     Progress PHASE_HEADER (Percent 10) None, Log LogVisualStart,
     Log (LogVisual (ascii ''calm'') (ascii ''rose'')), HtmlStart h,
     Progress PHASE_OVERVIEW (Percent 20) None, Log LogStructureStart, SkeletonPayload full,
     Html ov] @ dayPart"
  have lt: "linkTextOf [] = []" by (simp add: linkTextOf_def)
  have body: "pipelineBody plannerEnv sampleDetails [] = (chunks, Inr ())"
    unfolding pipelineBody_def planner_intent
    by (simp add: andThen_value planner_visual h(1) lt ov(1) days chunks_def)
  have run: "generateTravelPlanStream plannerEnv sampleDetails [] = (chunks, Completed)"
    by (simp add: generateTravelPlanStream_def getGlmClient_def body ascii_def)
  have content: "filter carriesContent chunks
       = [HtmlStart h, SkeletonPayload full, Html ov, Html (html r1), Html (html r2),
          Html (html r3), Html f]"
    by (simp add: chunks_def dayPart_def carriesContent_def)
  have doc: "documentOf chunks = h @ ov @ html r1 @ html r2 @ html r3 @ f"
    using h(2) by (simp add: documentOf_def chunks_def dayPart_def)
  have free: "idFree (documentOf chunks)"
    unfolding doc by (intro idFree_append h(3) ov(2) r(5,6,7) f(2))
  have none: "matchDaySection 2 (documentOf chunks) = None"
    using free by (rule idFree_no_section)
  have ne: "documentOf chunks \<noteq> []" unfolding doc using h(2) by simp
  obtain newDayHtml where
    nd: "snd (regenerateDayPlan plannerEnv sampleTrip 2 (ascii ''make day 2 more relaxed''))
           = Inr newDayHtml"
    using edit_regenerated by blast
  define st where "st = followUp (documentOf chunks)"
  have up: "handleUpdateLocal \<lparr> suggestedDay = Some 2, dayConfidence = Some 90 \<rparr> st
              = st \<lparr> showDayConfirmation := True, suggestedDayForConfirmation := Some 2 \<rparr>"
    by (simp add: handleUpdateLocal_def st_def followUp_def)
  have li: "lastUserInput (st \<lparr> showDayConfirmation := True, suggestedDayForConfirmation := Some 2 \<rparr>)
              = ascii ''make day 2 more relaxed''"
    by (simp add: lastUserInput_def st_def followUp_def)
  have "regenerateDayWithConfirmation plannerEnv 2 (ascii ''0.5'') 2
          (ascii ''make day 2 more relaxed'')
          (st \<lparr> showDayConfirmation := True, suggestedDayForConfirmation := Some 2 \<rparr>)
        = (addChatMessage 2 (ascii ''0.5'') Assistant
                [0x4FEE, 0x6539, 0x5931, 0x8D25, 0xFF0C, 0x8BF7, 0x91CD, 0x8BD5, 0x3002]
                ((st \<lparr> showDayConfirmation := True, suggestedDayForConfirmation := Some 2 \<rparr>)
                   \<lparr> isRegenerating := True, showDayConfirmation := False,
                      showDaySelector := False \<rparr>))
              \<lparr> isRegenerating := False \<rparr>"
    by (rule regenerateDayWithConfirmation_not_located [where sk = sampleTrip
              and document = "documentOf chunks" and newDayHtml = newDayHtml])
       (simp_all add: st_def followUp_def ne nd none)
  then have conf: "onConfirm plannerEnv 2 (ascii ''0.5'')
          (st \<lparr> showDayConfirmation := True, suggestedDayForConfirmation := Some 2 \<rparr>)
        = st \<lparr> chatMessages := chatMessages st @
                [\<lparr> msg_id = showInt 2 @ ascii ''0.5'', msg_role = Assistant,
                   msg_content = [0x4FEE, 0x6539, 0x5931, 0x8D25, 0xFF0C, 0x8BF7, 0x91CD, 0x8BD5,
                                  0x3002],
                   msg_timestamp = 2 \<rparr>],
             suggestedDayForConfirmation := Some 2 \<rparr>"
    unfolding onConfirm_def li by (simp add: st_def followUp_def addChatMessage_def)
  show ?thesis
    apply (rule exI [of _ chunks])
    apply (rule exI [of _ h])
    apply (rule exI [of _ ov])
    apply (rule exI [of _ r1])
    apply (rule exI [of _ r2])
    apply (rule exI [of _ r3])
    apply (rule exI [of _ f])
    apply (rule exI [of _ newDayHtml])
    apply (intro conjI)
            apply (rule run)
           apply (rule content [unfolded full_def sk_def])
          apply (rule dec [unfolded full_def sk_def])
         apply (rule r(1))
        apply (rule doc)
       apply (rule none)
      apply (rule nd)
     apply (rule up [unfolded st_def])
    apply (rule conf [unfolded st_def])
    done
qed
end
